theory Spec2Isabelle
  imports Complex_Main
begin

section \<open>Data model of the window tiler (src/components/index.tsx)\<close>

text \<open>
  JavaScript numbers are modelled as real numbers: every coordinate of the program is
  obtained from the viewport size by halving, adding and subtracting, and NaN and
  rounding are left out.  Identifiers are strings.  An optional field
  (\<^verbatim>\<open>windowId?\<close>, \<^verbatim>\<open>parentId?\<close>, \<^verbatim>\<open>children?\<close>) is an option, and
  \<^verbatim>\<open>undefined\<close> and \<^verbatim>\<open>null\<close> are \<open>None\<close>.
\<close>

datatype SnapEdge = SnapLeft | SnapRight | SnapTop | SnapBottom

type_synonym SnapPosition = "SnapEdge option"

record Position =
  p_x :: real
  p_y :: real

record Size =
  s_width :: real
  s_height :: real

record WindowData =
  w_id :: string
  w_color :: string
  w_position :: Position
  w_size :: Size
  w_snapped :: SnapPosition
  w_parentId :: "string option"
  w_children :: "string list option"

record GridCell =
  c_id :: string
  c_x :: real
  c_y :: real
  c_width :: real
  c_height :: real
  c_windowId :: "string option"
  c_children :: "string list option"
  c_parentId :: "string option"

definition WINDOW_WIDTH :: real where
  "WINDOW_WIDTH = 300"

definition WINDOW_HEIGHT :: real where
  "WINDOW_HEIGHT = 200"

definition SNAP_THRESHOLD :: real where
  "SNAP_THRESHOLD = 30"

text \<open>
  The truth value JavaScript gives an optional string in a condition
  (\<^verbatim>\<open>!cell.parentId\<close>, \<^verbatim>\<open>c.windowId && ...\<close>, \<^verbatim>\<open>if (!draggingId)\<close>):
  \<^verbatim>\<open>undefined\<close>, \<^verbatim>\<open>null\<close> and the empty string are false.
\<close>

fun truthy :: "string option \<Rightarrow> bool" where
  "truthy None = False"
| "truthy (Some s) = (s \<noteq> [])"

text \<open>The component's state: the React state variables and refs, and the viewport
  size the code reads from \<^verbatim>\<open>window.innerWidth\<close> and \<^verbatim>\<open>window.innerHeight\<close>.\<close>

record State =
  windows :: "WindowData list"
  draggingId :: "string option"
  dragOffset :: Position
  snapIndicator :: SnapPosition
  dragPos :: Position
  gridCells :: "GridCell list"
  innerWidth :: real
  innerHeight :: real

definition rootId :: string where
  "rootId = ''root''"

definition initialState :: "real \<Rightarrow> real \<Rightarrow> State" where
  "initialState vw vh =
     \<lparr>windows = [], draggingId = None, dragOffset = \<lparr>p_x = 0, p_y = 0\<rparr>,
      snapIndicator = None, dragPos = \<lparr>p_x = 0, p_y = 0\<rparr>,
      gridCells = [\<lparr>c_id = rootId, c_x = 0, c_y = 0, c_width = vw, c_height = vh,
                    c_windowId = None, c_children = None, c_parentId = None\<rparr>],
      innerWidth = vw, innerHeight = vh\<rparr>"

section \<open>The partition tree: split and merge\<close>

text \<open>
  \<^verbatim>\<open>splitGridCell(cellId, snapPosition, windowId)\<close>, lines 87-149.  The two calls of
  \<^verbatim>\<open>generateId()\<close> (a random number's digits) are the parameters \<open>newId1\<close> and
  \<open>newId2\<close>, in the order of the calls.
\<close>

definition splitGridCell ::
  "GridCell list \<Rightarrow> string \<Rightarrow> SnapPosition \<Rightarrow> string \<Rightarrow> string \<Rightarrow> string \<Rightarrow> GridCell list" where
  "splitGridCell cells cellId snapPosition windowId newId1 newId2 =
     (case find (\<lambda>c. c_id c = cellId) cells of
        None \<Rightarrow> cells
      | Some cell \<Rightarrow>
          (let existingWindowId = c_windowId cell;
               newCells =
                 (if snapPosition = Some SnapLeft \<or> snapPosition = Some SnapRight then
                    [\<lparr>c_id = newId1, c_x = c_x cell, c_y = c_y cell,
                      c_width = c_width cell / 2, c_height = c_height cell,
                      c_windowId = (if snapPosition = Some SnapLeft then Some windowId
                                    else existingWindowId),
                      c_children = None, c_parentId = Some (c_id cell)\<rparr>,
                     \<lparr>c_id = newId2, c_x = c_x cell + c_width cell / 2, c_y = c_y cell,
                      c_width = c_width cell / 2, c_height = c_height cell,
                      c_windowId = (if snapPosition = Some SnapRight then Some windowId
                                    else existingWindowId),
                      c_children = None, c_parentId = Some (c_id cell)\<rparr>]
                  else
                    [\<lparr>c_id = newId1, c_x = c_x cell, c_y = c_y cell,
                      c_width = c_width cell, c_height = c_height cell / 2,
                      c_windowId = (if snapPosition = Some SnapTop then Some windowId
                                    else existingWindowId),
                      c_children = None, c_parentId = Some (c_id cell)\<rparr>,
                     \<lparr>c_id = newId2, c_x = c_x cell, c_y = c_y cell + c_height cell / 2,
                      c_width = c_width cell, c_height = c_height cell / 2,
                      c_windowId = (if snapPosition = Some SnapBottom then Some windowId
                                    else existingWindowId),
                      c_children = None, c_parentId = Some (c_id cell)\<rparr>]);
               updatedParent = cell\<lparr>c_windowId := None, c_children := Some (map c_id newCells)\<rparr>
           in map (\<lambda>c. if c_id c = cellId then updatedParent else c) cells @ newCells))"

text \<open>\<^verbatim>\<open>mergeGridCells(cellId)\<close>, lines 151-174.\<close>

definition mergeGridCells :: "GridCell list \<Rightarrow> string \<Rightarrow> GridCell list" where
  "mergeGridCells cells cellId =
     (case find (\<lambda>c. c_id c = cellId) cells of
        None \<Rightarrow> cells
      | Some cell \<Rightarrow>
          if \<not> truthy (c_parentId cell) then cells
          else
            (case find (\<lambda>c. Some (c_id c) = c_parentId cell) cells of
               None \<Rightarrow> cells
             | Some parent \<Rightarrow>
                 (case find (\<lambda>c. c_parentId c = c_parentId cell \<and> c_id c \<noteq> cellId) cells of
                    None \<Rightarrow> cells
                  | Some sibling \<Rightarrow>
                      (let updatedParent = parent\<lparr>
                             c_x := min (c_x parent) (c_x sibling),
                             c_y := min (c_y parent) (c_y sibling),
                             c_width := max (c_x parent + c_width parent) (c_x sibling + c_width sibling)
                                        - min (c_x parent) (c_x sibling),
                             c_height := max (c_y parent + c_height parent) (c_y sibling + c_height sibling)
                                         - min (c_y parent) (c_y sibling),
                             c_windowId := c_windowId sibling,
                             c_children := None\<rparr>
                       in map (\<lambda>c. if Some (c_id c) = c_parentId cell then updatedParent else c)
                            (filter (\<lambda>c. c_id c \<noteq> cellId \<and> c_id c \<noteq> c_id sibling) cells)))))"

section \<open>Locating the cell under the pointer\<close>

text \<open>
  \<^verbatim>\<open>findGridCell(x, y)\<close>, lines 60-85: \<^verbatim>\<open>findInCell\<close> descends from the root through
  the child ids of each cell, looked up in the arena.  The recursion is not structural
  (an arena whose child ids form a cycle makes the JavaScript recurse until the stack
  overflows), so the model counts the depth of the calls: the outer option is \<open>None\<close>
  when the depth allowance is used up, and the inner option is the function's result
  (\<^verbatim>\<open>null\<close> or a cell).  \<open>findInChildren\<close> is the \<^verbatim>\<open>for\<close> loop over the child ids.
\<close>

fun findInCell :: "nat \<Rightarrow> GridCell list \<Rightarrow> real \<Rightarrow> real \<Rightarrow> GridCell \<Rightarrow> GridCell option option"
  and findInChildren :: "nat \<Rightarrow> GridCell list \<Rightarrow> real \<Rightarrow> real \<Rightarrow> string list \<Rightarrow> GridCell option option"
where
  "findInCell 0 cells x y cell = None"
| "findInCell (Suc n) cells x y cell =
     (if x \<ge> c_x cell \<and> x < c_x cell + c_width cell \<and>
         y \<ge> c_y cell \<and> y < c_y cell + c_height cell then
        (case c_children cell of
           None \<Rightarrow> Some (Some cell)
         | Some childIds \<Rightarrow>
             if length childIds > 0 then
               (case findInChildren n cells x y childIds of
                  None \<Rightarrow> None
                | Some None \<Rightarrow> Some (Some cell)
                | Some (Some result) \<Rightarrow> Some (Some result))
             else Some (Some cell))
      else Some None)"
| "findInChildren n cells x y [] = Some None"
| "findInChildren n cells x y (childId # rest) =
     (case find (\<lambda>c. c_id c = childId) cells of
        None \<Rightarrow> findInChildren n cells x y rest
      | Some child \<Rightarrow>
          (case findInCell n cells x y child of
             None \<Rightarrow> None
           | Some None \<Rightarrow> findInChildren n cells x y rest
           | Some (Some result) \<Rightarrow> Some (Some result)))"

text \<open>
  Every call of \<^verbatim>\<open>findInCell\<close> is on a cell of the arena, and a chain of calls that
  meets the same cell twice never ends; so a descent that returns is never deeper than
  the arena is long, and that is the depth allowed.
\<close>

definition findGridCell :: "GridCell list \<Rightarrow> real \<Rightarrow> real \<Rightarrow> GridCell option option" where
  "findGridCell cells x y =
     (case find (\<lambda>c. c_id c = rootId) cells of
        None \<Rightarrow> Some None
      | Some rootCell \<Rightarrow> findInCell (Suc (length cells)) cells x y rootCell)"

section \<open>Window registry and drag controller\<close>

text \<open>\<^verbatim>\<open>addWindow\<close>, lines 176-185; the id, the colour and the position are random.\<close>

definition addWindow :: "State \<Rightarrow> string \<Rightarrow> string \<Rightarrow> Position \<Rightarrow> State" where
  "addWindow s newId color pos =
     s\<lparr>windows := windows s @
         [\<lparr>w_id = newId, w_color = color, w_position = pos,
           w_size = \<lparr>s_width = WINDOW_WIDTH, s_height = WINDOW_HEIGHT\<rparr>,
           w_snapped = None, w_parentId = None, w_children = None\<rparr>]\<rparr>"

text \<open>\<^verbatim>\<open>onDragStart\<close>, lines 187-197.\<close>

definition onDragStart :: "State \<Rightarrow> real \<Rightarrow> real \<Rightarrow> string \<Rightarrow> State" where
  "onDragStart s clientX clientY ident =
     (case find (\<lambda>w. w_id w = ident) (windows s) of
        None \<Rightarrow> s
      | Some win \<Rightarrow>
          s\<lparr>draggingId := Some ident,
            dragOffset := \<lparr>p_x = clientX - p_x (w_position win),
                           p_y = clientY - p_y (w_position win)\<rparr>,
            dragPos := \<lparr>p_x = clientX, p_y = clientY\<rparr>\<rparr>)"

text \<open>The parent cell of a window, lines 204 and 345.\<close>

definition parentCellOf :: "GridCell list \<Rightarrow> WindowData option \<Rightarrow> GridCell option" where
  "parentCellOf cells win =
     (case win of
        None \<Rightarrow> None
      | Some w \<Rightarrow>
          if truthy (w_parentId w) then find (\<lambda>c. Some (c_id c) = w_parentId w) cells
          else None)"

text \<open>\<^verbatim>\<open>clampCell\<close>, lines 202-209: the parent cell of the dragged window, or else the
  first cell that lists the window as its occupant.\<close>

definition clampCellOf :: "State \<Rightarrow> string \<Rightarrow> GridCell option" where
  "clampCellOf s dragId =
     (let dragWin = find (\<lambda>w. w_id w = dragId) (windows s);
          currentCell = find (\<lambda>c. c_windowId c = Some dragId) (gridCells s);
          parentCell = parentCellOf (gridCells s) dragWin
      in case parentCell of Some p \<Rightarrow> Some p | None \<Rightarrow> currentCell)"

text \<open>\<^verbatim>\<open>dragWin?.size.width ?? WINDOW_WIDTH\<close> and the same for the height, lines 211-212.\<close>

definition dragWinWidth :: "State \<Rightarrow> string \<Rightarrow> real" where
  "dragWinWidth s dragId =
     (case find (\<lambda>w. w_id w = dragId) (windows s) of
        Some w \<Rightarrow> s_width (w_size w)
      | None \<Rightarrow> WINDOW_WIDTH)"

definition dragWinHeight :: "State \<Rightarrow> string \<Rightarrow> real" where
  "dragWinHeight s dragId =
     (case find (\<lambda>w. w_id w = dragId) (windows s) of
        Some w \<Rightarrow> s_height (w_size w)
      | None \<Rightarrow> WINDOW_HEIGHT)"

text \<open>The position the dragged window is shown at, lines 206-215.\<close>

definition dragPosition :: "State \<Rightarrow> string \<Rightarrow> real \<Rightarrow> real \<Rightarrow> Position" where
  "dragPosition s dragId clientX clientY =
     (let newX = clientX - p_x (dragOffset s);
          newY = clientY - p_y (dragOffset s)
      in case clampCellOf s dragId of
           None \<Rightarrow> \<lparr>p_x = newX, p_y = newY\<rparr>
         | Some clampCell \<Rightarrow>
             (let maxX = c_x clampCell + c_width clampCell - dragWinWidth s dragId;
                  maxY = c_y clampCell + c_height clampCell - dragWinHeight s dragId
              in \<lparr>p_x = min (max newX (c_x clampCell)) (max (c_x clampCell) maxX),
                  p_y = min (max newY (c_y clampCell)) (max (c_y clampCell) maxY)\<rparr>))"

text \<open>\<^verbatim>\<open>cursorInParentBounds\<close>, lines 229-234 and 346-351.\<close>

definition cursorInParentBounds :: "GridCell option \<Rightarrow> real \<Rightarrow> real \<Rightarrow> bool" where
  "cursorInParentBounds parentCell clientX clientY =
     (case parentCell of
        None \<Rightarrow> True
      | Some p \<Rightarrow>
          clientX \<ge> c_x p \<and> clientX \<le> c_x p + c_width p \<and>
          clientY \<ge> c_y p \<and> clientY \<le> c_y p + c_height p)"

text \<open>The indicator a target cell gives, lines 237-269.\<close>

definition cellIndicator :: "GridCell \<Rightarrow> real \<Rightarrow> real \<Rightarrow> SnapPosition" where
  "cellIndicator targetCell clientX clientY =
     (let cellWidth = c_width targetCell;
          cellHeight = c_height targetCell;
          relativeX = clientX - c_x targetCell;
          relativeY = clientY - c_y targetCell;
          isRootCell = (c_id targetCell = rootId);
          allFour =
            (if relativeX < SNAP_THRESHOLD then Some SnapLeft
             else if relativeX > cellWidth - SNAP_THRESHOLD then Some SnapRight
             else if relativeY < SNAP_THRESHOLD then Some SnapTop
             else if relativeY > cellHeight - SNAP_THRESHOLD then Some SnapBottom
             else None)
      in if isRootCell then allFour
         else if cellWidth > cellHeight then
           (if relativeX < SNAP_THRESHOLD then Some SnapLeft
            else if relativeX > cellWidth - SNAP_THRESHOLD then Some SnapRight
            else None)
         else if cellHeight > cellWidth then
           (if relativeY < SNAP_THRESHOLD then Some SnapTop
            else if relativeY > cellHeight - SNAP_THRESHOLD then Some SnapBottom
            else None)
         else allFour)"

text \<open>
  The indicator of a pointer move, lines 217-271: the four screen-edge tests on the
  shown position, then the cell under the pointer.  The result is \<open>None\<close> when
  \<^verbatim>\<open>findGridCell\<close> does not return.
\<close>

definition dragIndicator :: "State \<Rightarrow> string \<Rightarrow> real \<Rightarrow> real \<Rightarrow> SnapPosition option" where
  "dragIndicator s dragId clientX clientY =
     (let dragWin = find (\<lambda>w. w_id w = dragId) (windows s);
          parentCell = parentCellOf (gridCells s) dragWin;
          newX = p_x (dragPosition s dragId clientX clientY);
          newY = p_y (dragPosition s dragId clientX clientY);
          allowScreenEdgeSnap =
            (\<not> truthy (case dragWin of None \<Rightarrow> None | Some w \<Rightarrow> w_parentId w))
      in if allowScreenEdgeSnap \<and> newX < SNAP_THRESHOLD then Some (Some SnapLeft)
         else if allowScreenEdgeSnap \<and> newX + WINDOW_WIDTH > innerWidth s - SNAP_THRESHOLD
           then Some (Some SnapRight)
         else if allowScreenEdgeSnap \<and> newY < SNAP_THRESHOLD then Some (Some SnapTop)
         else if allowScreenEdgeSnap \<and> newY + WINDOW_HEIGHT > innerHeight s - SNAP_THRESHOLD
           then Some (Some SnapBottom)
         else
           (case findGridCell (gridCells s) clientX clientY of
              None \<Rightarrow> None
            | Some None \<Rightarrow> Some None
            | Some (Some targetCell) \<Rightarrow>
                if cursorInParentBounds parentCell clientX clientY
                then Some (cellIndicator targetCell clientX clientY)
                else Some None))"

text \<open>\<^verbatim>\<open>onDrag\<close>, lines 199-287.  \<open>None\<close>: the handler did not return.\<close>

definition onDrag :: "State \<Rightarrow> real \<Rightarrow> real \<Rightarrow> State option" where
  "onDrag s clientX clientY =
     (case draggingId s of
        None \<Rightarrow> Some s
      | Some dragId \<Rightarrow>
          if dragId = [] then Some s
          else
            (case dragIndicator s dragId clientX clientY of
               None \<Rightarrow> None
             | Some indicator \<Rightarrow>
                 Some (s\<lparr>snapIndicator := indicator,
                         dragPos := \<lparr>p_x = clientX, p_y = clientY\<rparr>,
                         windows :=
                           map (\<lambda>w. if w_id w = dragId
                                     then w\<lparr>w_position := dragPosition s dragId clientX clientY,
                                            w_snapped := None\<rparr>
                                     else w)
                               (windows s)\<rparr>)))"

text \<open>The screen-edge test at pointer-up, lines 298-302.\<close>

definition isScreenEdgeSnapCandidate :: "real \<Rightarrow> real \<Rightarrow> real \<Rightarrow> real \<Rightarrow> bool" where
  "isScreenEdgeSnapCandidate vw vh newX newY =
     (newX < SNAP_THRESHOLD \<or>
      newX + WINDOW_WIDTH > vw - SNAP_THRESHOLD \<or>
      newY < SNAP_THRESHOLD \<or>
      newY + WINDOW_HEIGHT > vh - SNAP_THRESHOLD)"

text \<open>Line 305.\<close>

definition isScreenEdgeSnap :: "WindowData \<Rightarrow> real \<Rightarrow> real \<Rightarrow> real \<Rightarrow> real \<Rightarrow> bool" where
  "isScreenEdgeSnap win vw vh newX newY =
     (if truthy (w_parentId win) then False else isScreenEdgeSnapCandidate vw vh newX newY)"

text \<open>The half-viewport geometry of a screen-edge dock, lines 308-343.\<close>

definition screenEdgeDock :: "State \<Rightarrow> string \<Rightarrow> SnapEdge \<Rightarrow> State" where
  "screenEdgeDock s dragId edge =
     (let newPos = (case edge of
                      SnapLeft \<Rightarrow> \<lparr>p_x = 0, p_y = 0\<rparr>
                    | SnapRight \<Rightarrow> \<lparr>p_x = innerWidth s / 2, p_y = 0\<rparr>
                    | SnapTop \<Rightarrow> \<lparr>p_x = 0, p_y = 0\<rparr>
                    | SnapBottom \<Rightarrow> \<lparr>p_x = 0, p_y = innerHeight s / 2\<rparr>);
          newSize = (case edge of
                       SnapLeft \<Rightarrow> \<lparr>s_width = innerWidth s / 2, s_height = innerHeight s\<rparr>
                     | SnapRight \<Rightarrow> \<lparr>s_width = innerWidth s / 2, s_height = innerHeight s\<rparr>
                     | SnapTop \<Rightarrow> \<lparr>s_width = innerWidth s, s_height = innerHeight s / 2\<rparr>
                     | SnapBottom \<Rightarrow> \<lparr>s_width = innerWidth s, s_height = innerHeight s / 2\<rparr>)
      in s\<lparr>windows :=
             map (\<lambda>w. if w_id w = dragId
                       then w\<lparr>w_position := newPos, w_size := newSize,
                              w_snapped := Some edge, w_parentId := None\<rparr>
                       else w)
                 (windows s)\<rparr>)"

text \<open>The dock into the tree, lines 345-375.  \<open>None\<close>: \<^verbatim>\<open>findGridCell\<close> did not return.\<close>

definition treeDock ::
  "State \<Rightarrow> string \<Rightarrow> WindowData \<Rightarrow> SnapEdge \<Rightarrow> real \<Rightarrow> real \<Rightarrow> string \<Rightarrow> string \<Rightarrow> State option" where
  "treeDock s dragId win edge clientX clientY newId1 newId2 =
     (let parentCell = parentCellOf (gridCells s) (Some win)
      in case findGridCell (gridCells s) clientX clientY of
           None \<Rightarrow> None
         | Some None \<Rightarrow> Some s
         | Some (Some targetCell) \<Rightarrow>
             if cursorInParentBounds parentCell clientX clientY then
               (let newGridCells =
                      splitGridCell (gridCells s) (c_id targetCell) (Some edge) dragId newId1 newId2
                in case find (\<lambda>c. c_windowId c = Some dragId) newGridCells of
                     None \<Rightarrow> Some (s\<lparr>gridCells := newGridCells\<rparr>)
                   | Some newCell \<Rightarrow>
                       Some (s\<lparr>gridCells := newGridCells,
                               windows :=
                                 map (\<lambda>w. if w_id w = dragId
                                           then w\<lparr>w_position := \<lparr>p_x = c_x newCell, p_y = c_y newCell\<rparr>,
                                                  w_size := \<lparr>s_width = c_width newCell,
                                                             s_height = c_height newCell\<rparr>,
                                                  w_snapped := Some edge,
                                                  w_parentId := c_parentId newCell\<rparr>
                                           else w)
                                     (windows s)\<rparr>))
             else Some s)"

text \<open>Lines 378-379.\<close>

definition endDrag :: "State \<Rightarrow> State" where
  "endDrag s = s\<lparr>draggingId := None, snapIndicator := None\<rparr>"

text \<open>\<^verbatim>\<open>onDragEnd\<close>, lines 289-380.  The two ids are what \<^verbatim>\<open>generateId()\<close> gives the
  split, when there is one.\<close>

definition onDragEnd :: "State \<Rightarrow> real \<Rightarrow> real \<Rightarrow> string \<Rightarrow> string \<Rightarrow> State option" where
  "onDragEnd s clientX clientY newId1 newId2 =
     (case draggingId s of
        None \<Rightarrow> Some s
      | Some dragId \<Rightarrow>
          if dragId = [] then Some s
          else
            (case find (\<lambda>w. w_id w = dragId) (windows s) of
               None \<Rightarrow> Some s
             | Some win \<Rightarrow>
                 (case snapIndicator s of
                    None \<Rightarrow> Some (endDrag s)
                  | Some edge \<Rightarrow>
                      (let newX = clientX - p_x (dragOffset s);
                           newY = clientY - p_y (dragOffset s)
                       in if isScreenEdgeSnap win (innerWidth s) (innerHeight s) newX newY
                          then Some (endDrag (screenEdgeDock s dragId edge))
                          else map_option endDrag
                                 (treeDock s dragId win edge clientX clientY newId1 newId2)))))"

text \<open>\<^verbatim>\<open>handleResize\<close>, lines 391-400, run when the viewport takes a new size.\<close>

definition handleResize :: "State \<Rightarrow> real \<Rightarrow> real \<Rightarrow> State" where
  "handleResize s vw vh =
     s\<lparr>innerWidth := vw, innerHeight := vh,
       gridCells := map (\<lambda>cell. if c_id cell = rootId
                                 then cell\<lparr>c_width := vw, c_height := vh\<rparr>
                                 else cell)
                        (gridCells s)\<rparr>"

text \<open>The cell of a window is merged away and a remaining window is moved into its
  cell: lines 407-429 of \<^verbatim>\<open>closeWindow\<close>, and the same code at lines 438-460 of
  \<^verbatim>\<open>moveWindowOut\<close>.\<close>

definition vacateCell :: "State \<Rightarrow> string \<Rightarrow> State" where
  "vacateCell s ident =
     (case find (\<lambda>c. c_windowId c = Some ident) (gridCells s) of
        None \<Rightarrow> s
      | Some cell \<Rightarrow>
          (let newGridCells = mergeGridCells (gridCells s) (c_id cell)
           in case find (\<lambda>c. truthy (c_windowId c) \<and> c_windowId c \<noteq> Some ident) newGridCells of
                None \<Rightarrow> s\<lparr>gridCells := newGridCells\<rparr>
              | Some remainingCell \<Rightarrow>
                  s\<lparr>gridCells := newGridCells,
                    windows :=
                      map (\<lambda>w. if Some (w_id w) = c_windowId remainingCell
                                then w\<lparr>w_position := \<lparr>p_x = c_x remainingCell, p_y = c_y remainingCell\<rparr>,
                                       w_size := \<lparr>s_width = c_width remainingCell,
                                                  s_height = c_height remainingCell\<rparr>,
                                       w_snapped := None,
                                       w_parentId := None\<rparr>
                                else w)
                          (windows s)\<rparr>))"

text \<open>\<^verbatim>\<open>closeWindow\<close>, lines 406-432.\<close>

definition closeWindow :: "State \<Rightarrow> string \<Rightarrow> State" where
  "closeWindow s ident =
     (let s1 = vacateCell s ident
      in s1\<lparr>windows := filter (\<lambda>w. w_id w \<noteq> ident) (windows s1)\<rparr>)"

text \<open>\<^verbatim>\<open>moveWindowOut\<close>, lines 434-476; the new position is random.\<close>

definition moveWindowOut :: "State \<Rightarrow> string \<Rightarrow> Position \<Rightarrow> State" where
  "moveWindowOut s ident pos =
     (case find (\<lambda>w. w_id w = ident) (windows s) of
        None \<Rightarrow> s
      | Some win \<Rightarrow>
          if w_snapped win = None then s
          else
            (let s1 = vacateCell s ident
             in s1\<lparr>windows :=
                     map (\<lambda>w. if w_id w = ident
                               then w\<lparr>w_position := pos,
                                      w_size := \<lparr>s_width = WINDOW_WIDTH, s_height = WINDOW_HEIGHT\<rparr>,
                                      w_snapped := None, w_parentId := None\<rparr>
                               else w)
                         (windows s1)\<rparr>))"

section \<open>Events\<close>

text \<open>The events the host delivers one at a time, each with the values the handler
  reads from its environment (pointer position, random ids, colours and positions).\<close>

datatype Event =
    AddWindow string string Position
  | DragStart real real string
  | Drag real real
  | DragEnd real real string string
  | Resize real real
  | CloseWindow string
  | MoveWindowOut string Position

fun step :: "State \<Rightarrow> Event \<Rightarrow> State option" where
  "step s (AddWindow newId color pos) = Some (addWindow s newId color pos)"
| "step s (DragStart clientX clientY ident) = Some (onDragStart s clientX clientY ident)"
| "step s (Drag clientX clientY) = onDrag s clientX clientY"
| "step s (DragEnd clientX clientY newId1 newId2) = onDragEnd s clientX clientY newId1 newId2"
| "step s (Resize vw vh) = Some (handleResize s vw vh)"
| "step s (CloseWindow ident) = Some (closeWindow s ident)"
| "step s (MoveWindowOut ident pos) = Some (moveWindowOut s ident pos)"

fun run :: "State \<Rightarrow> Event list \<Rightarrow> State option" where
  "run s [] = Some s"
| "run s (e # es) = (case step s e of None \<Rightarrow> None | Some s' \<Rightarrow> run s' es)"

section \<open>Example event sequences\<close>

text \<open>
  A viewport of 1200 by 800.  Window 101 is created at (100,100), dragged by its title
  bar to the left screen edge and docked there (a half-screen dock, outside the tree),
  then dragged by the right part of its title bar until the pointer is within the margin
  of the root cell's right edge, and dropped: the root is split into cell 2 (left,
  empty) and cell 3 (right, window 101).
\<close>

definition dockRightEvents :: "Event list" where
  "dockRightEvents =
     [AddWindow ''101'' ''#aaaaaa'' \<lparr>p_x = 100, p_y = 100\<rparr>,
      DragStart 110 110 ''101'', Drag 20 300, DragEnd 20 300 ''8'' ''9'',
      DragStart 550 15 ''101'', Drag 1180 100, DragEnd 1180 100 ''2'' ''3'']"

definition dockedRightCells :: "GridCell list" where
  "dockedRightCells =
     [\<lparr>c_id = ''root'', c_x = 0, c_y = 0, c_width = 1200, c_height = 800,
       c_windowId = None, c_children = Some [''2'', ''3''], c_parentId = None\<rparr>,
      \<lparr>c_id = ''2'', c_x = 0, c_y = 0, c_width = 600, c_height = 800,
       c_windowId = None, c_children = None, c_parentId = Some ''root''\<rparr>,
      \<lparr>c_id = ''3'', c_x = 600, c_y = 0, c_width = 600, c_height = 800,
       c_windowId = Some ''101'', c_children = None, c_parentId = Some ''root''\<rparr>]"

definition dockedRightState :: State where
  "dockedRightState =
     \<lparr>windows =
        [\<lparr>w_id = ''101'', w_color = ''#aaaaaa'',
          w_position = \<lparr>p_x = 600, p_y = 0\<rparr>,
          w_size = \<lparr>s_width = 600, s_height = 800\<rparr>,
          w_snapped = Some SnapRight, w_parentId = Some ''root'', w_children = None\<rparr>],
      draggingId = None, dragOffset = \<lparr>p_x = 550, p_y = 15\<rparr>,
      snapIndicator = None, dragPos = \<lparr>p_x = 1180, p_y = 100\<rparr>,
      gridCells = dockedRightCells,
      innerWidth = 1200, innerHeight = 800\<rparr>"

text \<open>
  The first four events of \<open>dockRightEvents\<close> leave window 101 docked at the left
  screen edge, 600 by 800; then its title bar is grabbed at (550,15).
\<close>

definition dockLeftEvents :: "Event list" where
  "dockLeftEvents =
     [AddWindow ''101'' ''#aaaaaa'' \<lparr>p_x = 100, p_y = 100\<rparr>,
      DragStart 110 110 ''101'', Drag 20 300, DragEnd 20 300 ''8'' ''9'',
      DragStart 550 15 ''101'']"

definition dockedLeftState :: State where
  "dockedLeftState =
     \<lparr>windows =
        [\<lparr>w_id = ''101'', w_color = ''#aaaaaa'',
          w_position = \<lparr>p_x = 0, p_y = 0\<rparr>,
          w_size = \<lparr>s_width = 600, s_height = 800\<rparr>,
          w_snapped = Some SnapLeft, w_parentId = None, w_children = None\<rparr>],
      draggingId = Some ''101'', dragOffset = \<lparr>p_x = 550, p_y = 15\<rparr>,
      snapIndicator = None, dragPos = \<lparr>p_x = 550, p_y = 15\<rparr>,
      gridCells = gridCells (initialState 1200 800),
      innerWidth = 1200, innerHeight = 800\<rparr>"

text \<open>A new window is created at (100,100) and grabbed at (110,110).\<close>

definition grabNewWindowEvents :: "Event list" where
  "grabNewWindowEvents =
     [AddWindow ''101'' ''#aaaaaa'' \<lparr>p_x = 100, p_y = 100\<rparr>, DragStart 110 110 ''101'']"

definition grabbedNewWindowState :: State where
  "grabbedNewWindowState =
     \<lparr>windows =
        [\<lparr>w_id = ''101'', w_color = ''#aaaaaa'',
          w_position = \<lparr>p_x = 100, p_y = 100\<rparr>,
          w_size = \<lparr>s_width = 300, s_height = 200\<rparr>,
          w_snapped = None, w_parentId = None, w_children = None\<rparr>],
      draggingId = Some ''101'', dragOffset = \<lparr>p_x = 10, p_y = 10\<rparr>,
      snapIndicator = None, dragPos = \<lparr>p_x = 110, p_y = 110\<rparr>,
      gridCells = gridCells (initialState 1200 800),
      innerWidth = 1200, innerHeight = 800\<rparr>"

text \<open>After \<open>dockRightEvents\<close>, window 101 (docked in cell 3, parent the root) is
  grabbed at (1100,15).\<close>

definition grabDockedEvents :: "Event list" where
  "grabDockedEvents = dockRightEvents @ [DragStart 1100 15 ''101'']"

definition grabbedDockedState :: State where
  "grabbedDockedState =
     dockedRightState\<lparr>draggingId := Some ''101'', dragOffset := \<lparr>p_x = 500, p_y = 15\<rparr>,
                      dragPos := \<lparr>p_x = 1100, p_y = 15\<rparr>\<rparr>"

text \<open>After \<open>dockRightEvents\<close> the viewport shrinks to 800 by 600.\<close>

definition shrinkEvents :: "Event list" where
  "shrinkEvents = dockRightEvents @ [Resize 800 600]"

definition shrunkState :: State where
  "shrunkState =
     dockedRightState\<lparr>
       gridCells :=
         [\<lparr>c_id = ''root'', c_x = 0, c_y = 0, c_width = 800, c_height = 600,
           c_windowId = None, c_children = Some [''2'', ''3''], c_parentId = None\<rparr>,
          \<lparr>c_id = ''2'', c_x = 0, c_y = 0, c_width = 600, c_height = 800,
           c_windowId = None, c_children = None, c_parentId = Some ''root''\<rparr>,
          \<lparr>c_id = ''3'', c_x = 600, c_y = 0, c_width = 600, c_height = 800,
           c_windowId = Some ''101'', c_children = None, c_parentId = Some ''root''\<rparr>],
       innerWidth := 800, innerHeight := 600\<rparr>"

text \<open>
  After \<open>dockRightEvents\<close> the viewport grows to 1200 by 1100.  Window 102 is created,
  dragged by its title bar until the pointer is within the margin of the bottom edge of
  cell 3 (which holds window 101) and dropped: cell 3 is split into cell 4 (top, window
  101) and cell 5 (bottom, window 102).
\<close>

definition twoDockedEvents :: "Event list" where
  "twoDockedEvents = dockRightEvents @
     [Resize 1200 1100,
      AddWindow ''102'' ''#bbbbbb'' \<lparr>p_x = 650, p_y = 500\<rparr>,
      DragStart 660 510 ''102'', Drag 700 790, DragEnd 700 790 ''4'' ''5'']"

definition twoDockedCells :: "GridCell list" where
  "twoDockedCells =
     [\<lparr>c_id = ''root'', c_x = 0, c_y = 0, c_width = 1200, c_height = 1100,
       c_windowId = None, c_children = Some [''2'', ''3''], c_parentId = None\<rparr>,
      \<lparr>c_id = ''2'', c_x = 0, c_y = 0, c_width = 600, c_height = 800,
       c_windowId = None, c_children = None, c_parentId = Some ''root''\<rparr>,
      \<lparr>c_id = ''3'', c_x = 600, c_y = 0, c_width = 600, c_height = 800,
       c_windowId = None, c_children = Some [''4'', ''5''], c_parentId = Some ''root''\<rparr>,
      \<lparr>c_id = ''4'', c_x = 600, c_y = 0, c_width = 600, c_height = 400,
       c_windowId = Some ''101'', c_children = None, c_parentId = Some ''3''\<rparr>,
      \<lparr>c_id = ''5'', c_x = 600, c_y = 400, c_width = 600, c_height = 400,
       c_windowId = Some ''102'', c_children = None, c_parentId = Some ''3''\<rparr>]"

definition twoDockedState :: State where
  "twoDockedState =
     \<lparr>windows =
        [\<lparr>w_id = ''101'', w_color = ''#aaaaaa'',
          w_position = \<lparr>p_x = 600, p_y = 0\<rparr>,
          w_size = \<lparr>s_width = 600, s_height = 800\<rparr>,
          w_snapped = Some SnapRight, w_parentId = Some ''root'', w_children = None\<rparr>,
         \<lparr>w_id = ''102'', w_color = ''#bbbbbb'',
          w_position = \<lparr>p_x = 600, p_y = 400\<rparr>,
          w_size = \<lparr>s_width = 600, s_height = 400\<rparr>,
          w_snapped = Some SnapBottom, w_parentId = Some ''3'', w_children = None\<rparr>],
      draggingId = None, dragOffset = \<lparr>p_x = 10, p_y = 10\<rparr>,
      snapIndicator = None, dragPos = \<lparr>p_x = 700, p_y = 790\<rparr>,
      gridCells = twoDockedCells,
      innerWidth = 1200, innerHeight = 1100\<rparr>"

text \<open>
  Then window 103 is created, dragged until the pointer is within the margin of the left
  edge of cell 5 (which holds window 102) and dropped: cell 5 is split into cell 6
  (left, window 103) and cell 7 (right, window 102).
\<close>

definition threeDockedEvents :: "Event list" where
  "threeDockedEvents = twoDockedEvents @
     [AddWindow ''103'' ''#cccccc'' \<lparr>p_x = 300, p_y = 450\<rparr>,
      DragStart 310 460 ''103'', Drag 620 500, DragEnd 620 500 ''6'' ''7'']"

definition threeDockedCells :: "GridCell list" where
  "threeDockedCells =
     [\<lparr>c_id = ''root'', c_x = 0, c_y = 0, c_width = 1200, c_height = 1100,
       c_windowId = None, c_children = Some [''2'', ''3''], c_parentId = None\<rparr>,
      \<lparr>c_id = ''2'', c_x = 0, c_y = 0, c_width = 600, c_height = 800,
       c_windowId = None, c_children = None, c_parentId = Some ''root''\<rparr>,
      \<lparr>c_id = ''3'', c_x = 600, c_y = 0, c_width = 600, c_height = 800,
       c_windowId = None, c_children = Some [''4'', ''5''], c_parentId = Some ''root''\<rparr>,
      \<lparr>c_id = ''4'', c_x = 600, c_y = 0, c_width = 600, c_height = 400,
       c_windowId = Some ''101'', c_children = None, c_parentId = Some ''3''\<rparr>,
      \<lparr>c_id = ''5'', c_x = 600, c_y = 400, c_width = 600, c_height = 400,
       c_windowId = None, c_children = Some [''6'', ''7''], c_parentId = Some ''3''\<rparr>,
      \<lparr>c_id = ''6'', c_x = 600, c_y = 400, c_width = 300, c_height = 400,
       c_windowId = Some ''103'', c_children = None, c_parentId = Some ''5''\<rparr>,
      \<lparr>c_id = ''7'', c_x = 900, c_y = 400, c_width = 300, c_height = 400,
       c_windowId = Some ''102'', c_children = None, c_parentId = Some ''5''\<rparr>]"

definition threeDockedState :: State where
  "threeDockedState =
     \<lparr>windows =
        [\<lparr>w_id = ''101'', w_color = ''#aaaaaa'',
          w_position = \<lparr>p_x = 600, p_y = 0\<rparr>,
          w_size = \<lparr>s_width = 600, s_height = 800\<rparr>,
          w_snapped = Some SnapRight, w_parentId = Some ''root'', w_children = None\<rparr>,
         \<lparr>w_id = ''102'', w_color = ''#bbbbbb'',
          w_position = \<lparr>p_x = 600, p_y = 400\<rparr>,
          w_size = \<lparr>s_width = 600, s_height = 400\<rparr>,
          w_snapped = Some SnapBottom, w_parentId = Some ''3'', w_children = None\<rparr>,
         \<lparr>w_id = ''103'', w_color = ''#cccccc'',
          w_position = \<lparr>p_x = 600, p_y = 400\<rparr>,
          w_size = \<lparr>s_width = 300, s_height = 400\<rparr>,
          w_snapped = Some SnapLeft, w_parentId = Some ''5'', w_children = None\<rparr>],
      draggingId = None, dragOffset = \<lparr>p_x = 10, p_y = 10\<rparr>,
      snapIndicator = None, dragPos = \<lparr>p_x = 620, p_y = 500\<rparr>,
      gridCells = threeDockedCells,
      innerWidth = 1200, innerHeight = 1100\<rparr>"

text \<open>
  After \<open>dockRightEvents\<close>, window 101 (docked in cell 3) is grabbed at (1100,15),
  dragged to (1100,10), within the margin of the top edge of its own cell, and dropped.
\<close>

definition redockEvents :: "Event list" where
  "redockEvents = grabDockedEvents @ [Drag 1100 10, DragEnd 1100 10 ''4'' ''5'']"

definition redockedCells :: "GridCell list" where
  "redockedCells =
     [\<lparr>c_id = ''root'', c_x = 0, c_y = 0, c_width = 1200, c_height = 800,
       c_windowId = None, c_children = Some [''2'', ''3''], c_parentId = None\<rparr>,
      \<lparr>c_id = ''2'', c_x = 0, c_y = 0, c_width = 600, c_height = 800,
       c_windowId = None, c_children = None, c_parentId = Some ''root''\<rparr>,
      \<lparr>c_id = ''3'', c_x = 600, c_y = 0, c_width = 600, c_height = 800,
       c_windowId = None, c_children = Some [''4'', ''5''], c_parentId = Some ''root''\<rparr>,
      \<lparr>c_id = ''4'', c_x = 600, c_y = 0, c_width = 600, c_height = 400,
       c_windowId = Some ''101'', c_children = None, c_parentId = Some ''3''\<rparr>,
      \<lparr>c_id = ''5'', c_x = 600, c_y = 400, c_width = 600, c_height = 400,
       c_windowId = Some ''101'', c_children = None, c_parentId = Some ''3''\<rparr>]"

text \<open>
  After \<open>twoDockedEvents\<close>, window 101 (in cell 4, a child of cell 3) is grabbed at
  (1100,15) and dragged to (100,10), over cell 2.
\<close>

definition dragOutsideParentEvents :: "Event list" where
  "dragOutsideParentEvents = twoDockedEvents @ [DragStart 1100 15 ''101'', Drag 100 10]"

definition draggedOutsideParentState :: State where
  "draggedOutsideParentState =
     \<lparr>windows =
        [\<lparr>w_id = ''101'', w_color = ''#aaaaaa'',
          w_position = \<lparr>p_x = 0, p_y = 0\<rparr>,
          w_size = \<lparr>s_width = 600, s_height = 800\<rparr>,
          w_snapped = None, w_parentId = Some ''root'', w_children = None\<rparr>,
         \<lparr>w_id = ''102'', w_color = ''#bbbbbb'',
          w_position = \<lparr>p_x = 600, p_y = 400\<rparr>,
          w_size = \<lparr>s_width = 600, s_height = 400\<rparr>,
          w_snapped = Some SnapBottom, w_parentId = Some ''3'', w_children = None\<rparr>],
      draggingId = Some ''101'', dragOffset = \<lparr>p_x = 500, p_y = 15\<rparr>,
      snapIndicator = Some SnapTop, dragPos = \<lparr>p_x = 100, p_y = 10\<rparr>,
      gridCells = twoDockedCells,
      innerWidth = 1200, innerHeight = 1100\<rparr>"

text \<open>
  After \<open>twoDockedEvents\<close>, window 102 is closed: cell 3 is a leaf again and holds
  window 101.  Window 101 is grabbed at (1100,15) and dragged to (1100,20).
\<close>

definition dragRehomedEvents :: "Event list" where
  "dragRehomedEvents = twoDockedEvents @
     [CloseWindow ''102'', DragStart 1100 15 ''101'', Drag 1100 20]"

definition draggedRehomedState :: State where
  "draggedRehomedState =
     \<lparr>windows =
        [\<lparr>w_id = ''101'', w_color = ''#aaaaaa'',
          w_position = \<lparr>p_x = 600, p_y = 0\<rparr>,
          w_size = \<lparr>s_width = 600, s_height = 800\<rparr>,
          w_snapped = None, w_parentId = None, w_children = None\<rparr>],
      draggingId = Some ''101'', dragOffset = \<lparr>p_x = 500, p_y = 15\<rparr>,
      snapIndicator = Some SnapTop, dragPos = \<lparr>p_x = 1100, p_y = 20\<rparr>,
      gridCells =
        [\<lparr>c_id = ''root'', c_x = 0, c_y = 0, c_width = 1200, c_height = 1100,
          c_windowId = None, c_children = Some [''2'', ''3''], c_parentId = None\<rparr>,
         \<lparr>c_id = ''2'', c_x = 0, c_y = 0, c_width = 600, c_height = 800,
          c_windowId = None, c_children = None, c_parentId = Some ''root''\<rparr>,
         \<lparr>c_id = ''3'', c_x = 600, c_y = 0, c_width = 600, c_height = 800,
          c_windowId = Some ''101'', c_children = None, c_parentId = Some ''root''\<rparr>],
      innerWidth = 1200, innerHeight = 1100\<rparr>"

section \<open>Notions the claims are stated with\<close>

text \<open>The child ids of a cell, and the edges from the id of a cell to those of its
  child ids that name a cell of the arena: what \<^verbatim>\<open>findInCell\<close> follows.\<close>

definition childIds :: "GridCell \<Rightarrow> string list" where
  "childIds c = (case c_children c of None \<Rightarrow> [] | Some ks \<Rightarrow> ks)"

definition childEdges :: "GridCell list \<Rightarrow> (string \<times> string) set" where
  "childEdges cells =
     {(a, k). \<exists>c \<in> set cells. c_id c = a \<and> k \<in> set (childIds c) \<and> k \<in> c_id ` set cells}"

definition acyclicCells :: "GridCell list \<Rightarrow> bool" where
  "acyclicCells cells = acyclic (childEdges cells)"

text \<open>The screen-edge test C10 compares the code's test with: the same four
  comparisons, with the size of the window in place of the constants 300 and 200.\<close>

definition screenEdgeTestWithSize :: "real \<Rightarrow> real \<Rightarrow> Size \<Rightarrow> real \<Rightarrow> real \<Rightarrow> bool" where
  "screenEdgeTestWithSize vw vh sz newX newY =
     (newX < SNAP_THRESHOLD \<or>
      newX + s_width sz > vw - SNAP_THRESHOLD \<or>
      newY < SNAP_THRESHOLD \<or>
      newY + s_height sz > vh - SNAP_THRESHOLD)"

text \<open>The cell ids an event brings: the two results of \<^verbatim>\<open>generateId()\<close> that a split
  at the end of a drag uses.  They are taken to be new: \<^verbatim>\<open>generateId()\<close> returns
  characters of the decimal representation of a random number, so never the word
  \<^verbatim>\<open>root\<close>, and the id of a cell of the arena only by a collision of random numbers.\<close>

fun newCellIds :: "Event \<Rightarrow> string list" where
  "newCellIds (DragEnd clientX clientY newId1 newId2) = [newId1, newId2]"
| "newCellIds e = []"

definition freshIds :: "State \<Rightarrow> Event \<Rightarrow> bool" where
  "freshIds s e =
     list_all (\<lambda>k. k \<noteq> rootId \<and> k \<notin> set (map c_id (gridCells s))) (newCellIds e)"

text \<open>The states the program reaches from its initial state in a viewport of
  \<open>vw\<close> by \<open>vh\<close>, by events that return and bring new cell ids.\<close>

inductive reachable :: "real \<Rightarrow> real \<Rightarrow> State \<Rightarrow> bool" for vw vh where
  reachable_initial: "reachable vw vh (initialState vw vh)"
| reachable_step:
    "reachable vw vh s \<Longrightarrow> freshIds s e \<Longrightarrow> step s e = Some s' \<Longrightarrow> reachable vw vh s'"

text \<open>The cell ids of a sequence of events are new, each in the state it arrives in.\<close>

fun freshAlong :: "State \<Rightarrow> Event list \<Rightarrow> bool" where
  "freshAlong s [] = True"
| "freshAlong s (e # es) =
     (freshIds s e \<and> (case step s e of None \<Rightarrow> False | Some s' \<Rightarrow> freshAlong s' es))"

text \<open>No cell is named as a child by itself or by a cell that comes later in the arena:
  a split appends the children it names.  The rank of an id is the length of the arena
  from the first cell of that id on.\<close>

fun forwardOnly :: "GridCell list \<Rightarrow> bool" where
  "forwardOnly [] = True"
| "forwardOnly (c # cs) =
     (list_all (\<lambda>d. c_id c \<notin> set (childIds d)) (c # cs) \<and> forwardOnly cs)"

definition posRank :: "GridCell list \<Rightarrow> string \<Rightarrow> nat" where
  "posRank cells k = length (dropWhile (\<lambda>c. c_id c \<noteq> k) cells)"

text \<open>The arena has a cell named root, and no cell of that name has a parent.\<close>

definition rootKept :: "GridCell list \<Rightarrow> bool" where
  "rootKept cells =
     ((\<exists>c \<in> set cells. c_id c = rootId) \<and>
      (\<forall>c \<in> set cells. c_id c = rootId \<longrightarrow> \<not> truthy (c_parentId c)))"

text \<open>Two cells have the same rectangle; a cell lies within another.\<close>

definition sameRect :: "GridCell \<Rightarrow> GridCell \<Rightarrow> bool" where
  "sameRect a b =
     (c_x a = c_x b \<and> c_y a = c_y b \<and> c_width a = c_width b \<and> c_height a = c_height b)"

definition cellWithin :: "GridCell \<Rightarrow> GridCell \<Rightarrow> bool" where
  "cellWithin c r =
     (c_x r \<le> c_x c \<and> c_x c + c_width c \<le> c_x r + c_width r \<and>
      c_y r \<le> c_y c \<and> c_y c + c_height c \<le> c_y r + c_height r)"

text \<open>The occupants of the leaves of an arena, in the order of the arena: the window
  ids of the cells that have no children.\<close>

definition leafOccupants :: "GridCell list \<Rightarrow> string list" where
  "leafOccupants cells =
     List.map_filter (\<lambda>c. if childIds c = [] then c_windowId c else None) cells"

text \<open>The leaf a window is docked to: the first childless cell that lists it as
  occupant.  Its parent region: the cell that leaf names as its parent.  A point lies
  in the rectangle of a cell, borders included.\<close>

definition leafOf :: "GridCell list \<Rightarrow> string \<Rightarrow> GridCell option" where
  "leafOf cells ident = find (\<lambda>c. c_windowId c = Some ident \<and> childIds c = []) cells"

definition parentRegionOf :: "GridCell list \<Rightarrow> string \<Rightarrow> GridCell option" where
  "parentRegionOf cells ident =
     (case leafOf cells ident of
        None \<Rightarrow> None
      | Some leaf \<Rightarrow>
          (case c_parentId leaf of
             None \<Rightarrow> None
           | Some p \<Rightarrow> find (\<lambda>c. c_id c = p) cells))"

definition pointInCell :: "GridCell \<Rightarrow> real \<Rightarrow> real \<Rightarrow> bool" where
  "pointInCell c x y =
     (c_x c \<le> x \<and> x \<le> c_x c + c_width c \<and> c_y c \<le> y \<and> y \<le> c_y c + c_height c)"

section \<open>Evaluation of the model\<close>

lemmas model_defs =
  initialState_def addWindow_def onDragStart_def onDrag_def onDragEnd_def
  dragIndicator_def dragPosition_def parentCellOf_def cursorInParentBounds_def
  clampCellOf_def dragWinWidth_def dragWinHeight_def
  cellIndicator_def isScreenEdgeSnap_def isScreenEdgeSnapCandidate_def screenEdgeDock_def
  treeDock_def endDrag_def handleResize_def vacateCell_def closeWindow_def
  moveWindowOut_def findGridCell_def splitGridCell_def mergeGridCells_def rootId_def
  WINDOW_WIDTH_def WINDOW_HEIGHT_def SNAP_THRESHOLD_def

lemma run_dockRightEvents:
  "run (initialState 1200 800) dockRightEvents = Some dockedRightState"
  unfolding dockRightEvents_def dockedRightState_def dockedRightCells_def
  by (simp add: model_defs)

lemma find_Some_id:
  "find (\<lambda>c. c_id c = k) cells = Some cell \<Longrightarrow> c_id cell = k \<and> cell \<in> set cells"
  by (induction cells) (auto split: if_splits)

lemma find_map_replace:
  assumes "find (\<lambda>c. c_id c = k) cells = Some cell" and "c_id u = k"
  shows "find (\<lambda>c. c_id c = k) (map (\<lambda>c. if c_id c = k then u else c) cells @ rest) = Some u"
  using assms by (induction cells) (auto split: if_splits)

section \<open>The descent of findGridCell returns on an acyclic arena\<close>

text \<open>
  The ids reachable from a cell by child edges are ids of the arena, so there are at
  most as many as the arena is long; on an acyclic arena a child reaches strictly fewer
  ids than its parent.  Hence the depth allowed in \<open>findGridCell\<close> is never used up.
\<close>

lemma childEdges_rtrancl_ids:
  "(a, b) \<in> (childEdges cells)\<^sup>* \<Longrightarrow> a \<in> c_id ` set cells \<Longrightarrow> b \<in> c_id ` set cells"
  by (induction rule: rtrancl_induct) (auto simp: childEdges_def)

lemma reach_subset_ids:
  assumes "a \<in> c_id ` set cells"
  shows "(childEdges cells)\<^sup>* `` {a} \<subseteq> c_id ` set cells"
  using assms childEdges_rtrancl_ids by fastforce

lemma reach_card_le_length:
  assumes "a \<in> c_id ` set cells"
  shows "card ((childEdges cells)\<^sup>* `` {a}) \<le> length cells"
proof -
  have "card ((childEdges cells)\<^sup>* `` {a}) \<le> card (c_id ` set cells)"
    using reach_subset_ids [OF assms] by (intro card_mono) simp_all
  also have "\<dots> \<le> card (set cells)"
    by (rule card_image_le) simp
  also have "\<dots> \<le> length cells"
    by (rule card_length)
  finally show ?thesis .
qed

lemma reach_child_card_less:
  assumes ac: "acyclicCells cells"
    and e: "(a, b) \<in> childEdges cells"
  shows "card ((childEdges cells)\<^sup>* `` {b}) < card ((childEdges cells)\<^sup>* `` {a})"
proof -
  let ?E = "childEdges cells"
  have a_id: "a \<in> c_id ` set cells"
    using e by (auto simp: childEdges_def)
  have fin: "finite (?E\<^sup>* `` {a})"
    using reach_subset_ids [OF a_id] by (rule finite_subset) simp
  have sub: "?E\<^sup>* `` {b} \<subseteq> ?E\<^sup>* `` {a}"
    using e by (auto intro: converse_rtrancl_into_rtrancl)
  have "a \<notin> ?E\<^sup>* `` {b}"
  proof
    assume "a \<in> ?E\<^sup>* `` {b}"
    then have "(b, a) \<in> ?E\<^sup>*" by simp
    with e have "(a, a) \<in> ?E\<^sup>+" by (rule rtrancl_into_trancl2)
    with ac show False by (simp add: acyclicCells_def acyclic_def)
  qed
  moreover have "a \<in> ?E\<^sup>* `` {a}" by simp
  ultimately have "?E\<^sup>* `` {b} \<subset> ?E\<^sup>* `` {a}"
    using sub by blast
  with fin show ?thesis by (rule psubset_card_mono)
qed

lemma reach_card_pos:
  assumes "a \<in> c_id ` set cells"
  shows "0 < card ((childEdges cells)\<^sup>* `` {a})"
proof -
  have "finite ((childEdges cells)\<^sup>* `` {a})"
    using reach_subset_ids [OF assms] by (rule finite_subset) simp
  moreover have "a \<in> (childEdges cells)\<^sup>* `` {a}" by simp
  ultimately show ?thesis by (auto simp: card_gt_0_iff)
qed

lemma findInCell_returns_aux:
  shows "acyclicCells cells \<Longrightarrow> cell \<in> set cells
         \<Longrightarrow> card ((childEdges cells)\<^sup>* `` {c_id cell}) \<le> n
         \<Longrightarrow> findInCell n cells x y cell \<noteq> None"
    and "acyclicCells cells
         \<Longrightarrow> (\<And>k. k \<in> set ks \<Longrightarrow> k \<in> c_id ` set cells
                 \<Longrightarrow> card ((childEdges cells)\<^sup>* `` {k}) \<le> n)
         \<Longrightarrow> findInChildren n cells x y ks \<noteq> None"
proof (induction n cells x y cell and n cells x y ks rule: findInCell_findInChildren.induct)
  case (1 cells x y cell)
  then show ?case
    using reach_card_pos [of "c_id cell" cells] by auto
next
  case (2 n cells x y cell)
  show ?case
  proof (cases "c_children cell")
    case None
    then show ?thesis by simp
  next
    case (Some ks)
    have kids: "card ((childEdges cells)\<^sup>* `` {k}) \<le> n"
      if "k \<in> set ks" and "k \<in> c_id ` set cells" for k
    proof -
      have "(c_id cell, k) \<in> childEdges cells"
        using that Some "2.prems"(2) by (auto simp: childEdges_def childIds_def)
      from reach_child_card_less [OF "2.prems"(1) this] "2.prems"(3)
      show ?thesis by simp
    qed
    show ?thesis
    proof (cases "x \<ge> c_x cell \<and> x < c_x cell + c_width cell \<and>
         y \<ge> c_y cell \<and> y < c_y cell + c_height cell \<and> length ks > 0")
      case True
      then have "findInChildren n cells x y ks \<noteq> None"
        using "2.IH" [of ks] Some "2.prems"(1) kids by simp
      then show ?thesis
        using Some True by (auto split: option.splits)
    next
      case False
      then show ?thesis using Some by auto
    qed
  qed
next
  case (3 n cells x y)
  then show ?case by simp
next
  case (4 n cells x y childId rest)
  have rest: "findInChildren n cells x y rest \<noteq> None"
    if "find (\<lambda>c. c_id c = childId) cells = None"
    using "4.IH"(1) [OF that "4.prems"(1)] "4.prems"(2) by simp
  show ?case
  proof (cases "find (\<lambda>c. c_id c = childId) cells")
    case None
    with rest show ?thesis by simp
  next
    case (Some child)
    then have ch: "c_id child = childId" "child \<in> set cells"
      using find_Some_id by blast+
    then have "card ((childEdges cells)\<^sup>* `` {c_id child}) \<le> n"
      using "4.prems"(2) [of childId] by auto
    then have r: "findInCell n cells x y child \<noteq> None"
      using "4.IH"(2) [OF Some "4.prems"(1) ch(2)] by simp
    show ?thesis
    proof (cases "findInCell n cells x y child")
      case None
      with r show ?thesis by simp
    next
      case outer: (Some res)
      show ?thesis
      proof (cases res)
        case None
        then have "findInChildren n cells x y rest \<noteq> None"
          using "4.IH"(3) [OF Some outer None "4.prems"(1)] "4.prems"(2) by simp
        then show ?thesis using Some outer None by simp
      next
        case (Some a)
        then show ?thesis using \<open>find (\<lambda>c. c_id c = childId) cells = Some child\<close> outer by simp
      qed
    qed
  qed
qed

lemma findGridCell_returns:
  assumes "acyclicCells cells"
  shows "\<exists>r. findGridCell cells x y = Some r"
proof (cases "find (\<lambda>c. c_id c = rootId) cells")
  case None
  then show ?thesis by (simp add: findGridCell_def)
next
  case (Some rootCell)
  then have r: "c_id rootCell = rootId" "rootCell \<in> set cells"
    using find_Some_id by blast+
  then have "c_id rootCell \<in> c_id ` set cells"
    by blast
  then have "card ((childEdges cells)\<^sup>* `` {c_id rootCell}) \<le> Suc (length cells)"
    using reach_card_le_length [of "c_id rootCell" cells] by simp
  from findInCell_returns_aux(1) [OF assms r(2) this]
  show ?thesis using Some by (auto simp: findGridCell_def)
qed

lemma acyclicCells_ranked:
  assumes "\<And>c k. c \<in> set cells \<Longrightarrow> k \<in> set (childIds c) \<Longrightarrow> (f k :: nat) < f (c_id c)"
  shows "acyclicCells cells"
  unfolding acyclicCells_def
  by (rule acyclicI_order [where f = f]) (auto simp: childEdges_def assms)


lemma run_dockLeftEvents:
  "run (initialState 1200 800) dockLeftEvents = Some dockedLeftState"
  unfolding dockLeftEvents_def dockedLeftState_def
  by (simp add: model_defs)

lemma run_grabNewWindowEvents:
  "run (initialState 1200 800) grabNewWindowEvents = Some grabbedNewWindowState"
  unfolding grabNewWindowEvents_def grabbedNewWindowState_def
  by (simp add: model_defs)

lemma run_append:
  "run s (es @ fs) = (case run s es of None \<Rightarrow> None | Some s' \<Rightarrow> run s' fs)"
  by (induction es arbitrary: s) (auto split: option.splits)

lemma run_grabDockedEvents:
  "run (initialState 1200 800) grabDockedEvents = Some grabbedDockedState"
  unfolding grabDockedEvents_def run_append run_dockRightEvents
  by (simp add: grabbedDockedState_def dockedRightState_def dockedRightCells_def onDragStart_def)


lemma acyclicCells_dockedRight: "acyclicCells dockedRightCells"
  by (rule acyclicCells_ranked [where f = length]) (auto simp: dockedRightCells_def childIds_def)

lemma dragIndicator_returns:
  assumes "acyclicCells (gridCells s)"
  shows "\<exists>i. dragIndicator s dragId x y = Some i"
  using findGridCell_returns [OF assms, of x y]
  by (auto simp: dragIndicator_def Let_def split: option.splits)

lemma onDrag_dragging:
  assumes "draggingId s = Some dragId" and "dragId \<noteq> []"
    and "dragIndicator s dragId x y = Some i"
  shows "onDrag s x y =
     Some (s\<lparr>snapIndicator := i, dragPos := \<lparr>p_x = x, p_y = y\<rparr>,
             windows := map (\<lambda>w. if w_id w = dragId
                                  then w\<lparr>w_position := dragPosition s dragId x y, w_snapped := None\<rparr>
                                  else w) (windows s)\<rparr>)"
  using assms by (simp add: onDrag_def)

section \<open>Properties of split\<close>

text \<open>
  C8, as the code has it: split returns the arena unchanged exactly when no cell has
  the given id.  The code does not ask whether the cell is a leaf: a cell that has
  children is split like any other, so the result is longer than the arena.
\<close>

theorem splitGridCell_noop_iff_missing:
  "(splitGridCell cells cellId snapPosition windowId newId1 newId2 = cells)
   = (find (\<lambda>c. c_id c = cellId) cells = None)"
proof (cases "find (\<lambda>c. c_id c = cellId) cells")
  case None
  then show ?thesis by (simp add: splitGridCell_def)
next
  case (Some cell)
  then have "length (splitGridCell cells cellId snapPosition windowId newId1 newId2)
             = length cells + 2"
    by (simp add: splitGridCell_def Let_def)
  then have "splitGridCell cells cellId snapPosition windowId newId1 newId2 \<noteq> cells"
    by auto
  with Some show ?thesis by simp
qed

theorem splitGridCell_noop_iff_missing_witness:
  "splitGridCell dockedRightCells ''7'' (Some SnapTop) ''102'' ''4'' ''5'' = dockedRightCells
   \<and> find (\<lambda>c. c_id c = ''7'') dockedRightCells = None"
proof -
  have h: "find (\<lambda>c. c_id c = ''7'') dockedRightCells = None"
    by (simp add: dockedRightCells_def)
  with splitGridCell_noop_iff_missing [of dockedRightCells "''7''" "Some SnapTop" "''102''" "''4''" "''5''"]
  show ?thesis by simp
qed

text \<open>
  C8 as stated fails: in the arena reached by \<open>dockRightEvents\<close> the root is internal
  (its children are cells 2 and 3), and split on the root is not a no-op: it gives the
  root two new children and appends them.
\<close>

theorem splitGridCell_internal_counterexample:
  "map c_children (filter (\<lambda>c. c_id c = ''root'') dockedRightCells) = [Some [''2'', ''3'']]
   \<and> splitGridCell dockedRightCells ''root'' (Some SnapLeft) ''102'' ''4'' ''5'' \<noteq> dockedRightCells
   \<and> map c_id (splitGridCell dockedRightCells ''root'' (Some SnapLeft) ''102'' ''4'' ''5'')
       = [''root'', ''2'', ''3'', ''4'', ''5'']
   \<and> map c_children (filter (\<lambda>c. c_id c = ''root'')
         (splitGridCell dockedRightCells ''root'' (Some SnapLeft) ''102'' ''4'' ''5''))
       = [Some [''4'', ''5'']]"
  by (simp add: dockedRightCells_def splitGridCell_def)

text \<open>
  C3: split of an existing cell.  The two new cells are leaves whose parent is the cell;
  for left and right they are the two halves of equal width, for top and bottom the two
  halves of equal height; the child on the side of the edge holds the new window and the
  other one the cell's former occupant; the cell itself keeps its rectangle, loses its
  occupant and has exactly the two new ids as children.
\<close>

theorem splitGridCell_halves:
  assumes "find (\<lambda>c. c_id c = cellId) cells = Some cell"
  shows "\<exists>a b. splitGridCell cells cellId (Some edge) windowId newId1 newId2
           = map (\<lambda>c. if c_id c = cellId
                       then cell\<lparr>c_windowId := None, c_children := Some [newId1, newId2]\<rparr>
                       else c) cells @ [a, b]
       \<and> find (\<lambda>c. c_id c = cellId) (splitGridCell cells cellId (Some edge) windowId newId1 newId2)
           = Some (cell\<lparr>c_windowId := None, c_children := Some [newId1, newId2]\<rparr>)
       \<and> c_id a = newId1 \<and> c_id b = newId2
       \<and> c_children a = None \<and> c_children b = None
       \<and> c_parentId a = Some cellId \<and> c_parentId b = Some cellId
       \<and> c_windowId a = (if edge = SnapLeft \<or> edge = SnapTop then Some windowId else c_windowId cell)
       \<and> c_windowId b = (if edge = SnapRight \<or> edge = SnapBottom then Some windowId else c_windowId cell)
       \<and> c_x a = c_x cell \<and> c_y a = c_y cell
       \<and> (if edge = SnapLeft \<or> edge = SnapRight
          then c_width a = c_width cell / 2 \<and> c_width b = c_width cell / 2
             \<and> c_height a = c_height cell \<and> c_height b = c_height cell
             \<and> c_x b = c_x cell + c_width cell / 2 \<and> c_y b = c_y cell
          else c_height a = c_height cell / 2 \<and> c_height b = c_height cell / 2
             \<and> c_width a = c_width cell \<and> c_width b = c_width cell
             \<and> c_x b = c_x cell \<and> c_y b = c_y cell + c_height cell / 2)"
proof -
  have idc: "c_id cell = cellId"
    using assms find_Some_id by blast
  let ?u = "cell\<lparr>c_windowId := None, c_children := Some [newId1, newId2]\<rparr>"
  have fu: "\<And>rest. find (\<lambda>c. c_id c = cellId)
                (map (\<lambda>c. if c_id c = cellId then ?u else c) cells @ rest) = Some ?u"
    using assms idc by (intro find_map_replace) simp_all
  show ?thesis
    using assms idc fu
    by (cases edge) (simp_all add: splitGridCell_def Let_def cong: if_cong)
qed

theorem splitGridCell_halves_witness:
  "find (\<lambda>c. c_id c = ''3'') dockedRightCells
     = Some \<lparr>c_id = ''3'', c_x = 600, c_y = 0, c_width = 600, c_height = 800,
             c_windowId = Some ''101'', c_children = None, c_parentId = Some ''root''\<rparr>
   \<and> (\<exists>a b. splitGridCell dockedRightCells ''3'' (Some SnapBottom) ''102'' ''4'' ''5''
              = [\<lparr>c_id = ''root'', c_x = 0, c_y = 0, c_width = 1200, c_height = 800,
                   c_windowId = None, c_children = Some [''2'', ''3''], c_parentId = None\<rparr>,
                 \<lparr>c_id = ''2'', c_x = 0, c_y = 0, c_width = 600, c_height = 800,
                   c_windowId = None, c_children = None, c_parentId = Some ''root''\<rparr>,
                 \<lparr>c_id = ''3'', c_x = 600, c_y = 0, c_width = 600, c_height = 800,
                   c_windowId = None, c_children = Some [''4'', ''5''],
                   c_parentId = Some ''root''\<rparr>,
                 a, b]
         \<and> c_windowId a = Some ''101'' \<and> c_windowId b = Some ''102''
         \<and> c_y a = 0 \<and> c_height a = 400 \<and> c_y b = 400 \<and> c_height b = 400
         \<and> c_x a = 600 \<and> c_width a = 600 \<and> c_x b = 600 \<and> c_width b = 600)"
proof -
  have h: "find (\<lambda>c. c_id c = ''3'') dockedRightCells
     = Some \<lparr>c_id = ''3'', c_x = 600, c_y = 0, c_width = 600, c_height = 800,
             c_windowId = Some ''101'', c_children = None, c_parentId = Some ''root''\<rparr>"
    by (simp add: dockedRightCells_def)
  from splitGridCell_halves [OF h, of SnapBottom "''102''" "''4''" "''5''"]
  obtain a b where
    "splitGridCell dockedRightCells ''3'' (Some SnapBottom) ''102'' ''4'' ''5''
       = map (\<lambda>c. if c_id c = ''3''
                   then \<lparr>c_id = ''3'', c_x = 600, c_y = 0, c_width = 600, c_height = 800,
                          c_windowId = Some ''101'', c_children = None,
                          c_parentId = Some ''root''\<rparr>
                        \<lparr>c_windowId := None, c_children := Some [''4'', ''5'']\<rparr>
                   else c) dockedRightCells @ [a, b]"
    and "c_windowId a = Some ''101''" and "c_windowId b = Some ''102''"
    and "c_y a = 0" and "c_height a = 400" and "c_y b = 400" and "c_height b = 400"
    and "c_x a = 600" and "c_width a = 600" and "c_x b = 600" and "c_width b = 600"
    by auto
  then show ?thesis
    using h by (auto simp: dockedRightCells_def)
qed

section \<open>Pointer moves during a drag\<close>

lemma list_all2_map_same:
  "(\<And>a. a \<in> set xs \<Longrightarrow> P a (f a)) \<Longrightarrow> list_all2 P xs (map f xs)"
  by (induction xs) auto

lemma clamp_axis:
  fixes v lo hi :: real
  shows "lo \<le> min (max v lo) (max lo hi)"
    and "lo \<le> hi \<Longrightarrow> min (max v lo) (max lo hi) \<le> hi"
    and "lo \<le> v \<Longrightarrow> v \<le> hi \<Longrightarrow> min (max v lo) (max lo hi) = v"
    and "hi < lo \<Longrightarrow> min (max v lo) (max lo hi) = lo"
  by auto



lemma grabbedDocked_facts:
  "acyclicCells (gridCells grabbedDockedState)"
  "draggingId grabbedDockedState = Some ''101''"
  "windows grabbedDockedState = windows dockedRightState"
  "gridCells grabbedDockedState = dockedRightCells"
  using acyclicCells_dockedRight
  by (simp_all add: grabbedDockedState_def dockedRightState_def)



text \<open>
  C6, as the code has it.  A pointer move during a drag leaves the arena, the dragged id,
  the offset and the viewport as they were; every window other than the dragged one is
  unchanged; the dragged window keeps its id, size, parentId, colour and children, its
  position becomes \<open>dragPosition\<close>, and its \<^verbatim>\<open>snapped\<close> field is set to null.
\<close>

theorem onDrag_frame:
  assumes "acyclicCells (gridCells s)" and "draggingId s = Some dragId" and "dragId \<noteq> []"
  shows "\<exists>s'. onDrag s clientX clientY = Some s'
     \<and> gridCells s' = gridCells s
     \<and> draggingId s' = draggingId s \<and> dragOffset s' = dragOffset s
     \<and> innerWidth s' = innerWidth s \<and> innerHeight s' = innerHeight s
     \<and> list_all2 (\<lambda>w w'. w_id w' = w_id w \<and> w_size w' = w_size w
                          \<and> w_parentId w' = w_parentId w
                          \<and> w_color w' = w_color w \<and> w_children w' = w_children w
                          \<and> (if w_id w = dragId
                             then w_position w' = dragPosition s dragId clientX clientY
                                \<and> w_snapped w' = None
                             else w' = w))
          (windows s) (windows s')"
proof -
  from dragIndicator_returns [OF assms(1)]
  obtain i where i: "dragIndicator s dragId clientX clientY = Some i"
    by blast
  note od = onDrag_dragging [OF assms(2,3) i]
  have "list_all2 (\<lambda>w w'. w_id w' = w_id w \<and> w_size w' = w_size w
                          \<and> w_parentId w' = w_parentId w
                          \<and> w_color w' = w_color w \<and> w_children w' = w_children w
                          \<and> (if w_id w = dragId
                             then w_position w' = dragPosition s dragId clientX clientY
                                \<and> w_snapped w' = None
                             else w' = w))
          (windows s)
          (map (\<lambda>w. if w_id w = dragId
                     then w\<lparr>w_position := dragPosition s dragId clientX clientY, w_snapped := None\<rparr>
                     else w) (windows s))"
    by (rule list_all2_map_same) simp
  then show ?thesis
    unfolding od by simp
qed

text \<open>
  Window 101, docked in cell 3 with \<^verbatim>\<open>snapped = right\<close>, dragged to (1100,10): the
  arena, the size and the parentId are as before, and \<^verbatim>\<open>snapped\<close> is null.
\<close>

theorem onDrag_frame_witness:
  "acyclicCells (gridCells grabbedDockedState)
   \<and> draggingId grabbedDockedState = Some ''101''
   \<and> (\<exists>s'. onDrag grabbedDockedState 1100 10 = Some s'
          \<and> gridCells s' = dockedRightCells
          \<and> map w_size (windows s') = [\<lparr>s_width = 600, s_height = 800\<rparr>]
          \<and> map w_parentId (windows s') = [Some ''root'']
          \<and> map w_snapped (windows s') = [None])"
proof -
  have h1: "acyclicCells (gridCells grabbedDockedState)"
    and h2: "draggingId grabbedDockedState = Some ''101''"
    by (rule grabbedDocked_facts)+
  have h3: "''101'' \<noteq> []" by simp
  from onDrag_frame [OF h1 h2 h3, of 1100 10]
  obtain s' where a: "onDrag grabbedDockedState 1100 10 = Some s'"
    and g: "gridCells s' = gridCells grabbedDockedState"
    and b: "list_all2 (\<lambda>w w'. w_id w' = w_id w \<and> w_size w' = w_size w
                          \<and> w_parentId w' = w_parentId w
                          \<and> w_color w' = w_color w \<and> w_children w' = w_children w
                          \<and> (if w_id w = ''101''
                             then w_position w' = dragPosition grabbedDockedState ''101'' 1100 10
                                \<and> w_snapped w' = None
                             else w' = w))
          (windows grabbedDockedState) (windows s')"
    by blast
  from b have "map w_size (windows s') = [\<lparr>s_width = 600, s_height = 800\<rparr>]
          \<and> map w_parentId (windows s') = [Some ''root'']
          \<and> map w_snapped (windows s') = [None]"
    by (auto simp: grabbedDockedState_def dockedRightState_def list_all2_Cons1)
  with a g h1 h2 show ?thesis
    by (auto simp: grabbedDocked_facts)
qed

text \<open>
  C6 as stated fails: window 101 is docked at the left screen edge
  (\<^verbatim>\<open>snapped = left\<close>), and one pointer move of the next drag sets \<^verbatim>\<open>snapped\<close> to null.
\<close>

theorem onDrag_resets_snapped_counterexample:
  "map w_snapped (windows dockedLeftState) = [Some SnapLeft]
   \<and> (\<exists>s'. onDrag dockedLeftState 560 20 = Some s'
          \<and> map w_snapped (windows s') = [None])"
  by (simp add: dockedLeftState_def model_defs)

section \<open>Dragging a docked window\<close>

lemma dragIndicator_docked:
  assumes "find (\<lambda>w. w_id w = dragId) (windows s) = Some win"
    and "truthy (w_parentId win)"
  shows "dragIndicator s dragId clientX clientY =
     (case findGridCell (gridCells s) clientX clientY of
        None \<Rightarrow> None
      | Some None \<Rightarrow> Some None
      | Some (Some targetCell) \<Rightarrow>
          if cursorInParentBounds (parentCellOf (gridCells s) (Some win)) clientX clientY
          then Some (cellIndicator targetCell clientX clientY)
          else Some None)"
  using assms by (simp add: dragIndicator_def)

lemma onDragEnd_dragging:
  assumes "draggingId s = Some dragId" and "dragId \<noteq> []"
    and "find (\<lambda>w. w_id w = dragId) (windows s) = Some win"
  shows "onDragEnd s clientX clientY newId1 newId2 =
     (case snapIndicator s of
        None \<Rightarrow> Some (endDrag s)
      | Some edge \<Rightarrow>
          if isScreenEdgeSnap win (innerWidth s) (innerHeight s)
               (clientX - p_x (dragOffset s)) (clientY - p_y (dragOffset s))
          then Some (endDrag (screenEdgeDock s dragId edge))
          else map_option endDrag (treeDock s dragId win edge clientX clientY newId1 newId2))"
  using assms by (simp add: onDragEnd_def Let_def split: option.splits)

text \<open>
  What the handlers do for a dragged window whose \<^verbatim>\<open>parentId\<close> field names a cell of
  the arena, whether or not that cell is still the parent of the leaf the window holds.
  A pointer move returns (on an acyclic arena); when it sets an indicator, the pointer is inside the
  parent cell's rectangle (borders included) and the indicator is the one the cell under
  the pointer gives, never a screen-edge one; when the pointer is outside that rectangle
  the indicator is null and ending the drag there changes neither the windows nor the
  arena.  The screen-edge test at pointer-up is false for such a window, so an active
  indicator is committed by the dock into the tree only.
\<close>

theorem docked_indicator_only_inside_parent:
  assumes "acyclicCells (gridCells s)" and "draggingId s = Some dragId" and "dragId \<noteq> []"
    and "find (\<lambda>w. w_id w = dragId) (windows s) = Some win"
    and "truthy (w_parentId win)"
    and "find (\<lambda>c. Some (c_id c) = w_parentId win) (gridCells s) = Some parentCell"
  shows "\<exists>s'. onDrag s clientX clientY = Some s'
     \<and> (snapIndicator s' \<noteq> None \<longrightarrow>
          (clientX \<ge> c_x parentCell \<and> clientX \<le> c_x parentCell + c_width parentCell \<and>
           clientY \<ge> c_y parentCell \<and> clientY \<le> c_y parentCell + c_height parentCell)
        \<and> (\<exists>targetCell. findGridCell (gridCells s) clientX clientY = Some (Some targetCell)
              \<and> snapIndicator s' = cellIndicator targetCell clientX clientY))
     \<and> (\<not> (clientX \<ge> c_x parentCell \<and> clientX \<le> c_x parentCell + c_width parentCell \<and>
            clientY \<ge> c_y parentCell \<and> clientY \<le> c_y parentCell + c_height parentCell)
        \<longrightarrow> snapIndicator s' = None
          \<and> onDragEnd s clientX clientY newId1 newId2 = Some (endDrag s))
     \<and> \<not> isScreenEdgeSnap win vw vh newX newY
     \<and> (\<forall>edge. snapIndicator s = Some edge \<longrightarrow>
          onDragEnd s clientX clientY newId1 newId2
            = map_option endDrag (treeDock s dragId win edge clientX clientY newId1 newId2))"
proof -
  from findGridCell_returns [OF assms(1), of clientX clientY]
  obtain r where r: "findGridCell (gridCells s) clientX clientY = Some r"
    by blast
  have pc: "parentCellOf (gridCells s) (Some win) = Some parentCell"
    using assms(5,6) by (simp add: parentCellOf_def)
  let ?inside = "clientX \<ge> c_x parentCell \<and> clientX \<le> c_x parentCell + c_width parentCell \<and>
           clientY \<ge> c_y parentCell \<and> clientY \<le> c_y parentCell + c_height parentCell"
  have cb: "cursorInParentBounds (Some parentCell) clientX clientY = ?inside"
    by (simp add: cursorInParentBounds_def)
  define i where "i = (case r of None \<Rightarrow> None
      | Some targetCell \<Rightarrow> if ?inside then cellIndicator targetCell clientX clientY else None)"
  have di: "dragIndicator s dragId clientX clientY = Some i"
    unfolding dragIndicator_docked [OF assms(4,5)] r pc cb i_def
    by (auto split: option.splits)
  note od = onDrag_dragging [OF assms(2,3) di]
  have i1: "i \<noteq> None \<longrightarrow> ?inside
        \<and> (\<exists>targetCell. findGridCell (gridCells s) clientX clientY = Some (Some targetCell)
              \<and> i = cellIndicator targetCell clientX clientY)"
    by (cases r) (auto simp: i_def r split: if_splits)
  have i2: "\<not> ?inside \<longrightarrow> i = None"
    unfolding i_def by (simp split: option.splits)
  have se: "\<not> isScreenEdgeSnap win vw vh newX newY" for vw vh newX newY
    using assms(5) by (simp add: isScreenEdgeSnap_def)
  have oe: "onDragEnd s clientX clientY newId1 newId2 =
     (case snapIndicator s of
        None \<Rightarrow> Some (endDrag s)
      | Some edge \<Rightarrow>
          map_option endDrag (treeDock s dragId win edge clientX clientY newId1 newId2))"
    unfolding onDragEnd_dragging [OF assms(2,3,4)] using se by (simp split: option.splits)
  have td: "\<not> ?inside \<longrightarrow> treeDock s dragId win edge clientX clientY newId1 newId2 = Some s" for edge
  proof
    assume "\<not> ?inside"
    then have "\<not> cursorInParentBounds (Some parentCell) clientX clientY"
      unfolding cb .
    then show "treeDock s dragId win edge clientX clientY newId1 newId2 = Some s"
      by (simp add: treeDock_def pc r split: option.splits)
  qed
  have oe2: "\<not> ?inside \<longrightarrow> onDragEnd s clientX clientY newId1 newId2 = Some (endDrag s)"
    unfolding oe using td by (simp split: option.splits)
  have oe3: "\<forall>edge. snapIndicator s = Some edge \<longrightarrow>
          onDragEnd s clientX clientY newId1 newId2
            = map_option endDrag (treeDock s dragId win edge clientX clientY newId1 newId2)"
    unfolding oe by simp
  define s' where "s' = s\<lparr>snapIndicator := i, dragPos := \<lparr>p_x = clientX, p_y = clientY\<rparr>,
             windows := map (\<lambda>w. if w_id w = dragId
                                  then w\<lparr>w_position := dragPosition s dragId clientX clientY,
                                         w_snapped := None\<rparr>
                                  else w) (windows s)\<rparr>"
  have od': "onDrag s clientX clientY = Some s'"
    using od by (simp add: s'_def)
  have si: "snapIndicator s' = i"
    by (simp add: s'_def)
  have "(snapIndicator s' \<noteq> None \<longrightarrow> ?inside
        \<and> (\<exists>targetCell. findGridCell (gridCells s) clientX clientY = Some (Some targetCell)
              \<and> snapIndicator s' = cellIndicator targetCell clientX clientY))
     \<and> (\<not> ?inside \<longrightarrow> snapIndicator s' = None
          \<and> onDragEnd s clientX clientY newId1 newId2 = Some (endDrag s))
     \<and> \<not> isScreenEdgeSnap win vw vh newX newY
     \<and> (\<forall>edge. snapIndicator s = Some edge \<longrightarrow>
          onDragEnd s clientX clientY newId1 newId2
            = map_option endDrag (treeDock s dragId win edge clientX clientY newId1 newId2))"
    unfolding si using i1 i2 se oe2 oe3 by blast
  with od' show ?thesis by blast
qed

text \<open>
  Window 101 is docked in cell 3, its parent is the root (1200 by 800); the pointer at
  (1300,10) is outside the root: no indicator, and the drag ends without a change.
  With the pointer at (1100,10), inside the root and within the top margin of cell 3,
  the indicator is the one cell 3 gives, top; ending the drag there with that indicator
  splits cell 3 in the tree and leaves the window with a parent.
\<close>

theorem docked_indicator_only_inside_parent_witness:
  "acyclicCells (gridCells grabbedDockedState)
   \<and> draggingId grabbedDockedState = Some ''101''
   \<and> map w_parentId (windows grabbedDockedState) = [Some ''root'']
   \<and> (\<exists>s'. onDrag grabbedDockedState 1300 10 = Some s' \<and> snapIndicator s' = None)
   \<and> onDragEnd grabbedDockedState 1300 10 ''4'' ''5'' = Some (endDrag grabbedDockedState)
   \<and> (\<exists>s' targetCell. onDrag grabbedDockedState 1100 10 = Some s'
          \<and> snapIndicator s' = Some SnapTop
          \<and> findGridCell (gridCells grabbedDockedState) 1100 10 = Some (Some targetCell)
          \<and> c_id targetCell = ''3''
          \<and> cellIndicator targetCell 1100 10 = Some SnapTop)
   \<and> (\<exists>s'. onDragEnd (grabbedDockedState\<lparr>snapIndicator := Some SnapTop\<rparr>) 1100 10 ''4'' ''5''
            = Some s'
          \<and> gridCells s' = redockedCells
          \<and> map w_parentId (windows s') = [Some ''3''])"
proof -
  have h1: "acyclicCells (gridCells grabbedDockedState)"
    and h2: "draggingId grabbedDockedState = Some ''101''"
    by (rule grabbedDocked_facts)+
  have h3: "''101'' \<noteq> []" by simp
  let ?win = "\<lparr>w_id = ''101'', w_color = ''#aaaaaa'',
          w_position = \<lparr>p_x = 600, p_y = 0\<rparr>,
          w_size = \<lparr>s_width = 600, s_height = 800\<rparr>,
          w_snapped = Some SnapRight, w_parentId = Some ''root'', w_children = None\<rparr>"
  let ?root = "\<lparr>c_id = ''root'', c_x = 0, c_y = 0, c_width = 1200, c_height = 800,
       c_windowId = None, c_children = Some [''2'', ''3''], c_parentId = None\<rparr>"
  have h4: "find (\<lambda>w. w_id w = ''101'') (windows grabbedDockedState) = Some ?win"
    by (simp add: grabbedDockedState_def dockedRightState_def)
  have h5: "truthy (w_parentId ?win)" by simp
  have h6: "find (\<lambda>c. Some (c_id c) = w_parentId ?win) (gridCells grabbedDockedState) = Some ?root"
    by (simp add: grabbedDocked_facts dockedRightCells_def)
  have ws: "map w_parentId (windows grabbedDockedState) = [Some ''root'']"
    by (simp add: grabbedDockedState_def dockedRightState_def)
  from docked_indicator_only_inside_parent [OF h1 h2 h3 h4 h5 h6,
      where clientX = 1300 and clientY = 10 and ?newId1.0 = "''4''" and ?newId2.0 = "''5''"
        and vw = 1200 and vh = 800 and newX = 800 and newY = "- 5"]
  have out: "(\<exists>s'. onDrag grabbedDockedState 1300 10 = Some s' \<and> snapIndicator s' = None)
     \<and> onDragEnd grabbedDockedState 1300 10 ''4'' ''5'' = Some (endDrag grabbedDockedState)"
    by auto
  from docked_indicator_only_inside_parent [OF h1 h2 h3 h4 h5 h6,
      where clientX = 1100 and clientY = 10 and ?newId1.0 = "''4''" and ?newId2.0 = "''5''"
        and vw = 1200 and vh = 800 and newX = 600 and newY = "- 5"]
  obtain s' where a: "onDrag grabbedDockedState 1100 10 = Some s'"
    and b: "snapIndicator s' \<noteq> None \<longrightarrow>
             (\<exists>targetCell. findGridCell (gridCells grabbedDockedState) 1100 10
                              = Some (Some targetCell)
                \<and> snapIndicator s' = cellIndicator targetCell 1100 10)"
    by blast
  have fg: "findGridCell (gridCells grabbedDockedState) 1100 10
       = Some (Some \<lparr>c_id = ''3'', c_x = 600, c_y = 0, c_width = 600, c_height = 800,
                     c_windowId = Some ''101'', c_children = None,
                     c_parentId = Some ''root''\<rparr>)"
    by (simp add: grabbedDocked_facts dockedRightCells_def findGridCell_def rootId_def)
  have si: "snapIndicator s' = Some SnapTop"
    using a by (auto simp: grabbedDockedState_def dockedRightState_def dockedRightCells_def
        model_defs)
  with b obtain targetCell where
    t: "findGridCell (gridCells grabbedDockedState) 1100 10 = Some (Some targetCell)"
      "cellIndicator targetCell 1100 10 = Some SnapTop"
    by auto
  then have "c_id targetCell = ''3''"
    using fg by auto
  with a si t have ins: "\<exists>s' targetCell. onDrag grabbedDockedState 1100 10 = Some s'
          \<and> snapIndicator s' = Some SnapTop
          \<and> findGridCell (gridCells grabbedDockedState) 1100 10 = Some (Some targetCell)
          \<and> c_id targetCell = ''3''
          \<and> cellIndicator targetCell 1100 10 = Some SnapTop"
    by blast
  let ?s1 = "grabbedDockedState\<lparr>snapIndicator := Some SnapTop\<rparr>"
  have g1: "acyclicCells (gridCells ?s1)" using h1 by simp
  have g2: "draggingId ?s1 = Some ''101''" using h2 by simp
  have g4: "find (\<lambda>w. w_id w = ''101'') (windows ?s1) = Some ?win" using h4 by simp
  have g6: "find (\<lambda>c. Some (c_id c) = w_parentId ?win) (gridCells ?s1) = Some ?root"
    using h6 by simp
  have g7: "snapIndicator ?s1 = Some SnapTop" by simp
  from docked_indicator_only_inside_parent [OF g1 g2 h3 g4 h5 g6,
      where clientX = 1100 and clientY = 10 and ?newId1.0 = "''4''" and ?newId2.0 = "''5''"
        and vw = 1200 and vh = 800 and newX = 600 and newY = "- 5"] g7
  have "onDragEnd ?s1 1100 10 ''4'' ''5''
          = map_option endDrag (treeDock ?s1 ''101'' ?win SnapTop 1100 10 ''4'' ''5'')"
    by blast
  then have en: "\<exists>s'. onDragEnd ?s1 1100 10 ''4'' ''5'' = Some s'
          \<and> gridCells s' = redockedCells
          \<and> map w_parentId (windows s') = [Some ''3'']"
    by (simp add: grabbedDockedState_def dockedRightState_def dockedRightCells_def
        redockedCells_def treeDock_def parentCellOf_def cursorInParentBounds_def
        findGridCell_def splitGridCell_def endDrag_def rootId_def)
  from h1 h2 ws out ins en show ?thesis by simp
qed

section \<open>The screen-edge test\<close>

lemma dragIndicator_undocked:
  assumes "find (\<lambda>w. w_id w = dragId) (windows s) = Some win"
    and "\<not> truthy (w_parentId win)"
  shows "dragIndicator s dragId clientX clientY =
     (if isScreenEdgeSnapCandidate (innerWidth s) (innerHeight s)
           (p_x (dragPosition s dragId clientX clientY))
           (p_y (dragPosition s dragId clientX clientY))
      then Some (Some
        (if p_x (dragPosition s dragId clientX clientY) < SNAP_THRESHOLD then SnapLeft
         else if p_x (dragPosition s dragId clientX clientY) + WINDOW_WIDTH
                 > innerWidth s - SNAP_THRESHOLD then SnapRight
         else if p_y (dragPosition s dragId clientX clientY) < SNAP_THRESHOLD then SnapTop
         else SnapBottom))
      else
        (case findGridCell (gridCells s) clientX clientY of
           None \<Rightarrow> None
         | Some None \<Rightarrow> Some None
         | Some (Some targetCell) \<Rightarrow> Some (cellIndicator targetCell clientX clientY)))"
  using assms
  by (auto simp: dragIndicator_def isScreenEdgeSnapCandidate_def parentCellOf_def
      cursorInParentBounds_def Let_def split: option.splits)

text \<open>
  C10: the screen-edge test compares the position with the constants 300 and 200 and
  never with the size of the window.  At pointer-up the test is the one with a size of
  300 by 200, and for a window without a parent its outcome is the same whatever size
  the window has.  At a pointer move of such a window the same test on the shown
  position decides: where it holds an indicator is set without looking at the tree, and
  where it fails the indicator is the one of the cell under the pointer.  In a viewport
  of 1200 by 800, at the position (600,85), the code's test fails while the same test
  with the size 600 by 800 holds.
\<close>

theorem screenEdge_test_uses_default_size:
  "isScreenEdgeSnapCandidate vw vh newX newY
     = (newX < 30 \<or> newX + 300 > vw - 30 \<or> newY < 30 \<or> newY + 200 > vh - 30)
   \<and> isScreenEdgeSnapCandidate vw vh newX newY
     = screenEdgeTestWithSize vw vh \<lparr>s_width = 300, s_height = 200\<rparr> newX newY
   \<and> (find (\<lambda>w. w_id w = dragId) (windows s) = Some win \<and> \<not> truthy (w_parentId win) \<longrightarrow>
        isScreenEdgeSnap win vw vh newX newY = isScreenEdgeSnapCandidate vw vh newX newY
      \<and> isScreenEdgeSnap (win\<lparr>w_size := sz\<rparr>) vw vh newX newY
          = isScreenEdgeSnap win vw vh newX newY
      \<and> (isScreenEdgeSnapCandidate (innerWidth s) (innerHeight s)
             (p_x (dragPosition s dragId clientX clientY))
             (p_y (dragPosition s dragId clientX clientY))
          \<longrightarrow> (\<exists>edge. dragIndicator s dragId clientX clientY = Some (Some edge)))
      \<and> (\<not> isScreenEdgeSnapCandidate (innerWidth s) (innerHeight s)
             (p_x (dragPosition s dragId clientX clientY))
             (p_y (dragPosition s dragId clientX clientY))
          \<longrightarrow> dragIndicator s dragId clientX clientY
              = (case findGridCell (gridCells s) clientX clientY of
                   None \<Rightarrow> None
                 | Some None \<Rightarrow> Some None
                 | Some (Some targetCell) \<Rightarrow> Some (cellIndicator targetCell clientX clientY))))
   \<and> \<not> isScreenEdgeSnapCandidate 1200 800 600 85
   \<and> screenEdgeTestWithSize 1200 800 \<lparr>s_width = 600, s_height = 800\<rparr> 600 85"
proof -
  have a: "isScreenEdgeSnapCandidate vw vh newX newY
     = (newX < 30 \<or> newX + 300 > vw - 30 \<or> newY < 30 \<or> newY + 200 > vh - 30)"
    by (simp add: isScreenEdgeSnapCandidate_def WINDOW_WIDTH_def WINDOW_HEIGHT_def
        SNAP_THRESHOLD_def)
  have b: "isScreenEdgeSnapCandidate vw vh newX newY
     = screenEdgeTestWithSize vw vh \<lparr>s_width = 300, s_height = 200\<rparr> newX newY"
    by (simp add: isScreenEdgeSnapCandidate_def screenEdgeTestWithSize_def WINDOW_WIDTH_def
        WINDOW_HEIGHT_def)
  have c: "isScreenEdgeSnap win vw vh newX newY = isScreenEdgeSnapCandidate vw vh newX newY
      \<and> isScreenEdgeSnap (win\<lparr>w_size := sz\<rparr>) vw vh newX newY
          = isScreenEdgeSnap win vw vh newX newY"
    if "\<not> truthy (w_parentId win)"
    using that by (simp add: isScreenEdgeSnap_def)
  have d: "(isScreenEdgeSnapCandidate (innerWidth s) (innerHeight s)
             (p_x (dragPosition s dragId clientX clientY))
             (p_y (dragPosition s dragId clientX clientY))
          \<longrightarrow> (\<exists>edge. dragIndicator s dragId clientX clientY = Some (Some edge)))
      \<and> (\<not> isScreenEdgeSnapCandidate (innerWidth s) (innerHeight s)
             (p_x (dragPosition s dragId clientX clientY))
             (p_y (dragPosition s dragId clientX clientY))
          \<longrightarrow> dragIndicator s dragId clientX clientY
              = (case findGridCell (gridCells s) clientX clientY of
                   None \<Rightarrow> None
                 | Some None \<Rightarrow> Some None
                 | Some (Some targetCell) \<Rightarrow> Some (cellIndicator targetCell clientX clientY)))"
    if "find (\<lambda>w. w_id w = dragId) (windows s) = Some win" and "\<not> truthy (w_parentId win)"
    unfolding dragIndicator_undocked [OF that] by simp
  have e: "\<not> isScreenEdgeSnapCandidate 1200 800 600 85"
    by (simp add: isScreenEdgeSnapCandidate_def WINDOW_WIDTH_def WINDOW_HEIGHT_def
        SNAP_THRESHOLD_def)
  have f: "screenEdgeTestWithSize 1200 800 \<lparr>s_width = 600, s_height = 800\<rparr> 600 85"
    by (simp add: screenEdgeTestWithSize_def SNAP_THRESHOLD_def)
  from a b c d e f show ?thesis by blast
qed

text \<open>
  Window 101, 600 by 800 after its dock at the left screen edge, dragged to the pointer
  (1150,100) with offset (550,15): it is shown at (600,85), its right border at 1200
  is beyond the margin 1170, the test with its size holds, the code's test fails and no
  indicator is set.  Dragged to the pointer (560,20) it is shown at (10,5), the code's
  test holds and an indicator is set.
\<close>

theorem screenEdge_test_uses_default_size_witness:
  "map w_size (windows dockedLeftState) = [\<lparr>s_width = 600, s_height = 800\<rparr>]
   \<and> map w_parentId (windows dockedLeftState) = [None]
   \<and> dragPosition dockedLeftState ''101'' 1150 100 = \<lparr>p_x = 600, p_y = 85\<rparr>
   \<and> screenEdgeTestWithSize 1200 800 \<lparr>s_width = 600, s_height = 800\<rparr> 600 85
   \<and> \<not> isScreenEdgeSnapCandidate 1200 800 600 85
   \<and> dragIndicator dockedLeftState ''101'' 1150 100 = Some None
   \<and> dragPosition dockedLeftState ''101'' 560 20 = \<lparr>p_x = 10, p_y = 5\<rparr>
   \<and> isScreenEdgeSnapCandidate 1200 800 10 5
   \<and> (\<exists>edge. dragIndicator dockedLeftState ''101'' 560 20 = Some (Some edge))"
proof -
  let ?win = "\<lparr>w_id = ''101'', w_color = ''#aaaaaa'',
          w_position = \<lparr>p_x = 0, p_y = 0\<rparr>,
          w_size = \<lparr>s_width = 600, s_height = 800\<rparr>,
          w_snapped = Some SnapLeft, w_parentId = None, w_children = None\<rparr>"
  have h1: "find (\<lambda>w. w_id w = ''101'') (windows dockedLeftState) = Some ?win"
    by (simp add: dockedLeftState_def)
  have h2: "\<not> truthy (w_parentId ?win)" by simp
  have dp: "dragPosition dockedLeftState ''101'' 1150 100 = \<lparr>p_x = 600, p_y = 85\<rparr>"
    by (simp add: dockedLeftState_def dragPosition_def clampCellOf_def parentCellOf_def
        initialState_def)
  have iw: "innerWidth dockedLeftState = 1200" "innerHeight dockedLeftState = 800"
    by (simp_all add: dockedLeftState_def)
  have fg: "findGridCell (gridCells dockedLeftState) 1150 100
       = Some (Some \<lparr>c_id = ''root'', c_x = 0, c_y = 0, c_width = 1200, c_height = 800,
                     c_windowId = None, c_children = None, c_parentId = None\<rparr>)"
    by (simp add: dockedLeftState_def initialState_def findGridCell_def rootId_def)
  have ci: "cellIndicator \<lparr>c_id = ''root'', c_x = 0, c_y = 0, c_width = 1200, c_height = 800,
                     c_windowId = None, c_children = None, c_parentId = None\<rparr> 1150 100 = None"
    by (simp add: cellIndicator_def rootId_def SNAP_THRESHOLD_def)
  from screenEdge_test_uses_default_size
         [where vw = 1200 and vh = 800 and newX = 600 and newY = 85 and dragId = "''101''"
            and s = dockedLeftState and win = ?win and clientX = 1150 and clientY = 100
            and sz = "\<lparr>s_width = 300, s_height = 200\<rparr>"]
  have t1: "\<not> isScreenEdgeSnapCandidate 1200 800 600 85"
    and t2: "screenEdgeTestWithSize 1200 800 \<lparr>s_width = 600, s_height = 800\<rparr> 600 85"
    and t3: "dragIndicator dockedLeftState ''101'' 1150 100 = Some None"
    using h1 h2 by (simp_all add: dp iw fg ci)
  have ws: "map w_size (windows dockedLeftState) = [\<lparr>s_width = 600, s_height = 800\<rparr>]
     \<and> map w_parentId (windows dockedLeftState) = [None]"
    by (simp add: dockedLeftState_def)
  have dq: "dragPosition dockedLeftState ''101'' 560 20 = \<lparr>p_x = 10, p_y = 5\<rparr>"
    by (simp add: dockedLeftState_def dragPosition_def clampCellOf_def parentCellOf_def
        initialState_def)
  have cq: "isScreenEdgeSnapCandidate 1200 800 10 5"
    by (simp add: isScreenEdgeSnapCandidate_def SNAP_THRESHOLD_def)
  from screenEdge_test_uses_default_size
         [where vw = 1200 and vh = 800 and newX = 10 and newY = 5 and dragId = "''101''"
            and s = dockedLeftState and win = ?win and clientX = 560 and clientY = 20
            and sz = "\<lparr>s_width = 300, s_height = 200\<rparr>"]
  have t4: "\<exists>edge. dragIndicator dockedLeftState ''101'' 560 20 = Some (Some edge)"
    using h1 h2 cq by (simp add: dq iw)
  from ws dp t1 t2 t3 dq cq t4 show ?thesis by simp
qed

section \<open>Split followed by merge\<close>

lemma find_append_None:
  "(\<And>x. x \<in> set xs \<Longrightarrow> \<not> P x) \<Longrightarrow> find P (xs @ ys) = find P ys"
  by (induction xs) auto

lemma find_append_Some:
  "find P xs = Some x \<Longrightarrow> find P (xs @ ys) = Some x"
  by (induction xs) (auto split: if_splits)

lemma mergeGridCells_found:
  assumes "find (\<lambda>c. c_id c = k) cs = Some leaf"
    and "truthy (c_parentId leaf)"
    and "find (\<lambda>c. Some (c_id c) = c_parentId leaf) cs = Some par"
    and "find (\<lambda>c. c_parentId c = c_parentId leaf \<and> c_id c \<noteq> k) cs = Some sib"
  shows "mergeGridCells cs k =
     map (\<lambda>c. if Some (c_id c) = c_parentId leaf
               then par\<lparr>c_x := min (c_x par) (c_x sib),
                        c_y := min (c_y par) (c_y sib),
                        c_width := max (c_x par + c_width par) (c_x sib + c_width sib)
                                   - min (c_x par) (c_x sib),
                        c_height := max (c_y par + c_height par) (c_y sib + c_height sib)
                                    - min (c_y par) (c_y sib),
                        c_windowId := c_windowId sib,
                        c_children := None\<rparr>
               else c)
         (filter (\<lambda>c. c_id c \<noteq> k \<and> c_id c \<noteq> c_id sib) cs)"
  using assms by (simp add: mergeGridCells_def Let_def)

lemma merge_appended_pair:
  assumes fa: "c_id a \<notin> c_id ` set xs" and fb: "c_id b \<notin> c_id ` set xs"
    and ab: "c_id a \<noteq> c_id b"
    and pa: "c_parentId a = Some p" and pb: "c_parentId b = Some p" and p: "p \<noteq> []"
    and nopar: "\<And>c. c \<in> set xs \<Longrightarrow> c_parentId c \<noteq> Some p"
    and fp: "find (\<lambda>c. c_id c = p) xs = Some u"
  shows "mergeGridCells (xs @ [a, b]) (c_id a) =
     map (\<lambda>c. if c_id c = p
               then u\<lparr>c_x := min (c_x u) (c_x b),
                      c_y := min (c_y u) (c_y b),
                      c_width := max (c_x u + c_width u) (c_x b + c_width b) - min (c_x u) (c_x b),
                      c_height := max (c_y u + c_height u) (c_y b + c_height b) - min (c_y u) (c_y b),
                      c_windowId := c_windowId b,
                      c_children := None\<rparr>
               else c) xs"
    and "mergeGridCells (xs @ [a, b]) (c_id b) =
     map (\<lambda>c. if c_id c = p
               then u\<lparr>c_x := min (c_x u) (c_x a),
                      c_y := min (c_y u) (c_y a),
                      c_width := max (c_x u + c_width u) (c_x a + c_width a) - min (c_x u) (c_x a),
                      c_height := max (c_y u + c_height u) (c_y a + c_height a) - min (c_y u) (c_y a),
                      c_windowId := c_windowId a,
                      c_children := None\<rparr>
               else c) xs"
proof -
  have na: "c_id c \<noteq> c_id a" if "c \<in> set xs" for c
    using that fa by (metis imageI)
  have nb: "c_id c \<noteq> c_id b" if "c \<in> set xs" for c
    using that fb by (metis imageI)
  have f1: "find (\<lambda>c. c_id c = c_id a) (xs @ [a, b]) = Some a"
    using na by (subst find_append_None) auto
  have f2: "find (\<lambda>c. c_id c = c_id b) (xs @ [a, b]) = Some b"
    using nb ab by (subst find_append_None) auto
  have fpar: "find (\<lambda>c. Some (c_id c) = Some p) (xs @ [a, b]) = Some u"
    using fp by (simp add: find_append_Some)
  have s1: "find (\<lambda>c. c_parentId c = Some p \<and> c_id c \<noteq> c_id a) (xs @ [a, b]) = Some b"
    using nopar pb ab by (subst find_append_None) auto
  have s2: "find (\<lambda>c. c_parentId c = Some p \<and> c_id c \<noteq> c_id b) (xs @ [a, b]) = Some a"
    using nopar pa ab by (subst find_append_None) auto
  have fl: "filter (\<lambda>c. c_id c \<noteq> c_id a \<and> c_id c \<noteq> c_id b) (xs @ [a, b]) = xs"
    "filter (\<lambda>c. c_id c \<noteq> c_id b \<and> c_id c \<noteq> c_id a) (xs @ [a, b]) = xs"
    using na nb by (simp_all add: filter_id_conv)
  show "mergeGridCells (xs @ [a, b]) (c_id a) =
     map (\<lambda>c. if c_id c = p
               then u\<lparr>c_x := min (c_x u) (c_x b),
                      c_y := min (c_y u) (c_y b),
                      c_width := max (c_x u + c_width u) (c_x b + c_width b) - min (c_x u) (c_x b),
                      c_height := max (c_y u + c_height u) (c_y b + c_height b) - min (c_y u) (c_y b),
                      c_windowId := c_windowId b,
                      c_children := None\<rparr>
               else c) xs"
    using mergeGridCells_found [of "c_id a" "xs @ [a, b]" a u b] f1 fpar s1 p pa fl(1)
    by simp
  show "mergeGridCells (xs @ [a, b]) (c_id b) =
     map (\<lambda>c. if c_id c = p
               then u\<lparr>c_x := min (c_x u) (c_x a),
                      c_y := min (c_y u) (c_y a),
                      c_width := max (c_x u + c_width u) (c_x a + c_width a) - min (c_x u) (c_x a),
                      c_height := max (c_y u + c_height u) (c_y a + c_height a) - min (c_y u) (c_y a),
                      c_windowId := c_windowId a,
                      c_children := None\<rparr>
               else c) xs"
    using mergeGridCells_found [of "c_id b" "xs @ [a, b]" b u a] f2 fpar s2 p pb fl(2)
    by simp
qed

lemma splitGridCell_found:
  assumes "find (\<lambda>c. c_id c = cellId) cells = Some cell"
  shows "splitGridCell cells cellId (Some edge) windowId newId1 newId2 =
     map (\<lambda>c. if c_id c = cellId
               then cell\<lparr>c_windowId := None, c_children := Some [newId1, newId2]\<rparr>
               else c) cells
     @ (if edge = SnapLeft \<or> edge = SnapRight then
          [\<lparr>c_id = newId1, c_x = c_x cell, c_y = c_y cell,
            c_width = c_width cell / 2, c_height = c_height cell,
            c_windowId = (if edge = SnapLeft then Some windowId else c_windowId cell),
            c_children = None, c_parentId = Some cellId\<rparr>,
           \<lparr>c_id = newId2, c_x = c_x cell + c_width cell / 2, c_y = c_y cell,
            c_width = c_width cell / 2, c_height = c_height cell,
            c_windowId = (if edge = SnapRight then Some windowId else c_windowId cell),
            c_children = None, c_parentId = Some cellId\<rparr>]
        else
          [\<lparr>c_id = newId1, c_x = c_x cell, c_y = c_y cell,
            c_width = c_width cell, c_height = c_height cell / 2,
            c_windowId = (if edge = SnapTop then Some windowId else c_windowId cell),
            c_children = None, c_parentId = Some cellId\<rparr>,
           \<lparr>c_id = newId2, c_x = c_x cell, c_y = c_y cell + c_height cell / 2,
            c_width = c_width cell, c_height = c_height cell / 2,
            c_windowId = (if edge = SnapBottom then Some windowId else c_windowId cell),
            c_children = None, c_parentId = Some cellId\<rparr>])"
  using assms find_Some_id [OF assms]
  by (simp add: splitGridCell_def Let_def cong: if_cong)

lemma map_replace_unique:
  assumes "distinct (map c_id cells)"
    and "find (\<lambda>c. c_id c = k) cells = Some cell"
  shows "map (\<lambda>c. if c_id c = k then cell else c) cells = cells"
proof (rule map_idI)
  fix c assume c: "c \<in> set cells"
  have "cell \<in> set cells" "c_id cell = k"
    using find_Some_id [OF assms(2)] by simp_all
  then show "(if c_id c = k then cell else c) = c"
    using c assms(1) by (auto simp: distinct_map dest: inj_onD)
qed




lemma map_replace_ids:
  "c_id u = k \<Longrightarrow> map c_id (map (\<lambda>c. if c_id c = k then u else c) cells) = map c_id cells"
  by (induction cells) auto

lemma map_replace_twice:
  "c_id u = k \<Longrightarrow>
   map (\<lambda>c. if c_id c = k then v else c) (map (\<lambda>c. if c_id c = k then u else c) cells)
     = map (\<lambda>c. if c_id c = k then v else c) cells"
  by (induction cells) auto

lemma map_replace_parentId:
  assumes "\<forall>c \<in> set cells. c_parentId c \<noteq> Some k" and "c_parentId u \<noteq> Some k"
    and "c \<in> set (map (\<lambda>c. if c_id c = k then u else c) cells)"
  shows "c_parentId c \<noteq> Some k"
  using assms by (induction cells) (auto split: if_splits)

text \<open>
  C2: split followed by merge of the new leaf that holds the window gives back the
  arena itself, cell by cell (rectangles, occupants, ids and order), for a tree as the
  program builds it: the ids of the arena are pairwise distinct, the split cell is a
  leaf (no children, and no cell names it as parent), its id is not the empty string
  (which JavaScript takes for an absent parent), its width and height are not
  negative, and the two generated ids are new and different.  The new leaf of the
  window is the first new cell for left and top, the second for right and bottom.
\<close>

theorem split_then_merge_restores:
  assumes d: "distinct (map c_id cells)"
    and f: "find (\<lambda>c. c_id c = cellId) cells = Some cell"
    and leaf: "c_children cell = None"
    and nochild: "\<forall>c \<in> set cells. c_parentId c \<noteq> Some cellId"
    and ne: "cellId \<noteq> []"
    and fresh: "newId1 \<notin> c_id ` set cells" "newId2 \<notin> c_id ` set cells" "newId1 \<noteq> newId2"
    and size: "0 \<le> c_width cell" "0 \<le> c_height cell"
  shows "(\<exists>newLeaf.
            find (\<lambda>c. c_id c = (if edge = SnapLeft \<or> edge = SnapTop then newId1 else newId2))
              (splitGridCell cells cellId (Some edge) windowId newId1 newId2) = Some newLeaf
          \<and> c_windowId newLeaf = Some windowId \<and> c_children newLeaf = None)
       \<and> mergeGridCells (splitGridCell cells cellId (Some edge) windowId newId1 newId2)
            (if edge = SnapLeft \<or> edge = SnapTop then newId1 else newId2) = cells"
proof -
  let ?u = "cell\<lparr>c_windowId := None, c_children := Some [newId1, newId2]\<rparr>"
  let ?xs = "map (\<lambda>c. if c_id c = cellId then ?u else c) cells"
  have idc: "c_id cell = cellId" and cin: "cell \<in> set cells"
    using find_Some_id [OF f] by simp_all
  have idu: "c_id ?u = cellId"
    using idc by simp
  have "set (map c_id ?xs) = set (map c_id cells)"
    by (simp only: map_replace_ids [OF idu])
  then have ids: "c_id ` set ?xs = c_id ` set cells"
    by (simp only: set_map)
  have fu: "find (\<lambda>c. c_id c = cellId) ?xs = Some ?u"
    using find_map_replace [OF f idu, of "[]"] by simp
  have "c_parentId cell \<noteq> Some cellId"
    using nochild cin by blast
  then have pu: "c_parentId ?u \<noteq> Some cellId"
    by simp
  have nopar: "\<And>c. c \<in> set ?xs \<Longrightarrow> c_parentId c \<noteq> Some cellId"
    by (rule map_replace_parentId [OF nochild pu])
  have restore: "map (\<lambda>c. if c_id c = cellId then cell else c) ?xs = cells"
    by (simp only: map_replace_twice [OF idu] map_replace_unique [OF d f])
  have nx1: "c_id c \<noteq> newId1" if "c \<in> set ?xs" for c
  proof
    assume "c_id c = newId1"
    with that have "newId1 \<in> c_id ` set ?xs" by blast
    with ids fresh(1) show False by simp
  qed
  have nx2: "c_id c \<noteq> newId2" if "c \<in> set ?xs" for c
  proof
    assume "c_id c = newId2"
    with that have "newId2 \<in> c_id ` set ?xs" by blast
    with ids fresh(2) show False by simp
  qed
  note sp = splitGridCell_found [OF f, of edge windowId newId1 newId2]
  show ?thesis
  proof (cases "edge = SnapLeft \<or> edge = SnapRight")
    case True
    let ?a = "\<lparr>c_id = newId1, c_x = c_x cell, c_y = c_y cell,
            c_width = c_width cell / 2, c_height = c_height cell,
            c_windowId = (if edge = SnapLeft then Some windowId else c_windowId cell),
            c_children = None, c_parentId = Some cellId\<rparr>"
    let ?b = "\<lparr>c_id = newId2, c_x = c_x cell + c_width cell / 2, c_y = c_y cell,
            c_width = c_width cell / 2, c_height = c_height cell,
            c_windowId = (if edge = SnapRight then Some windowId else c_windowId cell),
            c_children = None, c_parentId = Some cellId\<rparr>"
    let ?ub = "?u\<lparr>c_x := min (c_x ?u) (c_x ?b),
                      c_y := min (c_y ?u) (c_y ?b),
                      c_width := max (c_x ?u + c_width ?u) (c_x ?b + c_width ?b) - min (c_x ?u) (c_x ?b),
                      c_height := max (c_y ?u + c_height ?u) (c_y ?b + c_height ?b) - min (c_y ?u) (c_y ?b),
                      c_windowId := c_windowId ?b,
                      c_children := None\<rparr>"
    let ?ua = "?u\<lparr>c_x := min (c_x ?u) (c_x ?a),
                      c_y := min (c_y ?u) (c_y ?a),
                      c_width := max (c_x ?u + c_width ?u) (c_x ?a + c_width ?a) - min (c_x ?u) (c_x ?a),
                      c_height := max (c_y ?u + c_height ?u) (c_y ?a + c_height ?a) - min (c_y ?u) (c_y ?a),
                      c_windowId := c_windowId ?a,
                      c_children := None\<rparr>"
    have sp': "splitGridCell cells cellId (Some edge) windowId newId1 newId2 = ?xs @ [?a, ?b]"
      using sp True by simp
    have m: "mergeGridCells (?xs @ [?a, ?b]) (c_id ?a)
               = map (\<lambda>c. if c_id c = cellId then ?ub else c) ?xs"
      and m2: "mergeGridCells (?xs @ [?a, ?b]) (c_id ?b)
               = map (\<lambda>c. if c_id c = cellId then ?ua else c) ?xs"
    proof -
      have i1: "c_id ?a \<notin> c_id ` set ?xs" and i2: "c_id ?b \<notin> c_id ` set ?xs"
        unfolding ids using fresh(1,2) by simp_all
      have i3: "c_id ?a \<noteq> c_id ?b" using fresh(3) by simp
      have i4: "c_parentId ?a = Some cellId" and i5: "c_parentId ?b = Some cellId" by simp_all
      note mm = merge_appended_pair [where a = ?a and b = ?b and xs = ?xs and p = cellId
          and u = ?u, OF i1 i2 i3 i4 i5 ne nopar fu]
      show "mergeGridCells (?xs @ [?a, ?b]) (c_id ?a)
               = map (\<lambda>c. if c_id c = cellId then ?ub else c) ?xs"
        by (rule mm(1))
      show "mergeGridCells (?xs @ [?a, ?b]) (c_id ?b)
               = map (\<lambda>c. if c_id c = cellId then ?ua else c) ?xs"
        by (rule mm(2))
    qed
    have "find (\<lambda>c. c_id c = newId1) (?xs @ [?a, ?b]) = find (\<lambda>c. c_id c = newId1) [?a, ?b]"
      by (rule find_append_None) (rule nx1)
    then have fa: "find (\<lambda>c. c_id c = newId1) (?xs @ [?a, ?b]) = Some ?a"
      by simp
    have "find (\<lambda>c. c_id c = newId2) (?xs @ [?a, ?b]) = find (\<lambda>c. c_id c = newId2) [?a, ?b]"
      by (rule find_append_None) (rule nx2)
    then have fb: "find (\<lambda>c. c_id c = newId2) (?xs @ [?a, ?b]) = Some ?b"
      using fresh(3) by simp
    show ?thesis
    proof (cases "edge = SnapLeft")
      case left: True
      have up: "?ub = cell"
        using size leaf left by (cases cell) (simp add: min_def max_def)
      have "mergeGridCells (?xs @ [?a, ?b]) newId1 = cells"
        using m unfolding up restore by simp
      moreover have "c_windowId ?a = Some windowId \<and> c_children ?a = None"
        using left by simp
      ultimately show ?thesis
        unfolding sp' using left fa by simp
    next
      case right: False
      then have r: "edge = SnapRight" using True by simp
      have up: "?ua = cell"
        using size leaf r by (cases cell) (simp add: min_def max_def)
      have "mergeGridCells (?xs @ [?a, ?b]) newId2 = cells"
        using m2 unfolding up restore by simp
      moreover have "c_windowId ?b = Some windowId \<and> c_children ?b = None"
        using r by simp
      ultimately show ?thesis
        unfolding sp' using r fb by simp
    qed
  next
    case False
    let ?a = "\<lparr>c_id = newId1, c_x = c_x cell, c_y = c_y cell,
            c_width = c_width cell, c_height = c_height cell / 2,
            c_windowId = (if edge = SnapTop then Some windowId else c_windowId cell),
            c_children = None, c_parentId = Some cellId\<rparr>"
    let ?b = "\<lparr>c_id = newId2, c_x = c_x cell, c_y = c_y cell + c_height cell / 2,
            c_width = c_width cell, c_height = c_height cell / 2,
            c_windowId = (if edge = SnapBottom then Some windowId else c_windowId cell),
            c_children = None, c_parentId = Some cellId\<rparr>"
    let ?ub = "?u\<lparr>c_x := min (c_x ?u) (c_x ?b),
                      c_y := min (c_y ?u) (c_y ?b),
                      c_width := max (c_x ?u + c_width ?u) (c_x ?b + c_width ?b) - min (c_x ?u) (c_x ?b),
                      c_height := max (c_y ?u + c_height ?u) (c_y ?b + c_height ?b) - min (c_y ?u) (c_y ?b),
                      c_windowId := c_windowId ?b,
                      c_children := None\<rparr>"
    let ?ua = "?u\<lparr>c_x := min (c_x ?u) (c_x ?a),
                      c_y := min (c_y ?u) (c_y ?a),
                      c_width := max (c_x ?u + c_width ?u) (c_x ?a + c_width ?a) - min (c_x ?u) (c_x ?a),
                      c_height := max (c_y ?u + c_height ?u) (c_y ?a + c_height ?a) - min (c_y ?u) (c_y ?a),
                      c_windowId := c_windowId ?a,
                      c_children := None\<rparr>"
    have sp': "splitGridCell cells cellId (Some edge) windowId newId1 newId2 = ?xs @ [?a, ?b]"
      using sp False by simp
    have m: "mergeGridCells (?xs @ [?a, ?b]) (c_id ?a)
               = map (\<lambda>c. if c_id c = cellId then ?ub else c) ?xs"
      and m2: "mergeGridCells (?xs @ [?a, ?b]) (c_id ?b)
               = map (\<lambda>c. if c_id c = cellId then ?ua else c) ?xs"
    proof -
      have i1: "c_id ?a \<notin> c_id ` set ?xs" and i2: "c_id ?b \<notin> c_id ` set ?xs"
        unfolding ids using fresh(1,2) by simp_all
      have i3: "c_id ?a \<noteq> c_id ?b" using fresh(3) by simp
      have i4: "c_parentId ?a = Some cellId" and i5: "c_parentId ?b = Some cellId" by simp_all
      note mm = merge_appended_pair [where a = ?a and b = ?b and xs = ?xs and p = cellId
          and u = ?u, OF i1 i2 i3 i4 i5 ne nopar fu]
      show "mergeGridCells (?xs @ [?a, ?b]) (c_id ?a)
               = map (\<lambda>c. if c_id c = cellId then ?ub else c) ?xs"
        by (rule mm(1))
      show "mergeGridCells (?xs @ [?a, ?b]) (c_id ?b)
               = map (\<lambda>c. if c_id c = cellId then ?ua else c) ?xs"
        by (rule mm(2))
    qed
    have "find (\<lambda>c. c_id c = newId1) (?xs @ [?a, ?b]) = find (\<lambda>c. c_id c = newId1) [?a, ?b]"
      by (rule find_append_None) (rule nx1)
    then have fa: "find (\<lambda>c. c_id c = newId1) (?xs @ [?a, ?b]) = Some ?a"
      by simp
    have "find (\<lambda>c. c_id c = newId2) (?xs @ [?a, ?b]) = find (\<lambda>c. c_id c = newId2) [?a, ?b]"
      by (rule find_append_None) (rule nx2)
    then have fb: "find (\<lambda>c. c_id c = newId2) (?xs @ [?a, ?b]) = Some ?b"
      using fresh(3) by simp
    show ?thesis
    proof (cases "edge = SnapTop")
      case top: True
      have up: "?ub = cell"
        using size leaf top by (cases cell) (simp add: min_def max_def)
      have "mergeGridCells (?xs @ [?a, ?b]) newId1 = cells"
        using m unfolding up restore by simp
      moreover have "c_windowId ?a = Some windowId \<and> c_children ?a = None"
        using top by simp
      ultimately show ?thesis
        unfolding sp' using top fa by simp
    next
      case bottom: False
      then have r: "edge = SnapBottom" using False by (cases edge) simp_all
      have up: "?ua = cell"
        using size leaf r by (cases cell) (simp add: min_def max_def)
      have "mergeGridCells (?xs @ [?a, ?b]) newId2 = cells"
        using m2 unfolding up restore by simp
      moreover have "c_windowId ?b = Some windowId \<and> c_children ?b = None"
        using r by simp
      ultimately show ?thesis
        unfolding sp' using r fb by simp
    qed
  qed
qed


text \<open>
  In the arena reached by \<open>dockRightEvents\<close>, cell 3 is split at the bottom for
  window 102 into cells 4 and 5; merging cell 5 gives the arena back.
\<close>

theorem split_then_merge_restores_witness:
  "distinct (map c_id dockedRightCells)
   \<and> find (\<lambda>c. c_id c = ''3'') dockedRightCells
       = Some \<lparr>c_id = ''3'', c_x = 600, c_y = 0, c_width = 600, c_height = 800,
               c_windowId = Some ''101'', c_children = None, c_parentId = Some ''root''\<rparr>
   \<and> map c_id (splitGridCell dockedRightCells ''3'' (Some SnapBottom) ''102'' ''4'' ''5'')
       = [''root'', ''2'', ''3'', ''4'', ''5'']
   \<and> mergeGridCells (splitGridCell dockedRightCells ''3'' (Some SnapBottom) ''102'' ''4'' ''5'') ''5''
       = dockedRightCells"
proof -
  let ?cell = "\<lparr>c_id = ''3'', c_x = 600, c_y = 0, c_width = 600, c_height = 800,
               c_windowId = Some ''101'', c_children = None, c_parentId = Some ''root''\<rparr>"
  have h1: "distinct (map c_id dockedRightCells)"
    by (simp add: dockedRightCells_def)
  have h2: "find (\<lambda>c. c_id c = ''3'') dockedRightCells = Some ?cell"
    by (simp add: dockedRightCells_def)
  have h3: "c_children ?cell = None" by simp
  have h4: "\<forall>c \<in> set dockedRightCells. c_parentId c \<noteq> Some ''3''"
    by (simp add: dockedRightCells_def)
  have h5: "''3'' \<noteq> []" by simp
  have h6: "''4'' \<notin> c_id ` set dockedRightCells" "''5'' \<notin> c_id ` set dockedRightCells"
    "''4'' \<noteq> ''5''"
    by (simp_all add: dockedRightCells_def)
  have h7: "0 \<le> c_width ?cell" "0 \<le> c_height ?cell" by simp_all
  have ids: "map c_id (splitGridCell dockedRightCells ''3'' (Some SnapBottom) ''102'' ''4'' ''5'')
       = [''root'', ''2'', ''3'', ''4'', ''5'']"
    by (simp add: dockedRightCells_def splitGridCell_def)
  from split_then_merge_restores [OF h1 h2 h3 h4 h5 h6 h7, of SnapBottom "''102''"]
  have "mergeGridCells (splitGridCell dockedRightCells ''3'' (Some SnapBottom) ''102'' ''4'' ''5'') ''5''
       = dockedRightCells"
    by simp
  with h1 h2 ids show ?thesis by simp
qed

section \<open>The root cell\<close>

lemma run_shrinkEvents:
  "run (initialState 1200 800) shrinkEvents = Some shrunkState"
  unfolding shrinkEvents_def run_append run_dockRightEvents
  by (simp add: shrunkState_def dockedRightState_def dockedRightCells_def handleResize_def rootId_def)

lemma find_filter_same:
  "(\<And>x. x \<in> set xs \<Longrightarrow> P x \<Longrightarrow> Q x) \<Longrightarrow> find P (filter Q xs) = find P xs"
  by (induction xs) auto

lemma find_map_same:
  "(\<And>x. x \<in> set xs \<Longrightarrow> P x \<Longrightarrow> g x = x) \<Longrightarrow> (\<And>x. x \<in> set xs \<Longrightarrow> \<not> P x \<Longrightarrow> \<not> P (g x))
   \<Longrightarrow> find P (map g xs) = find P xs"
  by (induction xs) auto

lemma rootKept_find:
  "rootKept cells \<Longrightarrow> \<exists>r. find (\<lambda>c. c_id c = rootId) cells = Some r"
  by (cases "find (\<lambda>c. c_id c = rootId) cells") (auto simp: rootKept_def find_None_iff)

lemma step_gridCells:
  assumes "step s e = Some s'"
  shows "gridCells s' = gridCells s
       \<or> (\<exists>k sp w i1 i2. newCellIds e = [i1, i2]
             \<and> gridCells s' = splitGridCell (gridCells s) k sp w i1 i2)
       \<or> (\<exists>k. gridCells s' = mergeGridCells (gridCells s) k)
       \<or> (\<exists>vw vh. e = Resize vw vh \<and> gridCells s' = gridCells (handleResize s vw vh))"
proof (cases e)
  case (AddWindow x11 x12 x13)
  then show ?thesis using assms by (auto simp: addWindow_def)
next
  case (DragStart x21 x22 x23)
  then show ?thesis using assms by (auto simp: onDragStart_def split: option.splits)
next
  case (Drag x31 x32)
  then show ?thesis using assms by (auto simp: onDrag_def split: option.splits if_splits)
next
  case (DragEnd x41 x42 x43 x44)
  have td: "gridCells t = gridCells s
       \<or> (\<exists>k sp w. gridCells t = splitGridCell (gridCells s) k sp w x43 x44)"
    if "treeDock s d win edge x41 x42 x43 x44 = Some t" for d win edge t
    using that by (auto simp: treeDock_def Let_def split: option.splits if_splits) blast+
  have "gridCells s' = gridCells s
       \<or> (\<exists>k sp w. gridCells s' = splitGridCell (gridCells s) k sp w x43 x44)"
    using assms DragEnd td
    by (auto simp: onDragEnd_def Let_def endDrag_def screenEdgeDock_def
        split: option.splits if_splits) blast+
  then show ?thesis using DragEnd by auto
next
  case (Resize x51 x52)
  then show ?thesis using assms by auto
next
  case (CloseWindow x6)
  then show ?thesis using assms
    by (auto simp: closeWindow_def vacateCell_def Let_def split: option.splits)
next
  case (MoveWindowOut x71 x72)
  then show ?thesis using assms
    by (auto simp: moveWindowOut_def vacateCell_def Let_def split: option.splits if_splits)
qed





lemma rootKept_initial: "rootKept (gridCells (initialState vw vh))"
  by (simp add: rootKept_def initialState_def)

lemma splitGridCell_shape:
  assumes "find (\<lambda>c. c_id c = k) cells = Some cell"
  shows "\<exists>a b. splitGridCell cells k sp w newId1 newId2
        = map (\<lambda>c. if c_id c = k
                    then cell\<lparr>c_windowId := None, c_children := Some [newId1, newId2]\<rparr>
                    else c) cells @ [a, b]
      \<and> c_id a = newId1 \<and> c_id b = newId2"
  using assms
  by (cases "sp = Some SnapLeft \<or> sp = Some SnapRight")
     (simp_all add: splitGridCell_def Let_def cong: if_cong)

lemma rootKept_split:
  assumes "rootKept cells" and "newId1 \<noteq> rootId" and "newId2 \<noteq> rootId"
  shows "rootKept (splitGridCell cells k sp w newId1 newId2)"
proof (cases "find (\<lambda>c. c_id c = k) cells")
  case None
  then show ?thesis using assms(1) by (simp add: splitGridCell_def)
next
  case (Some cell)
  then have cell: "c_id cell = k" "cell \<in> set cells"
    using find_Some_id by blast+
  define f where "f = (\<lambda>c. if c_id c = k
                    then cell\<lparr>c_windowId := None, c_children := Some [newId1, newId2]\<rparr>
                    else c)"
  have f_id: "c_id (f c) = c_id c" for c
    using cell(1) by (simp add: f_def)
  have f_par: "c_parentId (f c) = (if c_id c = k then c_parentId cell else c_parentId c)" for c
    by (simp add: f_def)
  from splitGridCell_shape [OF Some, of sp w newId1 newId2]
  obtain a b where sp: "splitGridCell cells k sp w newId1 newId2 = map f cells @ [a, b]"
    and ab: "c_id a = newId1" "c_id b = newId2"
    unfolding f_def by blast
  have mem: "c \<in> set (map f cells @ [a, b]) \<longleftrightarrow> c \<in> f ` set cells \<or> c = a \<or> c = b" for c
    by auto
  from assms(1) obtain r where r: "r \<in> set cells" "c_id r = rootId"
    unfolding rootKept_def by blast
  have old: "\<not> truthy (c_parentId c)" if "c \<in> set cells" "c_id c = rootId" for c
    using assms(1) that unfolding rootKept_def by blast
  have "f r \<in> set (map f cells @ [a, b])"
    unfolding mem using r(1) by blast
  moreover have "c_id (f r) = rootId"
    using f_id r(2) by simp
  ultimately have ex: "\<exists>c \<in> set (map f cells @ [a, b]). c_id c = rootId"
    by blast
  have al: "\<not> truthy (c_parentId c)"
    if m: "c \<in> set (map f cells @ [a, b])" and i: "c_id c = rootId" for c
  proof -
    have "c \<noteq> a" "c \<noteq> b"
      using i ab assms(2,3) by metis+
    with m obtain c0 where c0: "c0 \<in> set cells" "c = f c0"
      unfolding mem by blast
    have i0: "c_id c0 = rootId"
      using i c0(2) f_id by simp
    show ?thesis
    proof (cases "c_id c0 = k")
      case True
      then have "c_id cell = rootId"
        using cell(1) i0 by simp
      then have "\<not> truthy (c_parentId cell)"
        using old cell(2) by blast
      then show ?thesis
        using True c0(2) f_par by simp
    next
      case False
      then show ?thesis
        using old [OF c0(1) i0] c0(2) f_par by simp
    qed
  qed
  show ?thesis
    unfolding sp rootKept_def using ex al by blast
qed




lemma mergeGridCells_cases:
  "mergeGridCells cells k = cells
   \<or> (\<exists>leaf par sib p.
         find (\<lambda>c. c_id c = k) cells = Some leaf \<and> c_parentId leaf = Some p \<and> p \<noteq> []
       \<and> find (\<lambda>c. c_id c = p) cells = Some par
       \<and> find (\<lambda>c. c_parentId c = Some p \<and> c_id c \<noteq> k) cells = Some sib
       \<and> mergeGridCells cells k =
           map (\<lambda>c. if c_id c = p
               then par\<lparr>c_x := min (c_x par) (c_x sib),
                        c_y := min (c_y par) (c_y sib),
                        c_width := max (c_x par + c_width par) (c_x sib + c_width sib)
                                   - min (c_x par) (c_x sib),
                        c_height := max (c_y par + c_height par) (c_y sib + c_height sib)
                                    - min (c_y par) (c_y sib),
                        c_windowId := c_windowId sib,
                        c_children := None\<rparr>
               else c)
             (filter (\<lambda>c. c_id c \<noteq> k \<and> c_id c \<noteq> c_id sib) cells))"
proof (cases "find (\<lambda>c. c_id c = k) cells")
  case None
  then show ?thesis by (simp add: mergeGridCells_def)
next
  case leaf: (Some leaf)
  show ?thesis
  proof (cases "c_parentId leaf")
    case None
    then show ?thesis using leaf by (simp add: mergeGridCells_def)
  next
    case p: (Some p)
    show ?thesis
    proof (cases "p = []")
      case True
      then show ?thesis using leaf p by (simp add: mergeGridCells_def)
    next
      case False
      show ?thesis
      proof (cases "find (\<lambda>c. c_id c = p) cells")
        case None
        then show ?thesis using leaf p False by (simp add: mergeGridCells_def)
      next
        case par: (Some par)
        show ?thesis
        proof (cases "find (\<lambda>c. c_parentId c = Some p \<and> c_id c \<noteq> k) cells")
          case None
          then show ?thesis using leaf p False par by (simp add: mergeGridCells_def)
        next
          case sib: (Some sib)
          have "mergeGridCells cells k =
           map (\<lambda>c. if c_id c = p
               then par\<lparr>c_x := min (c_x par) (c_x sib),
                        c_y := min (c_y par) (c_y sib),
                        c_width := max (c_x par + c_width par) (c_x sib + c_width sib)
                                   - min (c_x par) (c_x sib),
                        c_height := max (c_y par + c_height par) (c_y sib + c_height sib)
                                    - min (c_y par) (c_y sib),
                        c_windowId := c_windowId sib,
                        c_children := None\<rparr>
               else c)
             (filter (\<lambda>c. c_id c \<noteq> k \<and> c_id c \<noteq> c_id sib) cells)"
            using leaf p False par sib by (simp add: mergeGridCells_def Let_def)
          then show ?thesis using leaf p False par sib by blast
        qed
      qed
    qed
  qed
qed





lemma rootKept_merge:
  assumes "rootKept cells"
  shows "rootKept (mergeGridCells cells k)"
proof -
  from mergeGridCells_cases [of cells k]
  consider "mergeGridCells cells k = cells"
    | leaf par sib p g where
        "find (\<lambda>c. c_id c = k) cells = Some leaf" "c_parentId leaf = Some p" "p \<noteq> []"
        "find (\<lambda>c. c_id c = p) cells = Some par"
        "find (\<lambda>c. c_parentId c = Some p \<and> c_id c \<noteq> k) cells = Some sib"
        "c_id g = p" "c_parentId g = c_parentId par"
        "mergeGridCells cells k =
           map (\<lambda>c. if c_id c = p then g else c)
             (filter (\<lambda>c. c_id c \<noteq> k \<and> c_id c \<noteq> c_id sib) cells)"
  proof -
    assume a1: "mergeGridCells cells k = cells \<Longrightarrow> thesis"
      and a2: "\<And>leaf p par sib g.
        find (\<lambda>c. c_id c = k) cells = Some leaf \<Longrightarrow> c_parentId leaf = Some p \<Longrightarrow> p \<noteq> [] \<Longrightarrow>
        find (\<lambda>c. c_id c = p) cells = Some par \<Longrightarrow>
        find (\<lambda>c. c_parentId c = Some p \<and> c_id c \<noteq> k) cells = Some sib \<Longrightarrow>
        c_id g = p \<Longrightarrow> c_parentId g = c_parentId par \<Longrightarrow>
        mergeGridCells cells k =
           map (\<lambda>c. if c_id c = p then g else c)
             (filter (\<lambda>c. c_id c \<noteq> k \<and> c_id c \<noteq> c_id sib) cells) \<Longrightarrow> thesis"
    from mergeGridCells_cases [of cells k] show thesis
    proof (elim disjE exE conjE)
      assume "mergeGridCells cells k = cells"
      then show thesis by (rule a1)
    next
      fix leaf par sib p
      assume h: "find (\<lambda>c. c_id c = k) cells = Some leaf" "c_parentId leaf = Some p" "p \<noteq> []"
        "find (\<lambda>c. c_id c = p) cells = Some par"
        "find (\<lambda>c. c_parentId c = Some p \<and> c_id c \<noteq> k) cells = Some sib"
        and m: "mergeGridCells cells k =
           map (\<lambda>c. if c_id c = p
               then par\<lparr>c_x := min (c_x par) (c_x sib),
                        c_y := min (c_y par) (c_y sib),
                        c_width := max (c_x par + c_width par) (c_x sib + c_width sib)
                                   - min (c_x par) (c_x sib),
                        c_height := max (c_y par + c_height par) (c_y sib + c_height sib)
                                    - min (c_y par) (c_y sib),
                        c_windowId := c_windowId sib,
                        c_children := None\<rparr>
               else c)
             (filter (\<lambda>c. c_id c \<noteq> k \<and> c_id c \<noteq> c_id sib) cells)"
      have "c_id par = p" using find_Some_id [OF h(4)] by simp
      then show thesis
        by (intro a2 [OF h _ _ m]) simp_all
    qed
  qed
  then show ?thesis
  proof cases
    case 1
    then show ?thesis using assms by simp
  next
    case (2 leaf par sib p g)
    have old: "\<not> truthy (c_parentId c)" if "c \<in> set cells" "c_id c = rootId" for c
      using assms that unfolding rootKept_def by blast
    from assms obtain r where r: "r \<in> set cells" "c_id r = rootId"
      unfolding rootKept_def by blast
    have lf: "leaf \<in> set cells" "c_id leaf = k"
      using find_Some_id [OF 2(1)] by simp_all
    have sb: "sib \<in> set cells" "c_parentId sib = Some p"
      using 2(5) by (auto simp: find_Some_iff)
    have pr: "par \<in> set cells" "c_id par = p"
      using find_Some_id [OF 2(4)] by simp_all
    have tl: "truthy (c_parentId leaf)" "truthy (c_parentId sib)"
      using 2(2,3) sb(2) by simp_all
    have kn: "k \<noteq> rootId"
      using old [OF lf(1)] lf(2) tl(1) by blast
    have sn: "c_id sib \<noteq> rootId"
      using old [OF sb(1)] tl(2) by blast
    define ys where "ys = filter (\<lambda>c. c_id c \<noteq> k \<and> c_id c \<noteq> c_id sib) cells"
    define h :: "GridCell \<Rightarrow> GridCell" where "h = (\<lambda>c. if c_id c = p then g else c)"
    have m: "mergeGridCells cells k = map h ys"
      using 2(8) by (simp add: ys_def h_def)
    have h_id: "c_id (h c) = c_id c" for c
      using 2(6) by (simp add: h_def)
    have ry: "r \<in> set ys"
      using r kn sn by (simp add: ys_def)
    have "h r \<in> set (map h ys)" using ry by simp
    moreover have "c_id (h r) = rootId" using h_id r(2) by simp
    ultimately have ex: "\<exists>c \<in> set (map h ys). c_id c = rootId" by blast
    have al: "\<not> truthy (c_parentId c)" if c: "c \<in> set (map h ys)" "c_id c = rootId" for c
    proof -
      from c(1) obtain c0 where c0: "c0 \<in> set ys" "c = h c0" by auto
      have c0c: "c0 \<in> set cells" using c0(1) by (simp add: ys_def)
      have i0: "c_id c0 = rootId" using c(2) c0(2) h_id by simp
      show ?thesis
      proof (cases "c_id c0 = p")
        case True
        then have "c = g" using c0(2) by (simp add: h_def)
        moreover have "c_id par = rootId" using pr(2) True i0 by simp
        ultimately show ?thesis using old [OF pr(1)] 2(7) by simp
      next
        case False
        then have "c = c0" using c0(2) by (simp add: h_def)
        then show ?thesis using old [OF c0c i0] by simp
      qed
    qed
    show ?thesis
      unfolding m rootKept_def using ex al by blast
  qed
qed

lemma rootKept_resize:
  assumes "rootKept (gridCells s)"
  shows "rootKept (gridCells (handleResize s vw vh))"
proof -
  define h :: "GridCell \<Rightarrow> GridCell"
    where "h = (\<lambda>cell. if c_id cell = rootId
                       then cell\<lparr>c_width := vw, c_height := vh\<rparr> else cell)"
  have g: "gridCells (handleResize s vw vh) = map h (gridCells s)"
    by (simp add: handleResize_def h_def)
  have h_id: "c_id (h c) = c_id c" and h_par: "c_parentId (h c) = c_parentId c" for c
    by (simp_all add: h_def)
  show ?thesis
    using assms unfolding g rootKept_def by (auto simp: h_id h_par)
qed

lemma reachable_rootKept:
  assumes "reachable vw vh s"
  shows "rootKept (gridCells s)"
  using assms
proof (induction rule: reachable.induct)
  case reachable_initial
  show ?case by (rule rootKept_initial)
next
  case (reachable_step s e s')
  from step_gridCells [OF reachable_step.hyps(3)]
  show ?case
  proof (elim disjE exE conjE)
    assume "gridCells s' = gridCells s"
    then show ?thesis using reachable_step.IH by simp
  next
    fix k sp w i1 i2
    assume n: "newCellIds e = [i1, i2]"
      and g: "gridCells s' = splitGridCell (gridCells s) k sp w i1 i2"
    have "i1 \<noteq> rootId" "i2 \<noteq> rootId"
      using reachable_step.hyps(2) n by (simp_all add: freshIds_def)
    then show ?thesis
      unfolding g by (intro rootKept_split reachable_step.IH)
  next
    fix k assume "gridCells s' = mergeGridCells (gridCells s) k"
    then show ?thesis using rootKept_merge [OF reachable_step.IH] by simp
  next
    fix vw' vh' assume "gridCells s' = gridCells (handleResize s vw' vh')"
    then show ?thesis using rootKept_resize [OF reachable_step.IH] by simp
  qed
qed

lemma run_reachable:
  assumes "reachable vw vh s" and "freshAlong s es" and "run s es = Some s'"
  shows "reachable vw vh s'"
  using assms
proof (induction es arbitrary: s)
  case Nil
  then show ?case by simp
next
  case (Cons e es)
  from Cons.prems(3) obtain s1 where s1: "step s e = Some s1" "run s1 es = Some s'"
    by (auto split: option.splits)
  have "reachable vw vh s1"
    using Cons.prems(1,2) s1(1) by (auto intro: reachable_step)
  then show ?case
    using Cons.IH [of s1] Cons.prems(2) s1 by simp
qed




lemma split_root_rect:
  assumes "find (\<lambda>c. c_id c = rootId) cells = Some r"
  shows "\<exists>r'. find (\<lambda>c. c_id c = rootId) (splitGridCell cells k sp w newId1 newId2) = Some r'
            \<and> sameRect r' r"
proof (cases "find (\<lambda>c. c_id c = k) cells")
  case None
  then show ?thesis using assms by (simp add: splitGridCell_def sameRect_def)
next
  case (Some cell)
  then have cell: "c_id cell = k" "cell \<in> set cells"
    using find_Some_id by blast+
  let ?u = "cell\<lparr>c_windowId := None, c_children := Some [newId1, newId2]\<rparr>"
  from splitGridCell_shape [OF Some, of sp w newId1 newId2]
  obtain a b where sp: "splitGridCell cells k sp w newId1 newId2
        = map (\<lambda>c. if c_id c = k then ?u else c) cells @ [a, b]"
    by blast
  show ?thesis
  proof (cases "k = rootId")
    case True
    then have "cell = r" using Some assms by simp
    moreover have "find (\<lambda>c. c_id c = k) (map (\<lambda>c. if c_id c = k then ?u else c) cells @ [a, b])
                   = Some ?u"
      by (rule find_map_replace [OF Some]) (simp add: cell(1))
    ultimately show ?thesis
      unfolding sp using True by (simp add: sameRect_def)
  next
    case False
    have "find (\<lambda>c. c_id c = rootId) (map (\<lambda>c. if c_id c = k then ?u else c) cells)
            = find (\<lambda>c. c_id c = rootId) cells"
      by (rule find_map_same) (use False cell(1) in auto)
    then have "find (\<lambda>c. c_id c = rootId) (map (\<lambda>c. if c_id c = k then ?u else c) cells @ [a, b])
            = Some r"
      using assms by (simp add: find_append_Some)
    then show ?thesis
      unfolding sp by (simp add: sameRect_def)
  qed
qed

lemma merge_root_rect:
  assumes rk: "rootKept cells"
    and fr: "find (\<lambda>c. c_id c = rootId) cells = Some r"
  shows "\<exists>r'. find (\<lambda>c. c_id c = rootId) (mergeGridCells cells k) = Some r'
            \<and> ((\<forall>c \<in> set cells. c_parentId c = Some rootId \<longrightarrow> cellWithin c r)
                 \<longrightarrow> sameRect r' r)"
proof -
  from mergeGridCells_cases [of cells k] show ?thesis
  proof (elim disjE exE conjE)
    assume "mergeGridCells cells k = cells"
    then show ?thesis using fr by (simp add: sameRect_def)
  next
    fix leaf par sib p
    assume h: "find (\<lambda>c. c_id c = k) cells = Some leaf" "c_parentId leaf = Some p" "p \<noteq> []"
        "find (\<lambda>c. c_id c = p) cells = Some par"
        "find (\<lambda>c. c_parentId c = Some p \<and> c_id c \<noteq> k) cells = Some sib"
    define g where "g = par\<lparr>c_x := min (c_x par) (c_x sib),
                        c_y := min (c_y par) (c_y sib),
                        c_width := max (c_x par + c_width par) (c_x sib + c_width sib)
                                   - min (c_x par) (c_x sib),
                        c_height := max (c_y par + c_height par) (c_y sib + c_height sib)
                                    - min (c_y par) (c_y sib),
                        c_windowId := c_windowId sib,
                        c_children := None\<rparr>"
    assume "mergeGridCells cells k =
           map (\<lambda>c. if c_id c = p
               then par\<lparr>c_x := min (c_x par) (c_x sib),
                        c_y := min (c_y par) (c_y sib),
                        c_width := max (c_x par + c_width par) (c_x sib + c_width sib)
                                   - min (c_x par) (c_x sib),
                        c_height := max (c_y par + c_height par) (c_y sib + c_height sib)
                                    - min (c_y par) (c_y sib),
                        c_windowId := c_windowId sib,
                        c_children := None\<rparr>
               else c)
             (filter (\<lambda>c. c_id c \<noteq> k \<and> c_id c \<noteq> c_id sib) cells)"
    then have m: "mergeGridCells cells k =
           map (\<lambda>c. if c_id c = p then g else c)
             (filter (\<lambda>c. c_id c \<noteq> k \<and> c_id c \<noteq> c_id sib) cells)"
      by (simp add: g_def)
    have old: "\<not> truthy (c_parentId c)" if "c \<in> set cells" "c_id c = rootId" for c
      using rk that unfolding rootKept_def by blast
    have lf: "leaf \<in> set cells" "c_id leaf = k"
      using find_Some_id [OF h(1)] by simp_all
    have sb: "sib \<in> set cells" "c_parentId sib = Some p"
      using h(5) by (auto simp: find_Some_iff)
    have pr: "par \<in> set cells" "c_id par = p"
      using find_Some_id [OF h(4)] by simp_all
    have kn: "k \<noteq> rootId"
      using old [OF lf(1)] lf(2) h(2,3) by auto
    have sn: "c_id sib \<noteq> rootId"
      using old [OF sb(1)] sb(2) h(3) by auto
    have ff: "find (\<lambda>c. c_id c = rootId)
                (filter (\<lambda>c. c_id c \<noteq> k \<and> c_id c \<noteq> c_id sib) cells) = Some r"
      using fr kn sn by (subst find_filter_same) auto
    show ?thesis
    proof (cases "p = rootId")
      case True
      then have pr': "par = r" using h(4) fr by simp
      have gid: "c_id g = rootId" using pr(2) True by (simp add: g_def)
      have fg: "find (\<lambda>c. c_id c = rootId) (mergeGridCells cells k) = Some g"
        unfolding m True
        using find_map_replace [OF ff gid, of "[]"] by simp
      have "sameRect g r" if w: "\<forall>c \<in> set cells. c_parentId c = Some rootId \<longrightarrow> cellWithin c r"
      proof -
        have "cellWithin sib r" using w sb True by blast
        then show ?thesis
          unfolding cellWithin_def sameRect_def g_def pr' by (simp add: min_def max_def)
      qed
      with fg show ?thesis by blast
    next
      case False
      have gp: "c_id g = p" using pr(2) by (simp add: g_def)
      have "find (\<lambda>c. c_id c = rootId) (mergeGridCells cells k) = Some r"
        unfolding m using ff False gp
        by (subst find_map_same) auto
      then show ?thesis by (simp add: sameRect_def)
    qed
  qed
qed

lemma find_map_pres:
  "(\<And>x. P (h x) = P x) \<Longrightarrow> find P (map h xs) = map_option h (find P xs)"
  by (induction xs) auto

lemma resize_root_rect:
  assumes "find (\<lambda>c. c_id c = rootId) (gridCells s) = Some r"
  shows "find (\<lambda>c. c_id c = rootId) (gridCells (handleResize s vw vh))
           = Some (r\<lparr>c_width := vw, c_height := vh\<rparr>)"
proof -
  define h :: "GridCell \<Rightarrow> GridCell"
    where "h = (\<lambda>cell. if c_id cell = rootId
                       then cell\<lparr>c_width := vw, c_height := vh\<rparr> else cell)"
  have g: "gridCells (handleResize s vw vh) = map h (gridCells s)"
    by (simp add: handleResize_def h_def)
  have "find (\<lambda>c. c_id c = rootId) (map h (gridCells s))
          = map_option h (find (\<lambda>c. c_id c = rootId) (gridCells s))"
    by (rule find_map_pres) (simp add: h_def)
  then show ?thesis
    unfolding g using assms find_Some_id [OF assms] by (simp add: h_def)
qed

lemma reachable_dockedRight: "reachable 1200 800 dockedRightState"
  by (rule run_reachable [OF reachable_initial _ run_dockRightEvents])
     (simp add: dockRightEvents_def freshIds_def model_defs)

lemma reachable_shrunk: "reachable 1200 800 shrunkState"
proof (rule run_reachable [OF reachable_dockedRight])
  show "run dockedRightState [Resize 800 600] = Some shrunkState"
    using run_shrinkEvents
    by (simp add: shrinkEvents_def run_append run_dockRightEvents)
  show "freshAlong dockedRightState [Resize 800 600]"
    by (simp add: freshIds_def)
qed

text \<open>The merge of a child of the root sets the root to the envelope of the root and
  the sibling, with the sibling's occupant and no children.\<close>

lemma merge_root_envelope:
  assumes rk: "rootKept cells"
    and fl: "find (\<lambda>c. c_id c = k) cells = Some leaf"
    and pl: "c_parentId leaf = Some rootId"
    and fr: "find (\<lambda>c. c_id c = rootId) cells = Some r"
    and fs: "find (\<lambda>c. c_parentId c = Some rootId \<and> c_id c \<noteq> k) cells = Some sib"
  shows "find (\<lambda>c. c_id c = rootId) (mergeGridCells cells k)
           = Some (r\<lparr>c_x := min (c_x r) (c_x sib),
                      c_y := min (c_y r) (c_y sib),
                      c_width := max (c_x r + c_width r) (c_x sib + c_width sib)
                                 - min (c_x r) (c_x sib),
                      c_height := max (c_y r + c_height r) (c_y sib + c_height sib)
                                  - min (c_y r) (c_y sib),
                      c_windowId := c_windowId sib,
                      c_children := None\<rparr>)"
proof -
  define up where "up = r\<lparr>c_x := min (c_x r) (c_x sib),
                      c_y := min (c_y r) (c_y sib),
                      c_width := max (c_x r + c_width r) (c_x sib + c_width sib)
                                 - min (c_x r) (c_x sib),
                      c_height := max (c_y r + c_height r) (c_y sib + c_height sib)
                                  - min (c_y r) (c_y sib),
                      c_windowId := c_windowId sib,
                      c_children := None\<rparr>"
  define h :: "GridCell \<Rightarrow> GridCell"
    where "h = (\<lambda>c. if Some (c_id c) = c_parentId leaf then up else c)"
  have tr: "truthy (c_parentId leaf)"
    by (simp add: pl rootId_def)
  have lk: "c_id leaf = k" "leaf \<in> set cells"
    using find_Some_id [OF fl] by simp_all
  have rr: "c_id r = rootId"
    using find_Some_id [OF fr] by simp
  have ss: "sib \<in> set cells" "c_parentId sib = Some rootId"
    using fs by (auto simp: find_Some_iff)
  have kr: "k \<noteq> rootId"
    using rk lk tr by (auto simp: rootKept_def)
  have sr: "c_id sib \<noteq> rootId"
    using rk ss by (auto simp: rootKept_def rootId_def)
  have fp: "find (\<lambda>c. Some (c_id c) = c_parentId leaf) cells = Some r"
    using fr by (simp add: pl)
  have fs': "find (\<lambda>c. c_parentId c = c_parentId leaf \<and> c_id c \<noteq> k) cells = Some sib"
    using fs by (simp add: pl)
  have m: "mergeGridCells cells k
             = map h (filter (\<lambda>c. c_id c \<noteq> k \<and> c_id c \<noteq> c_id sib) cells)"
    unfolding mergeGridCells_found [OF fl tr fp fs'] h_def up_def ..
  have hp: "(c_id (h x) = rootId) = (c_id x = rootId)" for x
    by (simp add: h_def pl up_def rr)
  have "find (\<lambda>c. c_id c = rootId) (mergeGridCells cells k)
          = map_option h (find (\<lambda>c. c_id c = rootId)
                            (filter (\<lambda>c. c_id c \<noteq> k \<and> c_id c \<noteq> c_id sib) cells))"
    unfolding m by (rule find_map_pres) (rule hp)
  also have "find (\<lambda>c. c_id c = rootId)
                (filter (\<lambda>c. c_id c \<noteq> k \<and> c_id c \<noteq> c_id sib) cells)
             = find (\<lambda>c. c_id c = rootId) cells"
    by (rule find_filter_same) (use kr sr in auto)
  also have "map_option h (find (\<lambda>c. c_id c = rootId) cells) = Some up"
    by (simp add: fr h_def pl rr)
  finally show ?thesis
    by (simp add: up_def)
qed

text \<open>
  C9, as the code has it.  In every reachable state the arena has a root cell.  A split
  leaves the root's rectangle as it is, and the resize handler sets its width and height
  to the new viewport.  A merge keeps a root cell too, and leaves its rectangle as it is
  whenever every cell whose parent is the root lies within the root's rectangle;
  otherwise the merge of a child of the root sets the root's rectangle to the envelope
  of the root and the sibling.  So an event other than a resize leaves the root's
  rectangle unchanged in a state where the root's children lie within it.
\<close>

theorem root_kept_rectangle_by_resize_or_envelope:
  assumes "reachable vw vh s"
  shows "\<exists>r. find (\<lambda>c. c_id c = rootId) (gridCells s) = Some r
     \<and> (\<exists>r'. find (\<lambda>c. c_id c = rootId)
                 (splitGridCell (gridCells s) cellId snapPosition windowId newId1 newId2) = Some r'
            \<and> sameRect r' r)
     \<and> (\<exists>r'. find (\<lambda>c. c_id c = rootId) (mergeGridCells (gridCells s) mergedId) = Some r'
            \<and> ((\<forall>c \<in> set (gridCells s). c_parentId c = Some rootId \<longrightarrow> cellWithin c r)
                 \<longrightarrow> sameRect r' r))
     \<and> find (\<lambda>c. c_id c = rootId) (gridCells (handleResize s vw' vh'))
           = Some (r\<lparr>c_width := vw', c_height := vh'\<rparr>)
     \<and> (\<forall>e s'. step s e = Some s' \<and> (\<forall>a b. e \<noteq> Resize a b)
                 \<and> (\<forall>c \<in> set (gridCells s). c_parentId c = Some rootId \<longrightarrow> cellWithin c r)
               \<longrightarrow> (\<exists>r'. find (\<lambda>c. c_id c = rootId) (gridCells s') = Some r' \<and> sameRect r' r))"
proof -
  have rk: "rootKept (gridCells s)"
    using assms by (rule reachable_rootKept)
  then obtain r where r: "find (\<lambda>c. c_id c = rootId) (gridCells s) = Some r"
    using rootKept_find by blast
  note sp = split_root_rect [OF r]
  note mg = merge_root_rect [OF rk r]
  note rs = resize_root_rect [OF r]
  have ev: "\<exists>r'. find (\<lambda>c. c_id c = rootId) (gridCells s') = Some r' \<and> sameRect r' r"
    if st: "step s e = Some s'" and nr: "\<forall>a b. e \<noteq> Resize a b"
      and wi: "\<forall>c \<in> set (gridCells s). c_parentId c = Some rootId \<longrightarrow> cellWithin c r"
    for e s'
    using step_gridCells [OF st]
  proof (elim disjE exE conjE)
    assume "gridCells s' = gridCells s"
    then show ?thesis using r by (simp add: sameRect_def)
  next
    fix k sp w i1 i2
    assume "gridCells s' = splitGridCell (gridCells s) k sp w i1 i2"
    then show ?thesis using split_root_rect [OF r, of k sp w i1 i2] by simp
  next
    fix k assume "gridCells s' = mergeGridCells (gridCells s) k"
    then show ?thesis using merge_root_rect [OF rk r, of k] wi by auto
  next
    fix a b assume "e = Resize a b"
    then show ?thesis using nr by blast
  qed
  have ev': "\<forall>e s'. step s e = Some s' \<and> (\<forall>a b. e \<noteq> Resize a b)
                 \<and> (\<forall>c \<in> set (gridCells s). c_parentId c = Some rootId \<longrightarrow> cellWithin c r)
               \<longrightarrow> (\<exists>r'. find (\<lambda>c. c_id c = rootId) (gridCells s') = Some r' \<and> sameRect r' r)"
    using ev by blast
  show ?thesis
    by (rule exI [of _ r]) (intro conjI r sp mg rs ev')
qed

text \<open>
  In the state reached by \<open>dockRightEvents\<close> the root is 1200 by 800 and its children,
  cells 2 and 3, lie within it; after the merge of cell 3, and after the event that
  closes window 101, the root is still 1200 by 800; a resize to 800 by 600 makes the
  root 800 by 600.
\<close>

theorem root_kept_rectangle_by_resize_or_envelope_witness:
  "reachable 1200 800 dockedRightState
   \<and> map (\<lambda>c. (c_x c, c_y c, c_width c, c_height c))
       (filter (\<lambda>c. c_id c = rootId) (gridCells dockedRightState)) = [(0, 0, 1200, 800)]
   \<and> (\<exists>r'. find (\<lambda>c. c_id c = rootId) (mergeGridCells (gridCells dockedRightState) ''3'') = Some r'
          \<and> c_x r' = 0 \<and> c_y r' = 0 \<and> c_width r' = 1200 \<and> c_height r' = 800)
   \<and> (\<exists>s' r'. step dockedRightState (CloseWindow ''101'') = Some s'
          \<and> find (\<lambda>c. c_id c = rootId) (gridCells s') = Some r'
          \<and> c_x r' = 0 \<and> c_y r' = 0 \<and> c_width r' = 1200 \<and> c_height r' = 800)
   \<and> find (\<lambda>c. c_id c = rootId) (gridCells (handleResize dockedRightState 800 600))
       = Some \<lparr>c_id = ''root'', c_x = 0, c_y = 0, c_width = 800, c_height = 600,
               c_windowId = None, c_children = Some [''2'', ''3''], c_parentId = None\<rparr>"
proof -
  let ?r = "\<lparr>c_id = ''root'', c_x = 0, c_y = 0, c_width = 1200, c_height = 800,
       c_windowId = None, c_children = Some [''2'', ''3''], c_parentId = None\<rparr>"
  have fr: "find (\<lambda>c. c_id c = rootId) (gridCells dockedRightState) = Some ?r"
    by (simp add: dockedRightState_def dockedRightCells_def rootId_def)
  have wi: "\<forall>c \<in> set (gridCells dockedRightState). c_parentId c = Some rootId \<longrightarrow> cellWithin c ?r"
    by (simp add: dockedRightState_def dockedRightCells_def rootId_def cellWithin_def)
  have fl: "map (\<lambda>c. (c_x c, c_y c, c_width c, c_height c))
       (filter (\<lambda>c. c_id c = rootId) (gridCells dockedRightState)) = [(0, 0, 1200, 800)]"
    by (simp add: dockedRightState_def dockedRightCells_def rootId_def)
  from root_kept_rectangle_by_resize_or_envelope
         [OF reachable_dockedRight, where mergedId = "''3''" and vw' = 800 and vh' = 600]
  obtain r r' where r: "find (\<lambda>c. c_id c = rootId) (gridCells dockedRightState) = Some r"
    and m: "find (\<lambda>c. c_id c = rootId) (mergeGridCells (gridCells dockedRightState) ''3'') = Some r'"
    and i: "(\<forall>c \<in> set (gridCells dockedRightState). c_parentId c = Some rootId \<longrightarrow> cellWithin c r)
             \<longrightarrow> sameRect r' r"
    and rs: "find (\<lambda>c. c_id c = rootId) (gridCells (handleResize dockedRightState 800 600))
               = Some (r\<lparr>c_width := 800, c_height := 600\<rparr>)"
    and ev: "\<forall>e s'. step dockedRightState e = Some s' \<and> (\<forall>a b. e \<noteq> Resize a b)
                 \<and> (\<forall>c \<in> set (gridCells dockedRightState).
                        c_parentId c = Some rootId \<longrightarrow> cellWithin c r)
               \<longrightarrow> (\<exists>r'. find (\<lambda>c. c_id c = rootId) (gridCells s') = Some r' \<and> sameRect r' r)"
    by blast
  have req: "r = ?r"
    using r fr by simp
  have "sameRect r' ?r"
    using i wi req by simp
  then have a: "c_x r' = 0 \<and> c_y r' = 0 \<and> c_width r' = 1200 \<and> c_height r' = 800"
    by (simp add: sameRect_def)
  have st: "step dockedRightState (CloseWindow ''101'')
              = Some (closeWindow dockedRightState ''101'')"
    by simp
  have "\<exists>r'. find (\<lambda>c. c_id c = rootId) (gridCells (closeWindow dockedRightState ''101''))
               = Some r' \<and> sameRect r' ?r"
    using ev st wi req by blast
  then have b: "\<exists>s' r'. step dockedRightState (CloseWindow ''101'') = Some s'
          \<and> find (\<lambda>c. c_id c = rootId) (gridCells s') = Some r'
          \<and> c_x r' = 0 \<and> c_y r' = 0 \<and> c_width r' = 1200 \<and> c_height r' = 800"
    unfolding st by (auto simp: sameRect_def)
  have c: "find (\<lambda>c. c_id c = rootId) (gridCells (handleResize dockedRightState 800 600))
       = Some \<lparr>c_id = ''root'', c_x = 0, c_y = 0, c_width = 800, c_height = 600,
               c_windowId = None, c_children = Some [''2'', ''3''], c_parentId = None\<rparr>"
    using rs req by simp
  from reachable_dockedRight fl m a b c show ?thesis by blast
qed

text \<open>
  C9 as stated fails: after \<open>dockRightEvents\<close> the viewport shrinks to 800 by 600, and
  the resize handler makes the root 800 by 600 while cells 2 and 3 stay 800 high.
  Closing window 101 merges cell 3: the root becomes 800 by 800, the envelope of the
  root and cell 2, in a viewport of 800 by 600.  The merge has changed the root's
  rectangle.
\<close>

theorem merge_alters_root_counterexample:
  "reachable 1200 800 shrunkState
   \<and> innerWidth shrunkState = 800 \<and> innerHeight shrunkState = 600
   \<and> map (\<lambda>c. (c_x c, c_y c, c_width c, c_height c))
       (filter (\<lambda>c. c_id c = rootId) (gridCells shrunkState)) = [(0, 0, 800, 600)]
   \<and> map (\<lambda>c. (c_id c, c_x c, c_y c, c_width c, c_height c))
       (mergeGridCells (gridCells shrunkState) ''3'') = [(''root'', 0, 0, 800, 800)]
   \<and> step shrunkState (CloseWindow ''101'')
       = Some (shrunkState\<lparr>windows := [],
                 gridCells := [\<lparr>c_id = ''root'', c_x = 0, c_y = 0, c_width = 800, c_height = 800,
                                c_windowId = None, c_children = None, c_parentId = None\<rparr>]\<rparr>)"
proof -
  have "innerWidth shrunkState = 800 \<and> innerHeight shrunkState = 600
   \<and> map (\<lambda>c. (c_x c, c_y c, c_width c, c_height c))
       (filter (\<lambda>c. c_id c = rootId) (gridCells shrunkState)) = [(0, 0, 800, 600)]
   \<and> map (\<lambda>c. (c_id c, c_x c, c_y c, c_width c, c_height c))
       (mergeGridCells (gridCells shrunkState) ''3'') = [(''root'', 0, 0, 800, 800)]
   \<and> step shrunkState (CloseWindow ''101'')
       = Some (shrunkState\<lparr>windows := [],
                 gridCells := [\<lparr>c_id = ''root'', c_x = 0, c_y = 0, c_width = 800, c_height = 800,
                                c_windowId = None, c_children = None, c_parentId = None\<rparr>]\<rparr>)"
    by (simp add: shrunkState_def dockedRightState_def dockedRightCells_def rootId_def
        mergeGridCells_def closeWindow_def vacateCell_def)
  with reachable_shrunk show ?thesis by blast
qed

section \<open>Leaf occupants after a drag\<close>

lemma run_twoDockedEvents:
  "run (initialState 1200 800) twoDockedEvents = Some twoDockedState"
  unfolding twoDockedEvents_def run_append run_dockRightEvents
  by (simp add: twoDockedState_def twoDockedCells_def dockedRightState_def dockedRightCells_def
      model_defs)

lemma run_threeDockedEvents:
  "run (initialState 1200 800) threeDockedEvents = Some threeDockedState"
  unfolding threeDockedEvents_def run_append run_twoDockedEvents
  by (simp add: threeDockedState_def threeDockedCells_def twoDockedState_def twoDockedCells_def
      model_defs)

lemma reachable_twoDocked: "reachable 1200 800 twoDockedState"
proof (rule run_reachable [OF reachable_dockedRight])
  show "run dockedRightState
          [Resize 1200 1100,
           AddWindow ''102'' ''#bbbbbb'' \<lparr>p_x = 650, p_y = 500\<rparr>,
           DragStart 660 510 ''102'', Drag 700 790, DragEnd 700 790 ''4'' ''5'']
        = Some twoDockedState"
    using run_twoDockedEvents
    by (simp only: twoDockedEvents_def run_append run_dockRightEvents option.case)
  show "freshAlong dockedRightState
          [Resize 1200 1100,
           AddWindow ''102'' ''#bbbbbb'' \<lparr>p_x = 650, p_y = 500\<rparr>,
           DragStart 660 510 ''102'', Drag 700 790, DragEnd 700 790 ''4'' ''5'']"
    by (simp add: dockedRightState_def dockedRightCells_def freshIds_def model_defs)
qed

lemma reachable_threeDocked: "reachable 1200 800 threeDockedState"
proof (rule run_reachable [OF reachable_twoDocked])
  show "run twoDockedState
          [AddWindow ''103'' ''#cccccc'' \<lparr>p_x = 300, p_y = 450\<rparr>,
           DragStart 310 460 ''103'', Drag 620 500, DragEnd 620 500 ''6'' ''7'']
        = Some threeDockedState"
    using run_threeDockedEvents
    by (simp only: threeDockedEvents_def run_append run_twoDockedEvents option.case)
  show "freshAlong twoDockedState
          [AddWindow ''103'' ''#cccccc'' \<lparr>p_x = 300, p_y = 450\<rparr>,
           DragStart 310 460 ''103'', Drag 620 500, DragEnd 620 500 ''6'' ''7'']"
    by (simp add: twoDockedState_def twoDockedCells_def freshIds_def model_defs)
qed

text \<open>
  C1 fails on the code: the leaf occupants are not pairwise distinct in every reachable
  state.  When window 101, docked in cell 3, is dragged within its parent and dropped at
  the top edge of its own cell, the drag ends with a split of cell 3 whose new window
  and former occupant are both window 101; nothing vacates a cell at the end of a drag.
  Cells 4 and 5 are then two leaves with the occupant 101.
\<close>

theorem redock_duplicates_occupant:
  "\<exists>s. run (initialState 1200 800) redockEvents = Some s
       \<and> gridCells s = redockedCells
       \<and> leafOccupants (gridCells s) = [''101'', ''101'']
       \<and> \<not> distinct (leafOccupants (gridCells s))"
proof -
  have "run grabbedDockedState [Drag 1100 10, DragEnd 1100 10 ''4'' ''5'']
        = Some (dockedRightState\<lparr>
             windows := [\<lparr>w_id = ''101'', w_color = ''#aaaaaa'',
                          w_position = \<lparr>p_x = 600, p_y = 0\<rparr>,
                          w_size = \<lparr>s_width = 600, s_height = 400\<rparr>,
                          w_snapped = Some SnapTop, w_parentId = Some ''3'',
                          w_children = None\<rparr>],
             dragOffset := \<lparr>p_x = 500, p_y = 15\<rparr>,
             dragPos := \<lparr>p_x = 1100, p_y = 10\<rparr>,
             gridCells := redockedCells\<rparr>)"
    by (simp add: grabbedDockedState_def dockedRightState_def dockedRightCells_def
        redockedCells_def model_defs)
  then have "\<exists>s. run (initialState 1200 800) redockEvents = Some s \<and> gridCells s = redockedCells"
    unfolding redockEvents_def run_append run_grabDockedEvents by simp
  moreover have "leafOccupants redockedCells = [''101'', ''101'']"
    by (simp add: leafOccupants_def redockedCells_def childIds_def List.map_filter_def)
  ultimately show ?thesis by auto
qed

section \<open>A docked window dragged outside its parent region\<close>

lemma run_dragOutsideParentEvents:
  "run twoDockedState [DragStart 1100 15 ''101'', Drag 100 10] = Some draggedOutsideParentState"
  by (simp add: draggedOutsideParentState_def twoDockedState_def twoDockedCells_def model_defs)

lemma run_dragRehomedEvents:
  "run twoDockedState [CloseWindow ''102'', DragStart 1100 15 ''101'', Drag 1100 20]
     = Some draggedRehomedState"
  by (simp add: draggedRehomedState_def twoDockedState_def twoDockedCells_def model_defs)

lemma reachable_draggedOutsideParent: "reachable 1200 800 draggedOutsideParentState"
proof (rule run_reachable [OF reachable_twoDocked])
  show "run twoDockedState [DragStart 1100 15 ''101'', Drag 100 10]
          = Some draggedOutsideParentState"
    by (rule run_dragOutsideParentEvents)
  show "freshAlong twoDockedState [DragStart 1100 15 ''101'', Drag 100 10]"
    by (simp add: twoDockedState_def twoDockedCells_def freshIds_def model_defs)
qed

lemma reachable_draggedRehomed: "reachable 1200 800 draggedRehomedState"
proof (rule run_reachable [OF reachable_twoDocked])
  show "run twoDockedState [CloseWindow ''102'', DragStart 1100 15 ''101'', Drag 1100 20]
          = Some draggedRehomedState"
    by (rule run_dragRehomedEvents)
  show "freshAlong twoDockedState
          [CloseWindow ''102'', DragStart 1100 15 ''101'', Drag 1100 20]"
    by (simp add: twoDockedState_def twoDockedCells_def freshIds_def model_defs)
qed

text \<open>
  C7 fails on the code: the handlers take the parent region of the dragged window from
  its \<^verbatim>\<open>parentId\<close> field (lines 204, 221, 305, 345), and that field does not follow the
  tree.

  First, when window 102 was docked into the cell of window 101, the split moved 101
  into the new leaf 4 under cell 3, but the \<^verbatim>\<open>parentId\<close> of window 101 still names the
  root.  Dragged to (100,10), outside the rectangle of cell 3 (which begins at x = 600),
  window 101 gets the indicator top of cell 2, and the drop there commits the split of
  cell 2.

  Second, when window 102 is closed instead, window 101 holds the leaf 3, whose parent
  region is the root, but the re-homing has cleared its \<^verbatim>\<open>parentId\<close>.  Dragged to
  (1100,20), it gets the screen-edge indicator top, the screen-edge test at pointer-up
  holds, and the drop gives it the top half of the viewport while cell 3 still lists it.
\<close>

theorem docked_indicator_outside_parent_region:
  "(run (initialState 1200 800) dragOutsideParentEvents = Some draggedOutsideParentState
    \<and> reachable 1200 800 draggedOutsideParentState
    \<and> draggingId draggedOutsideParentState = Some ''101''
    \<and> leafOf (gridCells draggedOutsideParentState) ''101''
        = Some \<lparr>c_id = ''4'', c_x = 600, c_y = 0, c_width = 600, c_height = 400,
                c_windowId = Some ''101'', c_children = None, c_parentId = Some ''3''\<rparr>
    \<and> parentRegionOf (gridCells draggedOutsideParentState) ''101''
        = Some \<lparr>c_id = ''3'', c_x = 600, c_y = 0, c_width = 600, c_height = 800,
                c_windowId = None, c_children = Some [''4'', ''5''],
                c_parentId = Some ''root''\<rparr>
    \<and> dragPos draggedOutsideParentState = \<lparr>p_x = 100, p_y = 10\<rparr>
    \<and> \<not> pointInCell \<lparr>c_id = ''3'', c_x = 600, c_y = 0, c_width = 600, c_height = 800,
                       c_windowId = None, c_children = Some [''4'', ''5''],
                       c_parentId = Some ''root''\<rparr> 100 10
    \<and> snapIndicator draggedOutsideParentState = Some SnapTop
    \<and> (\<exists>s'. step draggedOutsideParentState (DragEnd 100 10 ''8'' ''9'') = Some s'
          \<and> gridCells s' = splitGridCell twoDockedCells ''2'' (Some SnapTop) ''101'' ''8'' ''9''
          \<and> find (\<lambda>c. c_id c = ''2'') (gridCells s')
              = Some \<lparr>c_id = ''2'', c_x = 0, c_y = 0, c_width = 600, c_height = 800,
                      c_windowId = None, c_children = Some [''8'', ''9''],
                      c_parentId = Some ''root''\<rparr>))
   \<and> (run (initialState 1200 800) dragRehomedEvents = Some draggedRehomedState
    \<and> reachable 1200 800 draggedRehomedState
    \<and> draggingId draggedRehomedState = Some ''101''
    \<and> leafOf (gridCells draggedRehomedState) ''101''
        = Some \<lparr>c_id = ''3'', c_x = 600, c_y = 0, c_width = 600, c_height = 800,
                c_windowId = Some ''101'', c_children = None, c_parentId = Some ''root''\<rparr>
    \<and> parentRegionOf (gridCells draggedRehomedState) ''101''
        = Some \<lparr>c_id = ''root'', c_x = 0, c_y = 0, c_width = 1200, c_height = 1100,
                c_windowId = None, c_children = Some [''2'', ''3''], c_parentId = None\<rparr>
    \<and> snapIndicator draggedRehomedState = Some SnapTop
    \<and> list_all (\<lambda>w. isScreenEdgeSnap w 1200 1100 (1100 - 500) (20 - 15))
         (windows draggedRehomedState)
    \<and> (\<exists>s'. step draggedRehomedState (DragEnd 1100 20 ''8'' ''9'') = Some s'
          \<and> gridCells s' = gridCells draggedRehomedState
          \<and> windows s'
              = [\<lparr>w_id = ''101'', w_color = ''#aaaaaa'',
                  w_position = \<lparr>p_x = 0, p_y = 0\<rparr>,
                  w_size = \<lparr>s_width = 1200, s_height = 550\<rparr>,
                  w_snapped = Some SnapTop, w_parentId = None, w_children = None\<rparr>]))"
proof -
  have a1: "run (initialState 1200 800) dragOutsideParentEvents = Some draggedOutsideParentState"
    unfolding dragOutsideParentEvents_def run_append run_twoDockedEvents
    using run_dragOutsideParentEvents by simp
  have a2: "draggingId draggedOutsideParentState = Some ''101''"
    and a3: "dragPos draggedOutsideParentState = \<lparr>p_x = 100, p_y = 10\<rparr>"
    and a4: "snapIndicator draggedOutsideParentState = Some SnapTop"
    by (simp_all add: draggedOutsideParentState_def)
  have a5: "leafOf (gridCells draggedOutsideParentState) ''101''
        = Some \<lparr>c_id = ''4'', c_x = 600, c_y = 0, c_width = 600, c_height = 400,
                c_windowId = Some ''101'', c_children = None, c_parentId = Some ''3''\<rparr>"
    by (simp add: leafOf_def childIds_def draggedOutsideParentState_def twoDockedCells_def)
  have a6: "parentRegionOf (gridCells draggedOutsideParentState) ''101''
        = Some \<lparr>c_id = ''3'', c_x = 600, c_y = 0, c_width = 600, c_height = 800,
                c_windowId = None, c_children = Some [''4'', ''5''],
                c_parentId = Some ''root''\<rparr>"
    unfolding parentRegionOf_def a5
    by (simp add: draggedOutsideParentState_def twoDockedCells_def)
  have a7: "\<not> pointInCell \<lparr>c_id = ''3'', c_x = 600, c_y = 0, c_width = 600, c_height = 800,
                       c_windowId = None, c_children = Some [''4'', ''5''],
                       c_parentId = Some ''root''\<rparr> 100 10"
    by (simp add: pointInCell_def)
  have a8: "gridCells (the (step draggedOutsideParentState (DragEnd 100 10 ''8'' ''9'')))
              = splitGridCell twoDockedCells ''2'' (Some SnapTop) ''101'' ''8'' ''9''
          \<and> step draggedOutsideParentState (DragEnd 100 10 ''8'' ''9'') \<noteq> None"
    by (simp add: draggedOutsideParentState_def twoDockedCells_def model_defs)
  have a9: "find (\<lambda>c. c_id c = ''2'')
               (splitGridCell twoDockedCells ''2'' (Some SnapTop) ''101'' ''8'' ''9'')
              = Some \<lparr>c_id = ''2'', c_x = 0, c_y = 0, c_width = 600, c_height = 800,
                      c_windowId = None, c_children = Some [''8'', ''9''],
                      c_parentId = Some ''root''\<rparr>"
    by (simp add: twoDockedCells_def splitGridCell_def)
  have a10: "\<exists>s'. step draggedOutsideParentState (DragEnd 100 10 ''8'' ''9'') = Some s'
          \<and> gridCells s' = splitGridCell twoDockedCells ''2'' (Some SnapTop) ''101'' ''8'' ''9''
          \<and> find (\<lambda>c. c_id c = ''2'') (gridCells s')
              = Some \<lparr>c_id = ''2'', c_x = 0, c_y = 0, c_width = 600, c_height = 800,
                      c_windowId = None, c_children = Some [''8'', ''9''],
                      c_parentId = Some ''root''\<rparr>"
    using a8 a9 by (cases "step draggedOutsideParentState (DragEnd 100 10 ''8'' ''9'')") simp_all
  have b1: "run (initialState 1200 800) dragRehomedEvents = Some draggedRehomedState"
    unfolding dragRehomedEvents_def run_append run_twoDockedEvents
    using run_dragRehomedEvents by simp
  have b2: "draggingId draggedRehomedState = Some ''101''"
    and b4: "snapIndicator draggedRehomedState = Some SnapTop"
    by (simp_all add: draggedRehomedState_def)
  have b5: "leafOf (gridCells draggedRehomedState) ''101''
        = Some \<lparr>c_id = ''3'', c_x = 600, c_y = 0, c_width = 600, c_height = 800,
                c_windowId = Some ''101'', c_children = None, c_parentId = Some ''root''\<rparr>"
    by (simp add: leafOf_def childIds_def draggedRehomedState_def)
  have b6: "parentRegionOf (gridCells draggedRehomedState) ''101''
        = Some \<lparr>c_id = ''root'', c_x = 0, c_y = 0, c_width = 1200, c_height = 1100,
                c_windowId = None, c_children = Some [''2'', ''3''], c_parentId = None\<rparr>"
    unfolding parentRegionOf_def b5
    by (simp add: draggedRehomedState_def)
  have b7: "list_all (\<lambda>w. isScreenEdgeSnap w 1200 1100 (1100 - 500) (20 - 15))
         (windows draggedRehomedState)"
    by (simp add: draggedRehomedState_def isScreenEdgeSnap_def isScreenEdgeSnapCandidate_def
        SNAP_THRESHOLD_def WINDOW_WIDTH_def WINDOW_HEIGHT_def)
  have b8: "step draggedRehomedState (DragEnd 1100 20 ''8'' ''9'')
      = Some (draggedRehomedState\<lparr>
          windows := [\<lparr>w_id = ''101'', w_color = ''#aaaaaa'',
                  w_position = \<lparr>p_x = 0, p_y = 0\<rparr>,
                  w_size = \<lparr>s_width = 1200, s_height = 550\<rparr>,
                  w_snapped = Some SnapTop, w_parentId = None, w_children = None\<rparr>],
          draggingId := None, snapIndicator := None\<rparr>)"
    by (simp add: draggedRehomedState_def model_defs)
  have b9: "\<exists>s'. step draggedRehomedState (DragEnd 1100 20 ''8'' ''9'') = Some s'
          \<and> gridCells s' = gridCells draggedRehomedState
          \<and> windows s'
              = [\<lparr>w_id = ''101'', w_color = ''#aaaaaa'',
                  w_position = \<lparr>p_x = 0, p_y = 0\<rparr>,
                  w_size = \<lparr>s_width = 1200, s_height = 550\<rparr>,
                  w_snapped = Some SnapTop, w_parentId = None, w_children = None\<rparr>]"
    unfolding b8 by simp
  show ?thesis
    using a1 reachable_draggedOutsideParent a2 a5 a6 a3 a7 a4 a10
      b1 reachable_draggedRehomed b2 b5 b6 b4 b7 b9
    by (intro conjI)
qed

section \<open>Closing a window\<close>

lemma vacateCell_absent:
  assumes "find (\<lambda>c. c_windowId c = Some ident) (gridCells s) = None"
  shows "vacateCell s ident = s"
  using assms by (simp add: vacateCell_def)

lemma vacateCell_found:
  assumes "find (\<lambda>c. c_windowId c = Some ident) (gridCells s) = Some cell"
  shows "gridCells (vacateCell s ident) = mergeGridCells (gridCells s) (c_id cell)"
    and "windows (vacateCell s ident) =
       (case find (\<lambda>c. truthy (c_windowId c) \<and> c_windowId c \<noteq> Some ident)
                  (mergeGridCells (gridCells s) (c_id cell)) of
          None \<Rightarrow> windows s
        | Some rc \<Rightarrow>
            map (\<lambda>w. if Some (w_id w) = c_windowId rc
                      then w\<lparr>w_position := \<lparr>p_x = c_x rc, p_y = c_y rc\<rparr>,
                             w_size := \<lparr>s_width = c_width rc, s_height = c_height rc\<rparr>,
                             w_snapped := None, w_parentId := None\<rparr>
                      else w) (windows s))"
  using assms by (simp_all add: vacateCell_def Let_def split: option.splits)

lemma filter_map_keeps_id:
  assumes "\<And>w. w_id (g w) = w_id w"
  shows "filter (\<lambda>w. w_id w \<noteq> ident) (map g ws) = map g (filter (\<lambda>w. w_id w \<noteq> ident) ws)"
  using assms by (induction ws) auto

text \<open>
  What \<^verbatim>\<open>closeWindow\<close> does.  A window that no cell lists as occupant is removed from
  the registry and nothing else changes.  For a window that a cell lists, the arena
  becomes the merge of the first such cell, and the window is removed from the registry.
  When no cell of the merged arena has another occupant, the other windows are
  unchanged.  Otherwise the windows of the occupant of the first cell of the merged
  arena that has another occupant, whichever cell that is, are given that cell's
  rectangle and their \<^verbatim>\<open>snapped\<close> and \<^verbatim>\<open>parentId\<close> fields are cleared, and all other windows
  are unchanged.  Where the merge takes place, the merged leaf holds the sibling's former
  occupant, has no children, and its rectangle is the envelope of the parent and the
  sibling.
\<close>

theorem closeWindow_merges_and_removes:
  "(find (\<lambda>c. c_windowId c = Some ident) (gridCells s) = None \<longrightarrow>
      closeWindow s ident = s\<lparr>windows := filter (\<lambda>w. w_id w \<noteq> ident) (windows s)\<rparr>)
   \<and> (\<forall>cell. find (\<lambda>c. c_windowId c = Some ident) (gridCells s) = Some cell \<longrightarrow>
        gridCells (closeWindow s ident) = mergeGridCells (gridCells s) (c_id cell)
      \<and> list_all (\<lambda>w. w_id w \<noteq> ident) (windows (closeWindow s ident))
      \<and> (find (\<lambda>c. truthy (c_windowId c) \<and> c_windowId c \<noteq> Some ident)
               (mergeGridCells (gridCells s) (c_id cell)) = None \<longrightarrow>
            windows (closeWindow s ident) = filter (\<lambda>w. w_id w \<noteq> ident) (windows s))
      \<and> (\<forall>rc. find (\<lambda>c. truthy (c_windowId c) \<and> c_windowId c \<noteq> Some ident)
                    (mergeGridCells (gridCells s) (c_id cell)) = Some rc \<longrightarrow>
            list_all2 (\<lambda>w w'. if Some (w_id w) = c_windowId rc
                               then w' = w\<lparr>w_position := \<lparr>p_x = c_x rc, p_y = c_y rc\<rparr>,
                                           w_size := \<lparr>s_width = c_width rc, s_height = c_height rc\<rparr>,
                                           w_snapped := None, w_parentId := None\<rparr>
                               else w' = w)
              (filter (\<lambda>w. w_id w \<noteq> ident) (windows s)) (windows (closeWindow s ident)))
      \<and> (\<forall>par sib rc. find (\<lambda>c. c_id c = c_id cell) (gridCells s) = Some cell
                \<and> truthy (c_parentId cell)
                \<and> find (\<lambda>c. Some (c_id c) = c_parentId cell) (gridCells s) = Some par
                \<and> find (\<lambda>c. c_parentId c = c_parentId cell \<and> c_id c \<noteq> c_id cell) (gridCells s)
                    = Some sib
                \<and> rc \<in> set (gridCells (closeWindow s ident))
                \<and> Some (c_id rc) = c_parentId cell \<longrightarrow>
            c_windowId rc = c_windowId sib \<and> c_children rc = None
          \<and> c_x rc = min (c_x par) (c_x sib) \<and> c_y rc = min (c_y par) (c_y sib)
          \<and> c_width rc = max (c_x par + c_width par) (c_x sib + c_width sib)
                           - min (c_x par) (c_x sib)
          \<and> c_height rc = max (c_y par + c_height par) (c_y sib + c_height sib)
                            - min (c_y par) (c_y sib)))
   \<and> draggingId (closeWindow s ident) = draggingId s
   \<and> snapIndicator (closeWindow s ident) = snapIndicator s"
proof -
  have a: "closeWindow s ident = s\<lparr>windows := filter (\<lambda>w. w_id w \<noteq> ident) (windows s)\<rparr>"
    if "find (\<lambda>c. c_windowId c = Some ident) (gridCells s) = None"
    using vacateCell_absent [OF that] by (simp add: closeWindow_def)
  have b: "gridCells (closeWindow s ident) = mergeGridCells (gridCells s) (c_id cell)"
    if "find (\<lambda>c. c_windowId c = Some ident) (gridCells s) = Some cell" for cell
    using vacateCell_found(1) [OF that] by (simp add: closeWindow_def Let_def)
  have c: "list_all (\<lambda>w. w_id w \<noteq> ident) (windows (closeWindow s ident))"
    by (simp add: closeWindow_def Let_def list_all_iff)
  have d: "windows (closeWindow s ident) = filter (\<lambda>w. w_id w \<noteq> ident) (windows s)"
    if "find (\<lambda>c. c_windowId c = Some ident) (gridCells s) = Some cell"
      and "find (\<lambda>c. truthy (c_windowId c) \<and> c_windowId c \<noteq> Some ident)
               (mergeGridCells (gridCells s) (c_id cell)) = None" for cell
    using vacateCell_found(2) [OF that(1)] that(2) by (simp add: closeWindow_def Let_def)
  have e: "list_all2 (\<lambda>w w'. if Some (w_id w) = c_windowId rc
                               then w' = w\<lparr>w_position := \<lparr>p_x = c_x rc, p_y = c_y rc\<rparr>,
                                           w_size := \<lparr>s_width = c_width rc, s_height = c_height rc\<rparr>,
                                           w_snapped := None, w_parentId := None\<rparr>
                               else w' = w)
              (filter (\<lambda>w. w_id w \<noteq> ident) (windows s)) (windows (closeWindow s ident))"
    if f1: "find (\<lambda>c. c_windowId c = Some ident) (gridCells s) = Some cell"
      and f2: "find (\<lambda>c. truthy (c_windowId c) \<and> c_windowId c \<noteq> Some ident)
               (mergeGridCells (gridCells s) (c_id cell)) = Some rc" for cell rc
  proof -
    define g :: "WindowData \<Rightarrow> WindowData" where "g = (\<lambda>w. if Some (w_id w) = c_windowId rc
                      then w\<lparr>w_position := \<lparr>p_x = c_x rc, p_y = c_y rc\<rparr>,
                             w_size := \<lparr>s_width = c_width rc, s_height = c_height rc\<rparr>,
                             w_snapped := None, w_parentId := None\<rparr>
                      else w)"
    have gid: "w_id (g w) = w_id w" for w by (simp add: g_def)
    have "windows (vacateCell s ident) = map g (windows s)"
      using vacateCell_found(2) [OF f1] f2 by (simp add: g_def)
    then have "windows (closeWindow s ident)
               = map g (filter (\<lambda>w. w_id w \<noteq> ident) (windows s))"
      using filter_map_keeps_id [of g ident "windows s"] gid
      by (simp add: closeWindow_def Let_def)
    moreover have "list_all2 (\<lambda>w w'. if Some (w_id w) = c_windowId rc
                               then w' = w\<lparr>w_position := \<lparr>p_x = c_x rc, p_y = c_y rc\<rparr>,
                                           w_size := \<lparr>s_width = c_width rc, s_height = c_height rc\<rparr>,
                                           w_snapped := None, w_parentId := None\<rparr>
                               else w' = w)
              (filter (\<lambda>w. w_id w \<noteq> ident) (windows s))
              (map g (filter (\<lambda>w. w_id w \<noteq> ident) (windows s)))"
      by (rule list_all2_map_same) (simp add: g_def)
    ultimately show ?thesis by simp
  qed
  have f: "c_windowId rc = c_windowId sib \<and> c_children rc = None
          \<and> c_x rc = min (c_x par) (c_x sib) \<and> c_y rc = min (c_y par) (c_y sib)
          \<and> c_width rc = max (c_x par + c_width par) (c_x sib + c_width sib)
                           - min (c_x par) (c_x sib)
          \<and> c_height rc = max (c_y par + c_height par) (c_y sib + c_height sib)
                            - min (c_y par) (c_y sib)"
    if f1: "find (\<lambda>c. c_windowId c = Some ident) (gridCells s) = Some cell"
      and fc: "find (\<lambda>c. c_id c = c_id cell) (gridCells s) = Some cell"
      and t: "truthy (c_parentId cell)"
      and fp: "find (\<lambda>c. Some (c_id c) = c_parentId cell) (gridCells s) = Some par"
      and fs: "find (\<lambda>c. c_parentId c = c_parentId cell \<and> c_id c \<noteq> c_id cell) (gridCells s)
                    = Some sib"
      and m: "rc \<in> set (gridCells (closeWindow s ident))"
      and i: "Some (c_id rc) = c_parentId cell" for cell par sib rc
  proof -
    define up where "up = par\<lparr>c_x := min (c_x par) (c_x sib),
                        c_y := min (c_y par) (c_y sib),
                        c_width := max (c_x par + c_width par) (c_x sib + c_width sib)
                                   - min (c_x par) (c_x sib),
                        c_height := max (c_y par + c_height par) (c_y sib + c_height sib)
                                    - min (c_y par) (c_y sib),
                        c_windowId := c_windowId sib,
                        c_children := None\<rparr>"
    define h :: "GridCell \<Rightarrow> GridCell"
      where "h = (\<lambda>c. if Some (c_id c) = c_parentId cell then up else c)"
    have "gridCells (closeWindow s ident)
            = map h (filter (\<lambda>c. c_id c \<noteq> c_id cell \<and> c_id c \<noteq> c_id sib) (gridCells s))"
      unfolding b [OF f1] mergeGridCells_found [OF fc t fp fs] h_def up_def ..
    with m obtain c0 where c0: "rc = h c0"
      by auto
    have "rc = up"
    proof (cases "Some (c_id c0) = c_parentId cell")
      case True
      then show ?thesis using c0 by (simp add: h_def)
    next
      case False
      then have "rc = c0" using c0 by (simp add: h_def)
      with False i show ?thesis by simp
    qed
    then show ?thesis by (simp add: up_def)
  qed
  have g: "draggingId (closeWindow s ident) = draggingId s
         \<and> snapIndicator (closeWindow s ident) = snapIndicator s"
    by (simp add: closeWindow_def vacateCell_def Let_def split: option.splits)
  show ?thesis
    using a b c d e f g by blast
qed


text \<open>
  Windows 101 and 102 share cell 3 (cells 4 and 5).  Closing 101 merges cell 4: cell 3
  is a leaf again and holds 102, and window 102 is given the rectangle of cell 3, with
  \<^verbatim>\<open>snapped\<close> and \<^verbatim>\<open>parentId\<close> cleared.  The new window 101 of
  \<open>grabbedNewWindowState\<close> is listed by no cell: closing it empties the registry and
  changes nothing else.
\<close>

theorem closeWindow_merges_and_removes_witness:
  "find (\<lambda>c. c_windowId c = Some ''101'') (gridCells twoDockedState)
     = Some \<lparr>c_id = ''4'', c_x = 600, c_y = 0, c_width = 600, c_height = 400,
             c_windowId = Some ''101'', c_children = None, c_parentId = Some ''3''\<rparr>
   \<and> gridCells (closeWindow twoDockedState ''101'')
     = [\<lparr>c_id = ''root'', c_x = 0, c_y = 0, c_width = 1200, c_height = 1100,
         c_windowId = None, c_children = Some [''2'', ''3''], c_parentId = None\<rparr>,
        \<lparr>c_id = ''2'', c_x = 0, c_y = 0, c_width = 600, c_height = 800,
         c_windowId = None, c_children = None, c_parentId = Some ''root''\<rparr>,
        \<lparr>c_id = ''3'', c_x = 600, c_y = 0, c_width = 600, c_height = 800,
         c_windowId = Some ''102'', c_children = None, c_parentId = Some ''root''\<rparr>]
   \<and> windows (closeWindow twoDockedState ''101'')
     = [\<lparr>w_id = ''102'', w_color = ''#bbbbbb'',
         w_position = \<lparr>p_x = 600, p_y = 0\<rparr>,
         w_size = \<lparr>s_width = 600, s_height = 800\<rparr>,
         w_snapped = None, w_parentId = None, w_children = None\<rparr>]
   \<and> find (\<lambda>c. c_windowId c = Some ''101'') (gridCells grabbedNewWindowState) = None
   \<and> closeWindow grabbedNewWindowState ''101'' = grabbedNewWindowState\<lparr>windows := []\<rparr>"
proof -
  let ?cell = "\<lparr>c_id = ''4'', c_x = 600, c_y = 0, c_width = 600, c_height = 400,
             c_windowId = Some ''101'', c_children = None, c_parentId = Some ''3''\<rparr>"
  let ?rc = "\<lparr>c_id = ''3'', c_x = 600, c_y = 0, c_width = 600, c_height = 800,
         c_windowId = Some ''102'', c_children = None, c_parentId = Some ''root''\<rparr>"
  let ?merged = "[\<lparr>c_id = ''root'', c_x = 0, c_y = 0, c_width = 1200, c_height = 1100,
         c_windowId = None, c_children = Some [''2'', ''3''], c_parentId = None\<rparr>,
        \<lparr>c_id = ''2'', c_x = 0, c_y = 0, c_width = 600, c_height = 800,
         c_windowId = None, c_children = None, c_parentId = Some ''root''\<rparr>,
        ?rc]"
  have h1: "find (\<lambda>c. c_windowId c = Some ''101'') (gridCells twoDockedState) = Some ?cell"
    by (simp add: twoDockedState_def twoDockedCells_def)
  have mg: "mergeGridCells (gridCells twoDockedState) (c_id ?cell) = ?merged"
    by (simp add: twoDockedState_def twoDockedCells_def mergeGridCells_def)
  have h2: "find (\<lambda>c. truthy (c_windowId c) \<and> c_windowId c \<noteq> Some ''101'')
              (mergeGridCells (gridCells twoDockedState) (c_id ?cell)) = Some ?rc"
    unfolding mg by simp
  have fl: "filter (\<lambda>w. w_id w \<noteq> ''101'') (windows twoDockedState)
       = [\<lparr>w_id = ''102'', w_color = ''#bbbbbb'',
          w_position = \<lparr>p_x = 600, p_y = 400\<rparr>,
          w_size = \<lparr>s_width = 600, s_height = 400\<rparr>,
          w_snapped = Some SnapBottom, w_parentId = Some ''3'', w_children = None\<rparr>]"
    by (simp add: twoDockedState_def)
  from closeWindow_merges_and_removes [of "''101''" twoDockedState] h1 h2
  have g: "gridCells (closeWindow twoDockedState ''101'')
             = mergeGridCells (gridCells twoDockedState) (c_id ?cell)"
    and w: "list_all2 (\<lambda>w w'. if Some (w_id w) = c_windowId ?rc
                               then w' = w\<lparr>w_position := \<lparr>p_x = c_x ?rc, p_y = c_y ?rc\<rparr>,
                                           w_size := \<lparr>s_width = c_width ?rc, s_height = c_height ?rc\<rparr>,
                                           w_snapped := None, w_parentId := None\<rparr>
                               else w' = w)
              (filter (\<lambda>w. w_id w \<noteq> ''101'') (windows twoDockedState))
              (windows (closeWindow twoDockedState ''101''))"
    by blast+
  have "windows (closeWindow twoDockedState ''101'')
     = [\<lparr>w_id = ''102'', w_color = ''#bbbbbb'',
         w_position = \<lparr>p_x = 600, p_y = 0\<rparr>,
         w_size = \<lparr>s_width = 600, s_height = 800\<rparr>,
         w_snapped = None, w_parentId = None, w_children = None\<rparr>]"
    using w unfolding fl by (auto simp: list_all2_Cons1)
  note docked = this
  have n1: "find (\<lambda>c. c_windowId c = Some ''101'') (gridCells grabbedNewWindowState) = None"
    by (simp add: grabbedNewWindowState_def initialState_def)
  from closeWindow_merges_and_removes [of "''101''" grabbedNewWindowState] n1
  have "closeWindow grabbedNewWindowState ''101''
          = grabbedNewWindowState\<lparr>windows := filter (\<lambda>w. w_id w \<noteq> ''101'')
                                               (windows grabbedNewWindowState)\<rparr>"
    by blast
  then have n2: "closeWindow grabbedNewWindowState ''101'' = grabbedNewWindowState\<lparr>windows := []\<rparr>"
    by (simp add: grabbedNewWindowState_def)
  from h1 g mg docked n1 n2 show ?thesis by simp
qed

text \<open>
  C4 fails on the code: closing a docked window does not re-home the occupant of the
  surviving sibling.  Window 101 holds cell 4, and windows 103 and 102 hold cells 6 and
  7, the children of cell 5.  Closing 102 merges cell 7: cell 5 becomes a leaf of 600 by
  400 that holds 103, the sibling's occupant.  But window 103 keeps its size of 300 by
  400 and its parentId 5: the window that is moved is 101, the occupant of the first
  occupied cell of the arena, which was no part of the merge and loses its \<^verbatim>\<open>snapped\<close>
  and \<^verbatim>\<open>parentId\<close> fields.  The search for the window to move (line 412) runs over the
  whole arena; it finds the merged leaf only when no earlier cell has an occupant.
\<close>

theorem closeWindow_leaves_sibling_occupant:
  "reachable 1200 800 threeDockedState
   \<and> find (\<lambda>c. c_windowId c = Some ''102'') (gridCells threeDockedState)
     = Some \<lparr>c_id = ''7'', c_x = 900, c_y = 400, c_width = 300, c_height = 400,
             c_windowId = Some ''102'', c_children = None, c_parentId = Some ''5''\<rparr>
   \<and> find (\<lambda>c. c_parentId c = Some ''5'' \<and> c_id c \<noteq> ''7'') (gridCells threeDockedState)
     = Some \<lparr>c_id = ''6'', c_x = 600, c_y = 400, c_width = 300, c_height = 400,
             c_windowId = Some ''103'', c_children = None, c_parentId = Some ''5''\<rparr>
   \<and> gridCells (closeWindow threeDockedState ''102'')
     = [\<lparr>c_id = ''root'', c_x = 0, c_y = 0, c_width = 1200, c_height = 1100,
         c_windowId = None, c_children = Some [''2'', ''3''], c_parentId = None\<rparr>,
        \<lparr>c_id = ''2'', c_x = 0, c_y = 0, c_width = 600, c_height = 800,
         c_windowId = None, c_children = None, c_parentId = Some ''root''\<rparr>,
        \<lparr>c_id = ''3'', c_x = 600, c_y = 0, c_width = 600, c_height = 800,
         c_windowId = None, c_children = Some [''4'', ''5''], c_parentId = Some ''root''\<rparr>,
        \<lparr>c_id = ''4'', c_x = 600, c_y = 0, c_width = 600, c_height = 400,
         c_windowId = Some ''101'', c_children = None, c_parentId = Some ''3''\<rparr>,
        \<lparr>c_id = ''5'', c_x = 600, c_y = 400, c_width = 600, c_height = 400,
         c_windowId = Some ''103'', c_children = None, c_parentId = Some ''3''\<rparr>]
   \<and> windows (closeWindow threeDockedState ''102'')
     = [\<lparr>w_id = ''101'', w_color = ''#aaaaaa'',
         w_position = \<lparr>p_x = 600, p_y = 0\<rparr>,
         w_size = \<lparr>s_width = 600, s_height = 400\<rparr>,
         w_snapped = None, w_parentId = None, w_children = None\<rparr>,
        \<lparr>w_id = ''103'', w_color = ''#cccccc'',
         w_position = \<lparr>p_x = 600, p_y = 400\<rparr>,
         w_size = \<lparr>s_width = 300, s_height = 400\<rparr>,
         w_snapped = Some SnapLeft, w_parentId = Some ''5'', w_children = None\<rparr>]"
proof -
  have "find (\<lambda>c. c_windowId c = Some ''102'') (gridCells threeDockedState)
     = Some \<lparr>c_id = ''7'', c_x = 900, c_y = 400, c_width = 300, c_height = 400,
             c_windowId = Some ''102'', c_children = None, c_parentId = Some ''5''\<rparr>"
    and "find (\<lambda>c. c_parentId c = Some ''5'' \<and> c_id c \<noteq> ''7'') (gridCells threeDockedState)
     = Some \<lparr>c_id = ''6'', c_x = 600, c_y = 400, c_width = 300, c_height = 400,
             c_windowId = Some ''103'', c_children = None, c_parentId = Some ''5''\<rparr>"
    by (simp_all add: threeDockedState_def threeDockedCells_def)
  moreover have "gridCells (closeWindow threeDockedState ''102'')
     = [\<lparr>c_id = ''root'', c_x = 0, c_y = 0, c_width = 1200, c_height = 1100,
         c_windowId = None, c_children = Some [''2'', ''3''], c_parentId = None\<rparr>,
        \<lparr>c_id = ''2'', c_x = 0, c_y = 0, c_width = 600, c_height = 800,
         c_windowId = None, c_children = None, c_parentId = Some ''root''\<rparr>,
        \<lparr>c_id = ''3'', c_x = 600, c_y = 0, c_width = 600, c_height = 800,
         c_windowId = None, c_children = Some [''4'', ''5''], c_parentId = Some ''root''\<rparr>,
        \<lparr>c_id = ''4'', c_x = 600, c_y = 0, c_width = 600, c_height = 400,
         c_windowId = Some ''101'', c_children = None, c_parentId = Some ''3''\<rparr>,
        \<lparr>c_id = ''5'', c_x = 600, c_y = 400, c_width = 600, c_height = 400,
         c_windowId = Some ''103'', c_children = None, c_parentId = Some ''3''\<rparr>]"
    by (simp add: threeDockedState_def threeDockedCells_def closeWindow_def vacateCell_def
        mergeGridCells_def)
  moreover have "windows (closeWindow threeDockedState ''102'')
     = [\<lparr>w_id = ''101'', w_color = ''#aaaaaa'',
         w_position = \<lparr>p_x = 600, p_y = 0\<rparr>,
         w_size = \<lparr>s_width = 600, s_height = 400\<rparr>,
         w_snapped = None, w_parentId = None, w_children = None\<rparr>,
        \<lparr>w_id = ''103'', w_color = ''#cccccc'',
         w_position = \<lparr>p_x = 600, p_y = 400\<rparr>,
         w_size = \<lparr>s_width = 300, s_height = 400\<rparr>,
         w_snapped = Some SnapLeft, w_parentId = Some ''5'', w_children = None\<rparr>]"
    by (simp add: threeDockedState_def threeDockedCells_def closeWindow_def vacateCell_def
        mergeGridCells_def)
  ultimately show ?thesis
    using reachable_threeDocked by simp
qed

section \<open>Every handler returns in a reachable state\<close>

text \<open>
  The arenas the program builds name children only by ids that come later in the
  arena: a split appends two childless cells under new ids, a merge removes cells
  and the child list of their parent, a resize changes only sizes.  Such an arena
  is acyclic, so the descent of \<^verbatim>\<open>findGridCell\<close> returns in it.
\<close>

lemma posRank_Cons:
  "posRank (h # t) k = (if c_id h = k then Suc (length t) else posRank t k)"
  by (simp add: posRank_def)

lemma posRank_le: "posRank cells k \<le> length cells"
  unfolding posRank_def by (rule length_dropWhile_le)

lemma forwardOnly_posRank:
  assumes "forwardOnly cells" and "c \<in> set cells" and "k \<in> set (childIds c)"
  shows "posRank cells k < posRank cells (c_id c)"
  using assms
proof (induction cells)
  case Nil
  then show ?case by simp
next
  case (Cons h t)
  from Cons.prems(1,2,3) have kh: "c_id h \<noteq> k"
    by (auto simp: list_all_iff)
  show ?case
  proof (cases "c_id h = c_id c")
    case True
    then show ?thesis
      using kh posRank_le [of t k] by (simp add: posRank_Cons)
  next
    case False
    then have "c \<in> set t" using Cons.prems(2) by auto
    then have "posRank t k < posRank t (c_id c)"
      using Cons.IH Cons.prems(1,3) by simp
    then show ?thesis
      using kh False by (simp add: posRank_Cons)
  qed
qed

lemma forwardOnly_acyclic:
  assumes "forwardOnly cells"
  shows "acyclicCells cells"
  by (rule acyclicCells_ranked [where f = "posRank cells"]) (rule forwardOnly_posRank [OF assms])

lemma forwardOnly_map:
  assumes "\<And>c. c_id (g c) = c_id c" and "\<And>c. set (childIds (g c)) \<subseteq> set (childIds c)"
    and "forwardOnly cells"
  shows "forwardOnly (map g cells)"
  using assms(3)
proof (induction cells)
  case Nil
  then show ?case by simp
next
  case (Cons h t)
  have "c_id h \<notin> set (childIds (g d))" if "d \<in> set (h # t)" for d
    using Cons.prems that assms(2) [of d] by (auto simp: list_all_iff)
  then show ?case
    using Cons assms(1) by (simp add: list_all_iff)
qed

lemma forwardOnly_filter:
  assumes "forwardOnly cells"
  shows "forwardOnly (filter q cells)"
  using assms
proof (induction cells)
  case Nil
  then show ?case by simp
next
  case (Cons h t)
  then show ?case by (auto simp: list_all_iff)
qed

lemma forwardOnly_append_leaves:
  assumes ids: "\<And>c. c_id (f c) = c_id c"
    and kids: "\<And>c. set (childIds (f c)) \<subseteq> set (childIds c) \<union> {c_id a, c_id b}"
    and la: "childIds a = []" and lb: "childIds b = []"
    and fa: "c_id a \<notin> c_id ` set cells" and fb: "c_id b \<notin> c_id ` set cells"
    and fo: "forwardOnly cells"
  shows "forwardOnly (map f cells @ [a, b])"
  using fa fb fo
proof (induction cells)
  case Nil
  then show ?case using la lb by simp
next
  case (Cons h t)
  have hn: "c_id h \<noteq> c_id a" "c_id h \<noteq> c_id b"
    using Cons.prems(1,2) by auto
  have "c_id h \<notin> set (childIds (f d))" if "d \<in> set (h # t)" for d
  proof -
    have "c_id h \<notin> set (childIds d)"
      using Cons.prems(3) that by (auto simp: list_all_iff)
    then show ?thesis
      using kids [of d] hn by auto
  qed
  moreover have "forwardOnly (map f t @ [a, b])"
    using Cons by simp
  ultimately show ?case
    using ids la lb by (simp add: list_all_iff)
qed

lemma splitGridCell_leaves:
  assumes "find (\<lambda>c. c_id c = k) cells = Some cell"
  shows "\<exists>a b. splitGridCell cells k sp w newId1 newId2
        = map (\<lambda>c. if c_id c = k
                    then cell\<lparr>c_windowId := None, c_children := Some [newId1, newId2]\<rparr>
                    else c) cells @ [a, b]
      \<and> c_id a = newId1 \<and> c_id b = newId2 \<and> c_children a = None \<and> c_children b = None"
  using assms
  by (cases "sp = Some SnapLeft \<or> sp = Some SnapRight")
     (simp_all add: splitGridCell_def Let_def cong: if_cong)

lemma forwardOnly_split:
  assumes "forwardOnly cells"
    and "newId1 \<notin> c_id ` set cells" and "newId2 \<notin> c_id ` set cells"
  shows "forwardOnly (splitGridCell cells k sp w newId1 newId2)"
proof (cases "find (\<lambda>c. c_id c = k) cells")
  case None
  then show ?thesis using assms(1) by (simp add: splitGridCell_def)
next
  case (Some cell)
  then have cell: "c_id cell = k"
    using find_Some_id by blast
  define f :: "GridCell \<Rightarrow> GridCell"
    where "f = (\<lambda>c. if c_id c = k
                    then cell\<lparr>c_windowId := None, c_children := Some [newId1, newId2]\<rparr>
                    else c)"
  from splitGridCell_leaves [OF Some, of sp w newId1 newId2]
  obtain a b where sp: "splitGridCell cells k sp w newId1 newId2 = map f cells @ [a, b]"
    and ab: "c_id a = newId1" "c_id b = newId2" "c_children a = None" "c_children b = None"
    unfolding f_def by blast
  have "forwardOnly (map f cells @ [a, b])"
  proof (rule forwardOnly_append_leaves)
    show "c_id (f c) = c_id c" for c
      using cell by (simp add: f_def)
    show "set (childIds (f c)) \<subseteq> set (childIds c) \<union> {c_id a, c_id b}" for c
      using ab by (auto simp: f_def childIds_def)
    show "childIds a = []" "childIds b = []"
      using ab by (simp_all add: childIds_def)
    show "c_id a \<notin> c_id ` set cells" "c_id b \<notin> c_id ` set cells"
      using ab assms(2,3) by simp_all
    show "forwardOnly cells" by (rule assms(1))
  qed
  then show ?thesis by (simp add: sp)
qed

lemma forwardOnly_merge:
  assumes "forwardOnly cells"
  shows "forwardOnly (mergeGridCells cells k)"
  using mergeGridCells_cases [of cells k]
proof (elim disjE exE conjE)
  assume "mergeGridCells cells k = cells"
  then show ?thesis using assms by simp
next
  fix leaf par sib p
  assume fp: "find (\<lambda>c. c_id c = p) cells = Some par"
  define up where "up = par\<lparr>c_x := min (c_x par) (c_x sib),
                        c_y := min (c_y par) (c_y sib),
                        c_width := max (c_x par + c_width par) (c_x sib + c_width sib)
                                   - min (c_x par) (c_x sib),
                        c_height := max (c_y par + c_height par) (c_y sib + c_height sib)
                                    - min (c_y par) (c_y sib),
                        c_windowId := c_windowId sib,
                        c_children := None\<rparr>"
  define g :: "GridCell \<Rightarrow> GridCell" where "g = (\<lambda>c. if c_id c = p then up else c)"
  assume "mergeGridCells cells k =
           map (\<lambda>c. if c_id c = p
               then par\<lparr>c_x := min (c_x par) (c_x sib),
                        c_y := min (c_y par) (c_y sib),
                        c_width := max (c_x par + c_width par) (c_x sib + c_width sib)
                                   - min (c_x par) (c_x sib),
                        c_height := max (c_y par + c_height par) (c_y sib + c_height sib)
                                    - min (c_y par) (c_y sib),
                        c_windowId := c_windowId sib,
                        c_children := None\<rparr>
               else c)
             (filter (\<lambda>c. c_id c \<noteq> k \<and> c_id c \<noteq> c_id sib) cells)"
  then have m: "mergeGridCells cells k
                  = map g (filter (\<lambda>c. c_id c \<noteq> k \<and> c_id c \<noteq> c_id sib) cells)"
    by (simp add: g_def up_def)
  have pid: "c_id par = p"
    using find_Some_id [OF fp] by simp
  show ?thesis
    unfolding m
  proof (rule forwardOnly_map)
    show "c_id (g c) = c_id c" for c
      using pid by (simp add: g_def up_def)
    show "set (childIds (g c)) \<subseteq> set (childIds c)" for c
      by (simp add: g_def up_def childIds_def)
    show "forwardOnly (filter (\<lambda>c. c_id c \<noteq> k \<and> c_id c \<noteq> c_id sib) cells)"
      using assms by (rule forwardOnly_filter)
  qed
qed

lemma forwardOnly_resize:
  assumes "forwardOnly (gridCells s)"
  shows "forwardOnly (gridCells (handleResize s vw vh))"
proof -
  define h :: "GridCell \<Rightarrow> GridCell"
    where "h = (\<lambda>cell. if c_id cell = rootId
                       then cell\<lparr>c_width := vw, c_height := vh\<rparr> else cell)"
  have g: "gridCells (handleResize s vw vh) = map h (gridCells s)"
    by (simp add: handleResize_def h_def)
  show ?thesis
    unfolding g
    by (rule forwardOnly_map [OF _ _ assms]) (simp_all add: h_def childIds_def)
qed

lemma reachable_forwardOnly:
  assumes "reachable vw vh s"
  shows "forwardOnly (gridCells s)"
  using assms
proof (induction rule: reachable.induct)
  case reachable_initial
  show ?case by (simp add: initialState_def childIds_def)
next
  case (reachable_step s e s')
  from step_gridCells [OF reachable_step.hyps(3)]
  show ?case
  proof (elim disjE exE conjE)
    assume "gridCells s' = gridCells s"
    then show ?thesis using reachable_step.IH by simp
  next
    fix k sp w i1 i2
    assume n: "newCellIds e = [i1, i2]"
      and g: "gridCells s' = splitGridCell (gridCells s) k sp w i1 i2"
    have "i1 \<notin> c_id ` set (gridCells s)" "i2 \<notin> c_id ` set (gridCells s)"
      using reachable_step.hyps(2) n by (simp_all add: freshIds_def)
    then show ?thesis
      unfolding g by (intro forwardOnly_split reachable_step.IH)
  next
    fix k assume "gridCells s' = mergeGridCells (gridCells s) k"
    then show ?thesis using forwardOnly_merge [OF reachable_step.IH] by simp
  next
    fix vw' vh' assume "gridCells s' = gridCells (handleResize s vw' vh')"
    then show ?thesis using forwardOnly_resize [OF reachable_step.IH] by simp
  qed
qed

lemma step_returns:
  assumes "acyclicCells (gridCells s)"
  shows "\<exists>s'. step s e = Some s'"
proof (cases e)
  case (Drag x y)
  from dragIndicator_returns [OF assms]
  have "\<exists>s'. onDrag s x y = Some s'"
    by (auto simp: onDrag_def split: option.splits) (metis option.distinct(1))
  then show ?thesis using Drag by simp
next
  case (DragEnd x y i1 i2)
  from findGridCell_returns [OF assms, of x y]
  have "\<exists>t. treeDock s d win edge x y i1 i2 = Some t" for d win edge
    by (auto simp: treeDock_def Let_def split: option.splits)
  then have "\<exists>s'. onDragEnd s x y i1 i2 = Some s'"
    by (auto simp: onDragEnd_def Let_def split: option.splits)
  then show ?thesis using DragEnd by simp
qed simp_all

text \<open>
  In every state the program reaches from its initial state (the cell ids that
  \<^verbatim>\<open>generateId()\<close> gives being new), the arena is acyclic, \<^verbatim>\<open>findGridCell\<close>
  returns at every point, and every event returns a state, which is reachable
  again when the ids the event brings are new.
\<close>

theorem reachable_events_return:
  assumes "reachable vw vh s"
  shows "acyclicCells (gridCells s)
       \<and> (\<exists>r. findGridCell (gridCells s) x y = Some r)
       \<and> (\<exists>s'. step s e = Some s' \<and> (freshIds s e \<longrightarrow> reachable vw vh s'))"
proof -
  have ac: "acyclicCells (gridCells s)"
    using assms by (intro forwardOnly_acyclic reachable_forwardOnly)
  from step_returns [OF ac, of e] obtain s' where s': "step s e = Some s'"
    by blast
  have "freshIds s e \<longrightarrow> reachable vw vh s'"
    using assms s' by (auto intro: reachable_step)
  with ac findGridCell_returns [OF ac, of x y] s' show ?thesis
    by blast
qed

text \<open>
  The state with three docked windows is reached, and dropping window 103 once
  more there returns.
\<close>

theorem reachable_events_return_witness:
  "reachable 1200 800 threeDockedState
   \<and> acyclicCells (gridCells threeDockedState)
   \<and> (\<exists>r. findGridCell (gridCells threeDockedState) 620 500 = Some r)
   \<and> (\<exists>s'. step threeDockedState (DragEnd 620 500 ''10'' ''11'') = Some s'
          \<and> reachable 1200 800 s')"
proof -
  have f: "freshIds threeDockedState (DragEnd 620 500 ''10'' ''11'')"
    by (simp add: freshIds_def threeDockedState_def threeDockedCells_def rootId_def)
  from reachable_events_return [OF reachable_threeDocked, of 620 500 "DragEnd 620 500 ''10'' ''11''"] f
  have "acyclicCells (gridCells threeDockedState)
   \<and> (\<exists>r. findGridCell (gridCells threeDockedState) 620 500 = Some r)
   \<and> (\<exists>s'. step threeDockedState (DragEnd 620 500 ''10'' ''11'') = Some s'
          \<and> reachable 1200 800 s')"
    by blast
  with reachable_threeDocked show ?thesis by blast
qed

section \<open>Moving a free window out\<close>

text \<open>
  \<^verbatim>\<open>moveWindowOut\<close> (lines 434-476) changes nothing when no window has the id,
  and nothing when the window is not snapped (lines 435-436).
\<close>

theorem moveWindowOut_free_is_noop:
  "(find (\<lambda>w. w_id w = ident) (windows s) = None \<longrightarrow> moveWindowOut s ident pos = s)
   \<and> (\<forall>win. find (\<lambda>w. w_id w = ident) (windows s) = Some win \<and> w_snapped win = None
          \<longrightarrow> moveWindowOut s ident pos = s)"
  by (simp add: moveWindowOut_def)

text \<open>The new window 101 is not snapped, and no window is named 102.\<close>

theorem moveWindowOut_free_is_noop_witness:
  "map w_snapped (windows grabbedNewWindowState) = [None]
   \<and> moveWindowOut grabbedNewWindowState ''101'' \<lparr>p_x = 40, p_y = 50\<rparr> = grabbedNewWindowState
   \<and> moveWindowOut grabbedNewWindowState ''102'' \<lparr>p_x = 40, p_y = 50\<rparr> = grabbedNewWindowState"
proof -
  let ?win = "\<lparr>w_id = ''101'', w_color = ''#aaaaaa'',
          w_position = \<lparr>p_x = 100, p_y = 100\<rparr>,
          w_size = \<lparr>s_width = 300, s_height = 200\<rparr>,
          w_snapped = None, w_parentId = None, w_children = None\<rparr>"
  have h1: "find (\<lambda>w. w_id w = ''101'') (windows grabbedNewWindowState) = Some ?win"
    and h2: "find (\<lambda>w. w_id w = ''102'') (windows grabbedNewWindowState) = None"
    and h3: "map w_snapped (windows grabbedNewWindowState) = [None]"
    by (simp_all add: grabbedNewWindowState_def)
  have h4: "w_snapped ?win = None" by simp
  from moveWindowOut_free_is_noop [of "''101''" grabbedNewWindowState "\<lparr>p_x = 40, p_y = 50\<rparr>"] h1 h4
  have a: "moveWindowOut grabbedNewWindowState ''101'' \<lparr>p_x = 40, p_y = 50\<rparr> = grabbedNewWindowState"
    by blast
  from moveWindowOut_free_is_noop [of "''102''" grabbedNewWindowState "\<lparr>p_x = 40, p_y = 50\<rparr>"] h2
  have b: "moveWindowOut grabbedNewWindowState ''102'' \<lparr>p_x = 40, p_y = 50\<rparr> = grabbedNewWindowState"
    by blast
  from h3 a b show ?thesis by simp
qed

section \<open>Docking at a screen edge\<close>

text \<open>
  The pointer is released while a window without a parent cell is dragged, an
  indicator is shown, and the window is within \<^verbatim>\<open>SNAP_THRESHOLD\<close> of an edge of the
  viewport (lines 298-343).  Then the handler returns; the arena is unchanged; the
  drag is over and the indicator is cleared; the dragged window takes the half of
  the viewport at the indicated edge, \<^verbatim>\<open>snapped\<close> that edge and no parent cell; every
  other window is unchanged.
\<close>

theorem onDragEnd_screenEdge_dock:
  assumes "draggingId s = Some dragId" and "dragId \<noteq> []"
    and "find (\<lambda>w. w_id w = dragId) (windows s) = Some win"
    and "\<not> truthy (w_parentId win)"
    and "snapIndicator s = Some edge"
    and "isScreenEdgeSnapCandidate (innerWidth s) (innerHeight s)
           (clientX - p_x (dragOffset s)) (clientY - p_y (dragOffset s))"
  shows "\<exists>s'. onDragEnd s clientX clientY newId1 newId2 = Some s'
     \<and> gridCells s' = gridCells s
     \<and> draggingId s' = None \<and> snapIndicator s' = None
     \<and> list_all2
          (\<lambda>w w'. if w_id w = dragId
                   then w' = w\<lparr>
                          w_position :=
                            \<lparr>p_x = (if edge = SnapRight then innerWidth s / 2 else 0),
                             p_y = (if edge = SnapBottom then innerHeight s / 2 else 0)\<rparr>,
                          w_size :=
                            \<lparr>s_width = (if edge = SnapLeft \<or> edge = SnapRight
                                         then innerWidth s / 2 else innerWidth s),
                             s_height = (if edge = SnapLeft \<or> edge = SnapRight
                                          then innerHeight s else innerHeight s / 2)\<rparr>,
                          w_snapped := Some edge, w_parentId := None\<rparr>
                   else w' = w)
          (windows s) (windows s')"
proof -
  have se: "isScreenEdgeSnap win (innerWidth s) (innerHeight s)
              (clientX - p_x (dragOffset s)) (clientY - p_y (dragOffset s))"
    using assms(4,6) by (simp add: isScreenEdgeSnap_def)
  have oe: "onDragEnd s clientX clientY newId1 newId2 = Some (endDrag (screenEdgeDock s dragId edge))"
    unfolding onDragEnd_dragging [OF assms(1,2,3)] using assms(5) se by simp
  define g :: "WindowData \<Rightarrow> WindowData" where
    "g = (\<lambda>w. if w_id w = dragId
                   then w\<lparr>
                          w_position :=
                            \<lparr>p_x = (if edge = SnapRight then innerWidth s / 2 else 0),
                             p_y = (if edge = SnapBottom then innerHeight s / 2 else 0)\<rparr>,
                          w_size :=
                            \<lparr>s_width = (if edge = SnapLeft \<or> edge = SnapRight
                                         then innerWidth s / 2 else innerWidth s),
                             s_height = (if edge = SnapLeft \<or> edge = SnapRight
                                          then innerHeight s else innerHeight s / 2)\<rparr>,
                          w_snapped := Some edge, w_parentId := None\<rparr>
                   else w)"
  define P :: "WindowData \<Rightarrow> WindowData \<Rightarrow> bool" where
    "P = (\<lambda>w w'. if w_id w = dragId
                   then w' = w\<lparr>
                          w_position :=
                            \<lparr>p_x = (if edge = SnapRight then innerWidth s / 2 else 0),
                             p_y = (if edge = SnapBottom then innerHeight s / 2 else 0)\<rparr>,
                          w_size :=
                            \<lparr>s_width = (if edge = SnapLeft \<or> edge = SnapRight
                                         then innerWidth s / 2 else innerWidth s),
                             s_height = (if edge = SnapLeft \<or> edge = SnapRight
                                          then innerHeight s else innerHeight s / 2)\<rparr>,
                          w_snapped := Some edge, w_parentId := None\<rparr>
                   else w' = w)"
  have w: "windows (endDrag (screenEdgeDock s dragId edge)) = map g (windows s)"
    by (cases edge) (simp_all add: endDrag_def screenEdgeDock_def g_def)
  have "list_all2 P (windows s) (map g (windows s))"
    by (rule list_all2_map_same) (simp add: g_def P_def)
  then have l: "list_all2 P (windows s) (windows (endDrag (screenEdgeDock s dragId edge)))"
    by (simp only: w)
  have r1: "gridCells (endDrag (screenEdgeDock s dragId edge)) = gridCells s"
    and r2: "draggingId (endDrag (screenEdgeDock s dragId edge)) = None"
    and r3: "snapIndicator (endDrag (screenEdgeDock s dragId edge)) = None"
    by (simp_all add: endDrag_def screenEdgeDock_def Let_def)
  have "\<exists>s'. onDragEnd s clientX clientY newId1 newId2 = Some s'
     \<and> gridCells s' = gridCells s
     \<and> draggingId s' = None \<and> snapIndicator s' = None
     \<and> list_all2 P (windows s) (windows s')"
    using oe r1 r2 r3 l by blast
  then show ?thesis
    unfolding P_def .
qed

text \<open>
  Window 101, grabbed at (110,110), is released at (20,300) in a viewport of 1200 by
  800 while the left indicator is shown: it takes the left half.
\<close>

theorem onDragEnd_screenEdge_dock_witness:
  "draggingId (grabbedNewWindowState\<lparr>snapIndicator := Some SnapLeft\<rparr>) = Some ''101''
   \<and> isScreenEdgeSnapCandidate 1200 800 (20 - 10) (300 - 10)
   \<and> (\<exists>s'. onDragEnd (grabbedNewWindowState\<lparr>snapIndicator := Some SnapLeft\<rparr>) 20 300 ''8'' ''9''
              = Some s'
          \<and> gridCells s' = gridCells (initialState 1200 800)
          \<and> map w_position (windows s') = [\<lparr>p_x = 0, p_y = 0\<rparr>]
          \<and> map w_size (windows s') = [\<lparr>s_width = 600, s_height = 800\<rparr>]
          \<and> map w_snapped (windows s') = [Some SnapLeft]
          \<and> map w_parentId (windows s') = [None])"
proof -
  define s where "s = grabbedNewWindowState\<lparr>snapIndicator := Some SnapLeft\<rparr>"
  define win :: WindowData where "win = \<lparr>w_id = ''101'', w_color = ''#aaaaaa'',
          w_position = \<lparr>p_x = 100, p_y = 100\<rparr>,
          w_size = \<lparr>s_width = 300, s_height = 200\<rparr>,
          w_snapped = None, w_parentId = None, w_children = None\<rparr>"
  have ws: "windows s = [win]" and iw: "innerWidth s = 1200" and ih: "innerHeight s = 800"
    and off: "dragOffset s = \<lparr>p_x = 10, p_y = 10\<rparr>"
    and gs: "gridCells s = gridCells (initialState 1200 800)"
    by (simp_all add: s_def win_def grabbedNewWindowState_def)
  have h1: "draggingId s = Some ''101''" by (simp add: s_def grabbedNewWindowState_def)
  have h2: "''101'' \<noteq> []" by simp
  have h3: "find (\<lambda>w. w_id w = ''101'') (windows s) = Some win"
    by (simp add: ws) (simp add: win_def)
  have h4: "\<not> truthy (w_parentId win)" by (simp add: win_def)
  have h5: "snapIndicator s = Some SnapLeft" by (simp add: s_def)
  have c: "isScreenEdgeSnapCandidate 1200 800 (20 - 10) (300 - 10)"
    by (simp add: isScreenEdgeSnapCandidate_def SNAP_THRESHOLD_def)
  have h6: "isScreenEdgeSnapCandidate (innerWidth s) (innerHeight s)
           (20 - p_x (dragOffset s)) (300 - p_y (dragOffset s))"
    using c by (simp add: iw ih off)
  define P :: "WindowData \<Rightarrow> WindowData \<Rightarrow> bool" where
    "P = (\<lambda>w w'. if w_id w = ''101''
                   then w' = w\<lparr>
                          w_position :=
                            \<lparr>p_x = (if SnapLeft = SnapRight then innerWidth s / 2 else 0),
                             p_y = (if SnapLeft = SnapBottom then innerHeight s / 2 else 0)\<rparr>,
                          w_size :=
                            \<lparr>s_width = (if SnapLeft = SnapLeft \<or> SnapLeft = SnapRight
                                         then innerWidth s / 2 else innerWidth s),
                             s_height = (if SnapLeft = SnapLeft \<or> SnapLeft = SnapRight
                                          then innerHeight s else innerHeight s / 2)\<rparr>,
                          w_snapped := Some SnapLeft, w_parentId := None\<rparr>
                   else w' = w)"
  note th = onDragEnd_screenEdge_dock [OF h1 h2 h3 h4 h5 h6, of "''8''" "''9''", folded P_def]
  from th obtain s' where all: "onDragEnd s 20 300 ''8'' ''9'' = Some s'
     \<and> gridCells s' = gridCells s
     \<and> draggingId s' = None \<and> snapIndicator s' = None
     \<and> list_all2 P (windows s) (windows s')" ..
  from all have a: "onDragEnd s 20 300 ''8'' ''9'' = Some s'"
    and g: "gridCells s' = gridCells s"
    and l: "list_all2 P [win] (windows s')"
    unfolding ws by blast+
  from l obtain w1 where w1: "windows s' = [w1]" and pw: "P win w1"
    by (auto simp: list_all2_Cons1)
  have "w1 = win\<lparr>w_position := \<lparr>p_x = 0, p_y = 0\<rparr>,
                                    w_size := \<lparr>s_width = 600, s_height = 800\<rparr>,
                                    w_snapped := Some SnapLeft, w_parentId := None\<rparr>"
    using pw unfolding P_def iw ih by (simp add: win_def)
  with w1 have w': "windows s' = [win\<lparr>w_position := \<lparr>p_x = 0, p_y = 0\<rparr>,
                                    w_size := \<lparr>s_width = 600, s_height = 800\<rparr>,
                                    w_snapped := Some SnapLeft, w_parentId := None\<rparr>]"
    by simp
  have m: "map w_position (windows s') = [\<lparr>p_x = 0, p_y = 0\<rparr>]
          \<and> map w_size (windows s') = [\<lparr>s_width = 600, s_height = 800\<rparr>]
          \<and> map w_snapped (windows s') = [Some SnapLeft]
          \<and> map w_parentId (windows s') = [None]"
    unfolding w' by simp
  have g': "gridCells s' = gridCells (initialState 1200 800)"
    using g gs by simp
  have e: "\<exists>s'. onDragEnd s 20 300 ''8'' ''9'' = Some s'
          \<and> gridCells s' = gridCells (initialState 1200 800)
          \<and> map w_position (windows s') = [\<lparr>p_x = 0, p_y = 0\<rparr>]
          \<and> map w_size (windows s') = [\<lparr>s_width = 600, s_height = 800\<rparr>]
          \<and> map w_snapped (windows s') = [Some SnapLeft]
          \<and> map w_parentId (windows s') = [None]"
    by (rule exI [of _ s'], intro conjI) (simp_all only: a g' m)
  show ?thesis
    using h1 c e unfolding s_def by (intro conjI)
qed

end
